theory Spec2Isabelle
  imports Main
begin

section \<open>The contract lint validator of Stage A\<close>

text \<open>
  This theory embeds \<^verbatim>\<open>src/stageA/lint/contract_lint_validator.py\<close>: the class
  \<^verbatim>\<open>ContractLintValidator\<close>, its check functions and the aggregation of their findings
  into a \<^verbatim>\<open>LintResult\<close>. Every check is a function from the parsed document to either
  the exception the Python code raises or the list of findings it returns.
\<close>

subsection \<open>Documents: the values \<^verbatim>\<open>json.load\<close> returns\<close>

text \<open>
  A parsed document is a tree of Python values. A \<^verbatim>\<open>dict\<close> is kept as the list of its
  items in insertion order; where a key occurs twice in the list the first binding is the
  dict's (\<open>dict_lookup\<close>, \<open>dict_items\<close>). Numbers are the integers; floats are outside
  the model. Strings are lists of 8-bit characters, the code points below 256.
\<close>

datatype json =
    JNull
  | JBool bool
  | JNum int
  | JStr string
  | JList "json list"
  | JObj "(string \<times> json) list"

text \<open>The exceptions the validator can end with.\<close>

datatype error = ContractLintError | AttributeError | TypeError

definition dict_lookup :: "(string \<times> json) list \<Rightarrow> string \<Rightarrow> json \<Rightarrow> json" where
  \<comment> \<open>\<^verbatim>\<open>d.get(k, default)\<close> on a dict\<close>
  "dict_lookup kvs k dflt = (case map_of kvs k of None \<Rightarrow> dflt | Some v \<Rightarrow> v)"

definition dict_has :: "(string \<times> json) list \<Rightarrow> string \<Rightarrow> bool" where
  \<comment> \<open>\<^verbatim>\<open>k in d\<close> on a dict\<close>
  "dict_has kvs k = (map_of kvs k \<noteq> None)"

fun dict_items :: "(string \<times> 'a) list \<Rightarrow> (string \<times> 'a) list" where
  \<comment> \<open>\<^verbatim>\<open>d.items()\<close>: every key once, in insertion order\<close>
  "dict_items [] = []"
| "dict_items ((k, v) # kvs) = (k, v) # dict_items (filter (\<lambda>kv. fst kv \<noteq> k) kvs)"

definition dict_keys :: "(string \<times> json) list \<Rightarrow> string list" where
  "dict_keys kvs = map fst (dict_items kvs)"

definition dict_values :: "(string \<times> json) list \<Rightarrow> json list" where
  "dict_values kvs = map snd (dict_items kvs)"

fun is_dict :: "json \<Rightarrow> bool" where
  \<comment> \<open>\<^verbatim>\<open>isinstance(x, dict)\<close>\<close>
  "is_dict (JObj kvs) = True"
| "is_dict _ = False"

fun is_list :: "json \<Rightarrow> bool" where
  \<comment> \<open>\<^verbatim>\<open>isinstance(x, list)\<close>\<close>
  "is_list (JList xs) = True"
| "is_list _ = False"

fun truthy :: "json \<Rightarrow> bool" where
  \<comment> \<open>Python's truth value of an object\<close>
  "truthy JNull = False"
| "truthy (JBool b) = b"
| "truthy (JNum n) = (n \<noteq> 0)"
| "truthy (JStr s) = (s \<noteq> [])"
| "truthy (JList xs) = (xs \<noteq> [])"
| "truthy (JObj kvs) = (kvs \<noteq> [])"

fun py_len :: "json \<Rightarrow> error + nat" where
  \<comment> \<open>\<^verbatim>\<open>len(x)\<close>\<close>
  "py_len (JStr s) = Inr (length s)"
| "py_len (JList xs) = Inr (length xs)"
| "py_len (JObj kvs) = Inr (length (dict_items kvs))"
| "py_len _ = Inl TypeError"

fun py_get :: "json \<Rightarrow> string \<Rightarrow> json \<Rightarrow> error + json" where
  \<comment> \<open>\<^verbatim>\<open>x.get(k, default)\<close>: only a dict has the method\<close>
  "py_get (JObj kvs) k dflt = Inr (dict_lookup kvs k dflt)"
| "py_get _ k dflt = Inl AttributeError"

fun is_prefix :: "string \<Rightarrow> string \<Rightarrow> bool" where
  "is_prefix [] s = True"
| "is_prefix (c # cs) [] = False"
| "is_prefix (c # cs) (d # ds) = (c = d \<and> is_prefix cs ds)"

fun is_substring :: "string \<Rightarrow> string \<Rightarrow> bool" where
  "is_substring k [] = (k = [])"
| "is_substring k (c # cs) = (is_prefix k (c # cs) \<or> is_substring k cs)"

fun py_contains :: "string \<Rightarrow> json \<Rightarrow> error + bool" where
  \<comment> \<open>\<^verbatim>\<open>k in x\<close> for a string \<open>k\<close>: a key of a dict, an element of a list, a substring
      of a string; the other values are not containers\<close>
  "py_contains k (JObj kvs) = Inr (dict_has kvs k)"
| "py_contains k (JList xs) = Inr (JStr k \<in> set xs)"
| "py_contains k (JStr s) = Inr (is_substring k s)"
| "py_contains k _ = Inl TypeError"

fun py_iter :: "json \<Rightarrow> error + json list" where
  \<comment> \<open>the elements a \<^verbatim>\<open>for\<close> loop over \<open>x\<close> visits: the elements of a list, the
      keys of a dict, the characters of a string\<close>
  "py_iter (JList xs) = Inr xs"
| "py_iter (JObj kvs) = Inr (map JStr (dict_keys kvs))"
| "py_iter (JStr s) = Inr (map (\<lambda>c. JStr [c]) s)"
| "py_iter _ = Inl TypeError"

text \<open>
  Members of a Python \<^verbatim>\<open>set\<close> are compared by \<^verbatim>\<open>hash\<close> and \<^verbatim>\<open>==\<close>:
  \<^verbatim>\<open>True\<close> and \<^verbatim>\<open>1\<close> are the same member, and a list or a dict is unhashable
  (\<^verbatim>\<open>TypeError\<close>). A set is kept as the list of its members' keys, in insertion order;
  a set whose members are printed is kept with the members beside their keys
  (\<open>collect_field\<close>).
\<close>

datatype key = KNone | KNum int | KStr string

fun hash_key :: "json \<Rightarrow> error + key" where
  "hash_key JNull = Inr KNone"
| "hash_key (JBool b) = Inr (KNum (if b then 1 else 0))"
| "hash_key (JNum n) = Inr (KNum n)"
| "hash_key (JStr s) = Inr (KStr s)"
| "hash_key (JList xs) = Inl TypeError"
| "hash_key (JObj kvs) = Inl TypeError"

definition set_add :: "key \<Rightarrow> key list \<Rightarrow> key list" where
  \<comment> \<open>\<^verbatim>\<open>s.add(k)\<close>\<close>
  "set_add k s = (if k \<in> set s then s else s @ [k])"

fun set_of_values :: "json list \<Rightarrow> key list \<Rightarrow> error + key list" where
  \<comment> \<open>adds the values to a set one by one, as \<^verbatim>\<open>s.update(values)\<close> does\<close>
  "set_of_values [] s = Inr s"
| "set_of_values (v # vs) s =
     (case hash_key v of Inl e \<Rightarrow> Inl e | Inr k \<Rightarrow> set_of_values vs (set_add k s))"

definition py_in_set :: "json \<Rightarrow> key list \<Rightarrow> error + bool" where
  \<comment> \<open>\<^verbatim>\<open>x in s\<close> for a set \<open>s\<close>\<close>
  "py_in_set x s = (case hash_key x of Inl e \<Rightarrow> Inl e | Inr k \<Rightarrow> Inr (k \<in> set s))"

definition py_eq_str :: "json \<Rightarrow> string \<Rightarrow> bool" where
  \<comment> \<open>\<^verbatim>\<open>x == "s"\<close>: only the same string equals a string\<close>
  "py_eq_str x s = (x = JStr s)"

subsection \<open>Findings and results\<close>

datatype Severity = ERROR | WARNING

text \<open>
  A message is the string its f-string evaluates to: the literal pieces and, for every
  interpolated value, what \<^verbatim>\<open>str()\<close> returns for it (\<open>py_str\<close> below).
\<close>

record LintIssue =
  code :: string
  severity :: Severity
  message :: string
  path :: string

record LintResult =
  file_path :: string
  passed :: bool
  score :: int
  errors :: "LintIssue list"
  warnings :: "LintIssue list"

definition sq :: string where
  \<comment> \<open>the single quote of the messages\<close>
  "sq = [CHR 0x27]"

definition issue :: "string \<Rightarrow> Severity \<Rightarrow> string \<Rightarrow> string \<Rightarrow> LintIssue" where
  \<comment> \<open>the constructor \<^verbatim>\<open>LintIssue(code, severity, message, path)\<close>\<close>
  "issue c s m p = \<lparr>code = c, severity = s, message = m, path = p\<rparr>"

subsection \<open>The score\<close>

definition calculate_score :: "LintIssue list \<Rightarrow> LintIssue list \<Rightarrow> int" where
  \<comment> \<open>\<^verbatim>\<open>_calculate_score\<close>\<close>
  "calculate_score errs warns =
     (if errs \<noteq> [] then max 0 (50 - int (length errs) * 10)
      else max 70 (100 - int (length warns) * 5))"

definition build_result :: "string \<Rightarrow> LintIssue list \<Rightarrow> LintResult" where
  \<comment> \<open>the end of \<^verbatim>\<open>validate_contract\<close>: the findings are separated by severity, scored
      and returned\<close>
  "build_result p issues =
     (let errs = filter (\<lambda>i. severity i = ERROR) issues;
          warns = filter (\<lambda>i. severity i = WARNING) issues
      in \<lparr>file_path = p, passed = (length errs = 0), score = calculate_score errs warns,
          errors = errs, warnings = warns\<rparr>)"

definition error_count :: "LintIssue list \<Rightarrow> nat" where
  "error_count issues = length (filter (\<lambda>i. severity i = ERROR) issues)"

definition warning_count :: "LintIssue list \<Rightarrow> nat" where
  "warning_count issues = length (filter (\<lambda>i. severity i = WARNING) issues)"

subsection \<open>Control flow: exceptions and loops\<close>

fun andThen :: "error + 'a \<Rightarrow> ('a \<Rightarrow> error + 'b) \<Rightarrow> error + 'b" where
  \<comment> \<open>sequencing: an exception of the first computation ends the whole\<close>
  "andThen (Inl e) f = Inl e"
| "andThen (Inr v) f = f v"

fun for_each :: "('a \<Rightarrow> error + 'b list) \<Rightarrow> 'a list \<Rightarrow> error + 'b list" where
  \<comment> \<open>\<^verbatim>\<open>for x in xs: issues.extend(body(x))\<close>\<close>
  "for_each body [] = Inr []"
| "for_each body (x # xs) =
     (case body x of Inl e \<Rightarrow> Inl e
      | Inr out \<Rightarrow> (case for_each body xs of Inl e \<Rightarrow> Inl e | Inr rest \<Rightarrow> Inr (out @ rest)))"

fun for_enumerate :: "(nat \<Rightarrow> 'a \<Rightarrow> error + 'b list) \<Rightarrow> nat \<Rightarrow> 'a list \<Rightarrow> error + 'b list" where
  \<comment> \<open>\<^verbatim>\<open>for i, x in enumerate(xs): issues.extend(body(i, x))\<close>, counting from \<open>i\<close>\<close>
  "for_enumerate body i [] = Inr []"
| "for_enumerate body i (x # xs) =
     (case body i x of Inl e \<Rightarrow> Inl e
      | Inr out \<Rightarrow>
          (case for_enumerate body (Suc i) xs of Inl e \<Rightarrow> Inl e | Inr rest \<Rightarrow> Inr (out @ rest)))"

fun for_state ::
  "(nat \<Rightarrow> 'a \<Rightarrow> 's \<Rightarrow> error + ('b list \<times> 's)) \<Rightarrow> nat \<Rightarrow> 'a list \<Rightarrow> 's \<Rightarrow> error + ('b list \<times> 's)" where
  \<comment> \<open>an enumerating loop whose body also updates a local variable of the check\<close>
  "for_state body i [] s = Inr ([], s)"
| "for_state body i (x # xs) s =
     (case body i x s of Inl e \<Rightarrow> Inl e
      | Inr (out, s') \<Rightarrow>
          (case for_state body (Suc i) xs s' of Inl e \<Rightarrow> Inl e
           | Inr (rest, s'') \<Rightarrow> Inr (out @ rest, s'')))"

definition missing_fields ::
  "(string \<times> json) list \<Rightarrow> string list \<Rightarrow> (string \<Rightarrow> LintIssue) \<Rightarrow> LintIssue list" where
  \<comment> \<open>\<^verbatim>\<open>for field in names: if field not in d: issues.append(mk(field))\<close> on a dict\<close>
  "missing_fields kvs names mk = map mk (filter (\<lambda>f. \<not> dict_has kvs f) names)"

subsection \<open>Rendering values: \<^verbatim>\<open>str\<close> and \<^verbatim>\<open>repr\<close>\<close>

definition digit_char :: "nat \<Rightarrow> char" where
  "digit_char d = char_of (48 + d)"

fun str_nat :: "nat \<Rightarrow> string" where
  \<comment> \<open>\<^verbatim>\<open>str(i)\<close> of an index\<close>
  "str_nat n = (if n < 10 then [digit_char n] else str_nat (n div 10) @ [digit_char (n mod 10)])"

declare str_nat.simps [simp del]

definition str_int :: "int \<Rightarrow> string" where
  \<comment> \<open>\<^verbatim>\<open>str(n)\<close> of an integer\<close>
  "str_int n = (if n < 0 then CHR ''-'' # str_nat (nat (- n)) else str_nat (nat n))"

text \<open>
  \<^verbatim>\<open>repr\<close> of a string puts it in single quotes, or in double quotes when it holds a
  single quote and no double quote; it escapes the quote in use, the backslash, tab, newline
  and carriage return, and writes every other character that is not printable as
  \<^verbatim>\<open>\xNN\<close>. Below 256 the printable characters are the ASCII characters from the
  space to the tilde and the characters from \<^verbatim>\<open>0xA1\<close> on, the soft hyphen
  \<^verbatim>\<open>0xAD\<close> excepted.
\<close>

definition hex_digit :: "nat \<Rightarrow> char" where
  "hex_digit d = ''0123456789abcdef'' ! d"

definition printable :: "char \<Rightarrow> bool" where
  "printable c =
     (let n = (of_char c :: nat) in (32 \<le> n \<and> n < 127) \<or> (161 \<le> n \<and> n \<noteq> 173))"

definition repr_char :: "char \<Rightarrow> char \<Rightarrow> string" where
  \<comment> \<open>one character of a string inside the quotes \<open>q\<close>\<close>
  "repr_char q c =
     (if c = q \<or> c = CHR 0x5C then [CHR 0x5C, c]
      else if c = CHR 0x09 then [CHR 0x5C, CHR ''t'']
      else if c = CHR 0x0A then [CHR 0x5C, CHR ''n'']
      else if c = CHR 0x0D then [CHR 0x5C, CHR ''r'']
      else if printable c then [c]
      else [CHR 0x5C, CHR ''x'', hex_digit (of_char c div 16), hex_digit (of_char c mod 16)])"

definition repr_str :: "string \<Rightarrow> string" where
  \<comment> \<open>\<^verbatim>\<open>repr(s)\<close> of a string\<close>
  "repr_str s =
     (let q = (if CHR 0x27 \<in> set s \<and> CHR 0x22 \<notin> set s then CHR 0x22 else CHR 0x27)
      in q # concat (map (repr_char q) s) @ [q])"

fun comma_separated :: "string list \<Rightarrow> string" where
  \<comment> \<open>\<^verbatim>\<open>", ".join(xs)\<close>\<close>
  "comma_separated [] = []"
| "comma_separated [x] = x"
| "comma_separated (x # y # ys) = x @ '', '' @ comma_separated (y # ys)"

fun py_repr :: "json \<Rightarrow> string" where
  \<comment> \<open>\<^verbatim>\<open>repr(x)\<close>\<close>
  "py_repr JNull = ''None''"
| "py_repr (JBool b) = (if b then ''True'' else ''False'')"
| "py_repr (JNum n) = str_int n"
| "py_repr (JStr s) = repr_str s"
| "py_repr (JList xs) = ''['' @ comma_separated (map py_repr xs) @ '']''"
| "py_repr (JObj kvs) =
     ''{''
     @ comma_separated
         (map snd (dict_items (map (\<lambda>(k, v). (k, repr_str k @ '': '' @ py_repr v)) kvs)))
     @ ''}''"

fun py_str :: "json \<Rightarrow> string" where
  \<comment> \<open>\<^verbatim>\<open>str(x)\<close>, which an f-string applies to an interpolated value: a string is
      itself, every other value is its \<^verbatim>\<open>repr\<close>\<close>
  "py_str (JStr s) = s"
| "py_str v = py_repr v"

subsection \<open>The regular expressions\<close>

text \<open>
  Each pattern is anchored as \<^verbatim>\<open>^...$\<close> and used with \<^verbatim>\<open>match\<close>. In Python
  \<^verbatim>\<open>$\<close> also matches just before a newline that ends the string, and none of the
  patterns can consume a newline themselves.
\<close>

definition is_digit :: "char \<Rightarrow> bool" where
  "is_digit c = (c \<in> set ''0123456789'')"

definition is_roman :: "char \<Rightarrow> bool" where
  "is_roman c = (c \<in> set ''IVXLCDM'')"

definition is_upper_alnum :: "char \<Rightarrow> bool" where
  "is_upper_alnum c = (c \<in> set ''ABCDEFGHIJKLMNOPQRSTUVWXYZ0123456789'')"

definition digits1 :: "string \<Rightarrow> bool" where
  \<comment> \<open>\<^verbatim>\<open>\d+\<close> up to the end\<close>
  "digits1 s = (s \<noteq> [] \<and> list_all is_digit s)"

fun shape :: "string \<Rightarrow> string \<Rightarrow> bool" where
  \<comment> \<open>a pattern of fixed length: \<open>#\<close> in the template is \<^verbatim>\<open>\d\<close>, any other character
      is itself\<close>
  "shape [] [] = True"
| "shape (t # ts) (c # cs) = ((if t = CHR ''#'' then is_digit c else c = t) \<and> shape ts cs)"
| "shape _ _ = False"

definition at_end :: "(string \<Rightarrow> bool) \<Rightarrow> string \<Rightarrow> bool" where
  "at_end full s = (full s \<or> (s \<noteq> [] \<and> last s = CHR 0x0A \<and> full (butlast s)))"

definition module_id_full :: "string \<Rightarrow> bool" where
  \<comment> \<open>\<^verbatim>\<open>A-(?:[IVXLCDM]+)-\d+(?:\.\d+)?\<close>\<close>
  "module_id_full s =
     (case s of
        a # b # r \<Rightarrow>
          a = CHR ''A'' \<and> b = CHR ''-'' \<and> takeWhile is_roman r \<noteq> [] \<and>
          (case dropWhile is_roman r of
             [] \<Rightarrow> False
           | c # r2 \<Rightarrow>
               c = CHR ''-'' \<and> takeWhile is_digit r2 \<noteq> [] \<and>
               (case dropWhile is_digit r2 of
                  [] \<Rightarrow> True
                | d # r3 \<Rightarrow> d = CHR ''.'' \<and> digits1 r3))
      | _ \<Rightarrow> False)"

definition module_abbr_full :: "string \<Rightarrow> bool" where
  \<comment> \<open>\<^verbatim>\<open>[A-Z0-9]{2,8}\<close>\<close>
  "module_abbr_full s = (2 \<le> length s \<and> length s \<le> 8 \<and> list_all is_upper_alnum s)"

definition semver_full :: "string \<Rightarrow> bool" where
  \<comment> \<open>\<^verbatim>\<open>\d+\.\d+\.\d+\<close>\<close>
  "semver_full s =
     (takeWhile is_digit s \<noteq> [] \<and>
      (case dropWhile is_digit s of
         [] \<Rightarrow> False
       | c # r \<Rightarrow>
           c = CHR ''.'' \<and> takeWhile is_digit r \<noteq> [] \<and>
           (case dropWhile is_digit r of
              [] \<Rightarrow> False
            | d # r2 \<Rightarrow> d = CHR ''.'' \<and> digits1 r2)))"

definition timestamp_full :: "string \<Rightarrow> bool" where
  \<comment> \<open>\<^verbatim>\<open>\d{4}-\d{2}-\d{2}T\d{2}:\d{2}:\d{2}\+02:00\<close>\<close>
  "timestamp_full s = shape ''####-##-##T##:##:##+02:00'' s"

definition error_code_full :: "string \<Rightarrow> bool" where
  "error_code_full s = shape ''E###'' s"

definition warning_code_full :: "string \<Rightarrow> bool" where
  "warning_code_full s = shape ''W###'' s"

definition step_id_full :: "string \<Rightarrow> bool" where
  "step_id_full s = shape ''S###'' s"

fun re_match :: "(string \<Rightarrow> bool) \<Rightarrow> json \<Rightarrow> error + bool" where
  \<comment> \<open>\<^verbatim>\<open>PATTERN.match(x)\<close>: a value that is not a string is a \<^verbatim>\<open>TypeError\<close>\<close>
  "re_match full (JStr s) = Inr (at_end full s)"
| "re_match full _ = Inl TypeError"

subsection \<open>The constants of the class\<close>

definition REQUIRED_FIELDS :: "string list" where
  "REQUIRED_FIELDS =
     [''_schema'', ''module_id'', ''module_abbr'', ''module_type'', ''module_name'',
      ''version'', ''description'', ''io_contract'', ''parameters'', ''parameter_groups'',
      ''constraints'', ''validation'', ''error_codes'', ''algorithm'', ''relations'',
      ''test_cases'', ''policies'']"

definition REQUIRED_SCHEMA_FIELDS :: "string list" where
  "REQUIRED_SCHEMA_FIELDS =
     [''name'', ''version'', ''stage'', ''maturity_stage'',
      ''static_frame_only'', ''underpainting_intent'', ''created_at'', ''updated_at'']"

definition VALID_MODULE_TYPES :: "key list" where
  "VALID_MODULE_TYPES = map KStr [''RULESET'', ''PROCESS'', ''BRIDGE'']"

definition VALID_MATURITY_STAGES :: "key list" where
  "VALID_MATURITY_STAGES = map KStr [''pilot'', ''draft'', ''stable'']"

definition VALID_UNDERPAINTING_INTENTS :: "key list" where
  "VALID_UNDERPAINTING_INTENTS =
     map KStr [''structure_only'', ''structure_plus_masks'', ''structure_plus_metadata'']"

definition VALID_PARAM_TYPES :: "key list" where
  "VALID_PARAM_TYPES = map KStr [''float'', ''int'', ''boolean'', ''enum'', ''string'']"

definition VALID_STEP_TYPES :: "key list" where
  "VALID_STEP_TYPES =
     map KStr [''load'', ''transform'', ''filter'', ''validate'', ''normalize'', ''classify'',
               ''export'', ''validate_module'']"

definition VALID_TEST_TYPES :: "key list" where
  "VALID_TEST_TYPES = map KStr [''positive'', ''negative'', ''warning'']"

subsection \<open>Structural checks\<close>

definition check_required_fields :: "json \<Rightarrow> error + LintIssue list" where
  \<comment> \<open>\<^verbatim>\<open>_check_required_fields\<close>\<close>
  "check_required_fields data =
     for_each
       (\<lambda>field.
          andThen (py_contains field data)
            (\<lambda>present.
               Inr (if present then []
                    else [issue ''E010'' ERROR
                            (''Missing required field: '' @ field)
                            (''$.'' @ field)])))
       REQUIRED_FIELDS"

definition timestamp_issues :: "(string \<times> json) list \<Rightarrow> string \<Rightarrow> error + LintIssue list" where
  \<comment> \<open>the body of the loop over \<^verbatim>\<open>["created_at", "updated_at"]\<close>\<close>
  "timestamp_issues schema ts_field =
     (let ts = dict_lookup schema ts_field (JStr []) in
      if truthy ts then
        andThen (re_match timestamp_full ts)
          (\<lambda>ok.
             Inr (if ok then []
                  else [issue ''E012'' ERROR
                          (''_schema.'' @ ts_field @ '' must be ISO8601 with +02:00'')
                          (''$._schema.'' @ ts_field)]))
      else Inr [])"

definition schema_field_issues :: "(string \<times> json) list \<Rightarrow> bool \<Rightarrow> bool \<Rightarrow> LintIssue list" where
  \<comment> \<open>the \<open>E011\<close> findings of \<^verbatim>\<open>_check_schema_block\<close> on a dict: required fields, name,
      stage, maturity stage and underpainting intent; the two messages that print a set of
      the class are kept with the members in the order of the source text\<close>
  "schema_field_issues kvs stage_ok intent_ok =
     missing_fields kvs REQUIRED_SCHEMA_FIELDS
       (\<lambda>field.
          issue ''E011'' ERROR (''Missing _schema.'' @ field)
            (''$._schema.'' @ field))
     @ (if \<not> py_eq_str (dict_lookup kvs ''name'' JNull) ''A-PRACTICAL.contract''
        then [issue ''E011'' ERROR
                (''_schema.name must be 'A-PRACTICAL.contract'' @ sq)
                ''$._schema.name'']
        else [])
     @ (if \<not> py_eq_str (dict_lookup kvs ''stage'' JNull) ''A.contract_only''
        then [issue ''E011'' ERROR
                (''_schema.stage must be 'A.contract_only'' @ sq)
                ''$._schema.stage'']
        else [])
     @ (if \<not> stage_ok
        then [issue ''E011'' ERROR
                (''_schema.maturity_stage must be one of ''
                 @ ''{'pilot', 'draft', 'stable'}'')
                ''$._schema.maturity_stage'']
        else [])
     @ (if \<not> intent_ok
        then [issue ''E011'' ERROR
                (''_schema.underpainting_intent must be one of ''
                 @ ''{'structure_only', 'structure_plus_masks', 'structure_plus_metadata'}'')
                ''$._schema.underpainting_intent'']
        else [])"

definition check_schema_block :: "json \<Rightarrow> error + LintIssue list" where
  \<comment> \<open>\<^verbatim>\<open>_check_schema_block\<close>\<close>
  "check_schema_block data =
     andThen (py_get data ''_schema'' (JObj []))
       (\<lambda>schema.
          case schema of
            JObj kvs \<Rightarrow>
              andThen (py_in_set (dict_lookup kvs ''maturity_stage'' JNull) VALID_MATURITY_STAGES)
                (\<lambda>stage_ok.
                   andThen
                     (py_in_set (dict_lookup kvs ''underpainting_intent'' JNull)
                        VALID_UNDERPAINTING_INTENTS)
                     (\<lambda>intent_ok.
                        andThen (for_each (timestamp_issues kvs) [''created_at'', ''updated_at''])
                          (\<lambda>ts_issues.
                             Inr (schema_field_issues kvs stage_ok intent_ok @ ts_issues))))
          | _ \<Rightarrow> Inr [issue ''E011'' ERROR ''_schema must be an object'' ''$._schema''])"

definition has_uk_and_en :: "json \<Rightarrow> bool" where
  \<comment> \<open>the negation of \<^verbatim>\<open>not isinstance(mname, dict) or "uk" not in mname or "en" not in mname\<close>\<close>
  "has_uk_and_en mname =
     (case mname of JObj kvs \<Rightarrow> dict_has kvs ''uk'' \<and> dict_has kvs ''en'' | _ \<Rightarrow> False)"

definition check_module_identity :: "json \<Rightarrow> error + LintIssue list" where
  \<comment> \<open>\<^verbatim>\<open>_check_module_identity\<close>\<close>
  "check_module_identity data =
     andThen (py_get data ''module_id'' (JStr []))
       (\<lambda>module_id. andThen (re_match module_id_full module_id)
       (\<lambda>id_ok. andThen (py_get data ''module_abbr'' (JStr []))
       (\<lambda>abbr. andThen (re_match module_abbr_full abbr)
       (\<lambda>abbr_ok. andThen (py_get data ''module_type'' (JStr []))
       (\<lambda>mtype. andThen (py_in_set mtype VALID_MODULE_TYPES)
       (\<lambda>type_ok. andThen (py_get data ''version'' (JStr []))
       (\<lambda>version. andThen (re_match semver_full version)
       (\<lambda>version_ok. andThen (py_get data ''module_name'' (JObj []))
       (\<lambda>mname.
          Inr ((if \<not> id_ok
                then [issue ''E013'' ERROR (''Invalid module_id format: '' @ py_str module_id)
                        ''$.module_id'']
                else [])
               @ (if \<not> abbr_ok
                  then [issue ''E013'' ERROR (''Invalid module_abbr format: '' @ py_str abbr)
                          ''$.module_abbr'']
                  else [])
               @ (if \<not> type_ok
                  then [issue ''E013'' ERROR (''Invalid module_type: '' @ py_str mtype)
                          ''$.module_type'']
                  else [])
               @ (if \<not> version_ok
                  then [issue ''E013'' ERROR (''Invalid version format: '' @ py_str version)
                          ''$.version'']
                  else [])
               @ (if \<not> has_uk_and_en mname
                  then [issue ''E014'' ERROR ''module_name must have 'uk' and 'en' keys''
                          ''$.module_name'']
                  else [])))))))))))"

definition parameter_issues :: "string \<Rightarrow> json \<Rightarrow> error + LintIssue list" where
  \<comment> \<open>the body of \<^verbatim>\<open>for name, param in params.items()\<close>\<close>
  "parameter_issues name param_value =
     (case param_value of
        JObj param \<Rightarrow>
          (let ptype = dict_lookup param ''type'' (JStr []) in
           andThen (py_in_set ptype VALID_PARAM_TYPES)
             (\<lambda>type_ok.
                Inr (missing_fields param [''type'', ''unit'', ''description'']
                       (\<lambda>field.
                          issue ''E020'' ERROR
                            (''Parameter '' @ name @ '' missing '' @ sq @ field @ sq)
                            (''$.parameters.'' @ name @ ''.'' @ field))
                     @ (if \<not> type_ok
                        then [issue ''E021'' ERROR
                                (''Parameter '' @ name @ '' has invalid type: '' @ py_str ptype)
                                (''$.parameters.'' @ name @ ''.type'')]
                        else [])
                     @ (if py_eq_str ptype ''enum'' \<and> \<not> dict_has param ''enum''
                        then [issue ''E021'' ERROR
                                (''Parameter '' @ name @ '' with type 'enum' must have 'enum' array'')
                                (''$.parameters.'' @ name @ ''.enum'')]
                        else []))))
      | _ \<Rightarrow>
          Inr [issue ''E020'' ERROR (''Parameter '' @ name @ '' must be an object'')
                 (''$.parameters.'' @ name)])"

fun py_values :: "json \<Rightarrow> error + json list" where
  \<comment> \<open>\<^verbatim>\<open>x.values()\<close>\<close>
  "py_values (JObj kvs) = Inr (dict_values kvs)"
| "py_values _ = Inl AttributeError"

fun py_keys :: "json \<Rightarrow> error + string list" where
  \<comment> \<open>\<^verbatim>\<open>x.keys()\<close>\<close>
  "py_keys (JObj kvs) = Inr (dict_keys kvs)"
| "py_keys _ = Inl AttributeError"

fun grouped_params :: "json list \<Rightarrow> key list \<Rightarrow> error + key list" where
  \<comment> \<open>the loop over \<^verbatim>\<open>groups.values()\<close>; a group that is not a list is passed over\<close>
  "grouped_params [] s = Inr s"
| "grouped_params (g # gs) s =
     (case g of
        JList xs \<Rightarrow>
          (case set_of_values xs s of Inl e \<Rightarrow> Inl e | Inr s' \<Rightarrow> grouped_params gs s')
      | _ \<Rightarrow> grouped_params gs s)"

definition check_parameters :: "json \<Rightarrow> error + LintIssue list" where
  \<comment> \<open>\<^verbatim>\<open>_check_parameters\<close>\<close>
  "check_parameters data =
     andThen (py_get data ''parameters'' (JObj []))
       (\<lambda>params.
          case params of
            JObj kvs \<Rightarrow>
              if length (dict_items kvs) = 0
              then Inr [issue ''E020'' ERROR ''parameters must be a non-empty object''
                          ''$.parameters'']
              else
                andThen (for_each (\<lambda>(name, param). parameter_issues name param) (dict_items kvs))
                  (\<lambda>param_issues. andThen (py_get data ''parameter_groups'' (JObj []))
                  (\<lambda>groups. andThen (py_values groups)
                  (\<lambda>group_values. andThen (grouped_params group_values [])
                  (\<lambda>grouped.
                     Inr (param_issues
                          @ map (\<lambda>pname.
                                   issue ''W020'' WARNING
                                     (''Parameter '' @ pname @ '' not in any parameter_group'')
                                     (''$.parameters.'' @ pname))
                              (filter (\<lambda>pname. KStr pname \<notin> set grouped) (dict_keys kvs)))))))
          | _ \<Rightarrow>
              Inr [issue ''E020'' ERROR ''parameters must be a non-empty object''
                     ''$.parameters''])"

subsection \<open>Constraints, validation rules and the error-code registry\<close>

definition member_add :: "key \<Rightarrow> json \<Rightarrow> (key \<times> json) list \<Rightarrow> (key \<times> json) list" where
  \<comment> \<open>\<^verbatim>\<open>s.add(v)\<close> where \<open>k\<close> is the key of \<open>v\<close>: of two equal members the set
      keeps the one added first\<close>
  "member_add k v s = (if k \<in> set (map fst s) then s else s @ [(k, v)])"

fun collect_field ::
  "string \<Rightarrow> json list \<Rightarrow> (key \<times> json) list \<Rightarrow> error + (key \<times> json) list" where
  "collect_field field [] s = Inr s"
| "collect_field field (x # xs) s =
     (case py_get x field JNull of
        Inl e \<Rightarrow> Inl e
      | Inr v \<Rightarrow>
          (case hash_key v of
             Inl e \<Rightarrow> Inl e
           | Inr k \<Rightarrow> collect_field field xs (member_add k v s)))"

definition members_of_field :: "string \<Rightarrow> json \<Rightarrow> error + (key \<times> json) list" where
  \<comment> \<open>the set comprehension \<^verbatim>\<open>{x.get(field) for x in container}\<close>, every member
      with its key\<close>
  "members_of_field field container =
     andThen (py_iter container) (\<lambda>xs. collect_field field xs [])"

definition set_of_field :: "string \<Rightarrow> json \<Rightarrow> error + key list" where
  \<comment> \<open>the same set comprehension where only membership in the set is tested\<close>
  "set_of_field field container =
     andThen (members_of_field field container) (\<lambda>members. Inr (map fst members))"

definition error_codes_defined :: "json \<Rightarrow> error + key list" where
  \<comment> \<open>\<^verbatim>\<open>{ec.get("code") for ec in data.get("error_codes", [])}\<close>\<close>
  "error_codes_defined data =
     andThen (py_get data ''error_codes'' (JList [])) (set_of_field ''code'')"

definition constraint_issues :: "key list \<Rightarrow> nat \<Rightarrow> json \<Rightarrow> error + LintIssue list" where
  \<comment> \<open>the body of the loop of \<^verbatim>\<open>_check_constraints\<close>\<close>
  "constraint_issues defined i c =
     (case c of
        JObj kvs \<Rightarrow>
          (let ec = dict_lookup kvs ''error_code'' (JStr []) in
           andThen
             (if \<not> truthy ec
              then Inr [issue ''E030'' ERROR
                          (''Constraint ['' @ str_nat i @ ''] missing 'error_code'' @ sq)
                          (''$.constraints['' @ str_nat i @ ''].error_code'')]
              else
                andThen (re_match error_code_full ec)
                  (\<lambda>format_ok.
                     if \<not> format_ok
                     then Inr [issue ''E030'' ERROR
                                 (''Constraint ['' @ str_nat i
                                  @ ''] error_code must match E### format'')
                                 (''$.constraints['' @ str_nat i @ ''].error_code'')]
                     else
                       andThen (py_in_set ec defined)
                         (\<lambda>is_defined.
                            Inr (if \<not> is_defined
                                 then [issue ''E031'' ERROR
                                         (''Constraint error_code '' @ py_str ec
                                          @ '' not defined in error_codes'')
                                         (''$.constraints['' @ str_nat i @ ''].error_code'')]
                                 else []))))
             (\<lambda>ec_issues.
                Inr ((if \<not> dict_has kvs ''expr''
                      then [issue ''E030'' ERROR
                              (''Constraint ['' @ str_nat i @ ''] missing 'expr'' @ sq)
                              (''$.constraints['' @ str_nat i @ ''].expr'')]
                      else [])
                     @ ec_issues)))
      | _ \<Rightarrow>
          Inr [issue ''E030'' ERROR
                 (''Constraint ['' @ str_nat i @ ''] must be an object'')
                 (''$.constraints['' @ str_nat i @ '']'')])"

definition check_constraints :: "json \<Rightarrow> error + LintIssue list" where
  \<comment> \<open>\<^verbatim>\<open>_check_constraints\<close>\<close>
  "check_constraints data =
     andThen (py_get data ''constraints'' (JList []))
       (\<lambda>constraints.
          case constraints of
            JList cs \<Rightarrow>
              if length cs = 0
              then Inr [issue ''E030'' ERROR ''constraints must be a non-empty array''
                          ''$.constraints'']
              else
                andThen (error_codes_defined data)
                  (\<lambda>defined. for_enumerate (constraint_issues defined) 0 cs)
          | _ \<Rightarrow>
              Inr [issue ''E030'' ERROR ''constraints must be a non-empty array''
                     ''$.constraints''])"

definition rule_issues :: "key list \<Rightarrow> nat \<Rightarrow> json \<Rightarrow> error + LintIssue list" where
  \<comment> \<open>the body of the loop of \<^verbatim>\<open>_check_validation_rules\<close>\<close>
  "rule_issues defined i rule =
     (case rule of
        JObj kvs \<Rightarrow>
          (let ec = dict_lookup kvs ''error_code'' (JStr []) in
           andThen
             (if truthy ec
              then
                andThen (re_match warning_code_full ec)
                  (\<lambda>format_ok.
                     if \<not> format_ok
                     then Inr [issue ''E040'' ERROR
                                 (''Validation rule ['' @ str_nat i
                                  @ ''] error_code must match W### format'')
                                 (''$.validation.rules['' @ str_nat i @ ''].error_code'')]
                     else
                       andThen (py_in_set ec defined)
                         (\<lambda>is_defined.
                            Inr (if \<not> is_defined
                                 then [issue ''E041'' ERROR
                                         (''Validation warning code '' @ py_str ec
                                          @ '' not defined in error_codes'')
                                         (''$.validation.rules['' @ str_nat i @ ''].error_code'')]
                                 else [])))
              else Inr [])
             (\<lambda>ec_issues.
                Inr (missing_fields kvs
                       [''name'', ''condition'', ''severity'', ''message'', ''error_code'']
                       (\<lambda>field.
                          issue ''E040'' ERROR
                            (''Validation rule ['' @ str_nat i @ ''] missing '' @ sq @ field @ sq)
                            (''$.validation.rules['' @ str_nat i @ ''].'' @ field))
                     @ (if \<not> py_eq_str (dict_lookup kvs ''severity'' JNull) ''warning''
                        then [issue ''E040'' ERROR
                                (''Validation rule ['' @ str_nat i
                                 @ ''] severity must be 'warning'' @ sq)
                                (''$.validation.rules['' @ str_nat i @ ''].severity'')]
                        else [])
                     @ ec_issues)))
      | _ \<Rightarrow> Inr [])"

definition check_validation_rules :: "json \<Rightarrow> error + LintIssue list" where
  \<comment> \<open>\<^verbatim>\<open>_check_validation_rules\<close>\<close>
  "check_validation_rules data =
     andThen (py_get data ''validation'' (JObj []))
       (\<lambda>validation. andThen (py_get validation ''rules'' (JList []))
       (\<lambda>rules.
          case rules of
            JList rs \<Rightarrow>
              andThen (error_codes_defined data)
                (\<lambda>defined. for_enumerate (rule_issues defined) 0 rs)
          | _ \<Rightarrow>
              Inr [issue ''E040'' ERROR ''validation.rules must be an array''
                     ''$.validation.rules'']))"

fun py_startswith :: "json \<Rightarrow> string \<Rightarrow> error + bool" where
  \<comment> \<open>\<^verbatim>\<open>x.startswith(p)\<close>: a method of strings only\<close>
  "py_startswith (JStr s) p = Inr (is_prefix p s)"
| "py_startswith _ p = Inl AttributeError"

definition code_format_issues :: "nat \<Rightarrow> json \<Rightarrow> error + LintIssue list" where
  \<comment> \<open>\<^verbatim>\<open>if code and not (ERROR_CODE_PATTERN.match(code) or WARNING_CODE_PATTERN.match(code))\<close>\<close>
  "code_format_issues i c =
     (if truthy c
      then
        andThen (re_match error_code_full c)
          (\<lambda>is_error_code.
             if is_error_code then Inr []
             else
               andThen (re_match warning_code_full c)
                 (\<lambda>is_warning_code.
                    Inr (if is_warning_code then []
                         else [issue ''E050'' ERROR
                                 (''Error code ['' @ str_nat i
                                  @ ''] code must match E### or W### format'')
                                 (''$.error_codes['' @ str_nat i @ ''].code'')])))
      else Inr [])"

definition code_missing_issues :: "nat \<Rightarrow> (string \<times> json) list \<Rightarrow> LintIssue list" where
  \<comment> \<open>the loop over the required fields of a registry entry\<close>
  "code_missing_issues i kvs =
     missing_fields kvs [''code'', ''level'', ''title'', ''message'']
       (\<lambda>field.
          issue ''E050'' ERROR
            (''Error code ['' @ str_nat i @ ''] missing '' @ sq @ field @ sq)
            (''$.error_codes['' @ str_nat i @ ''].'' @ field))"

definition level_issues :: "nat \<Rightarrow> json \<Rightarrow> json \<Rightarrow> bool \<Rightarrow> bool \<Rightarrow> LintIssue list" where
  \<comment> \<open>the two tests that the level matches the prefix of the code\<close>
  "level_issues i c level starts_e starts_w =
     (if starts_e \<and> \<not> py_eq_str level ''error''
      then [issue ''E050'' ERROR
              (''Error code '' @ py_str c @ '' must have level 'error'' @ sq)
              (''$.error_codes['' @ str_nat i @ ''].level'')]
      else [])
     @ (if starts_w \<and> \<not> py_eq_str level ''warning''
        then [issue ''E050'' ERROR
                (''Warning code '' @ py_str c @ '' must have level 'warning'' @ sq)
                (''$.error_codes['' @ str_nat i @ ''].level'')]
        else [])"

definition error_code_issues ::
  "nat \<Rightarrow> json \<Rightarrow> key list \<Rightarrow> error + (LintIssue list \<times> key list)" where
  \<comment> \<open>the body of the loop of \<^verbatim>\<open>_check_error_codes\<close>; the state is \<^verbatim>\<open>seen_codes\<close>\<close>
  "error_code_issues i ec seen_codes =
     (case ec of
        JObj kvs \<Rightarrow>
          (let code = dict_lookup kvs ''code'' (JStr []);
               level = dict_lookup kvs ''level'' (JStr [])
           in
           andThen (code_format_issues i code)
             (\<lambda>format_issues. andThen (py_startswith code ''E'')
             (\<lambda>starts_e. andThen (py_startswith code ''W'')
             (\<lambda>starts_w. andThen (py_in_set code seen_codes)
             (\<lambda>duplicate. andThen (hash_key code)
             (\<lambda>k.
                Inr (code_missing_issues i kvs
                     @ format_issues
                     @ level_issues i code level starts_e starts_w
                     @ (if duplicate
                        then [issue ''E051'' ERROR (''Duplicate error code: '' @ py_str code)
                                (''$.error_codes['' @ str_nat i @ ''].code'')]
                        else []),
                     set_add k seen_codes)))))))
      | _ \<Rightarrow> Inr ([], seen_codes))"

definition check_error_codes :: "json \<Rightarrow> error + LintIssue list" where
  \<comment> \<open>\<^verbatim>\<open>_check_error_codes\<close>\<close>
  "check_error_codes data =
     andThen (py_get data ''error_codes'' (JList []))
       (\<lambda>error_codes.
          case error_codes of
            JList ecs \<Rightarrow>
              if length ecs = 0
              then Inr [issue ''E050'' ERROR ''error_codes must be a non-empty array''
                          ''$.error_codes'']
              else andThen (for_state error_code_issues 0 ecs []) (\<lambda>r. Inr (fst r))
          | _ \<Rightarrow>
              Inr [issue ''E050'' ERROR ''error_codes must be a non-empty array''
                     ''$.error_codes''])"

subsection \<open>The algorithm: steps and data flow\<close>

definition set_union :: "key list \<Rightarrow> key list \<Rightarrow> key list" where
  \<comment> \<open>\<^verbatim>\<open>s | t\<close>\<close>
  "set_union s t = fold set_add t s"

definition uses_issues :: "key list \<Rightarrow> key list \<Rightarrow> nat \<Rightarrow> json \<Rightarrow> error + LintIssue list" where
  \<comment> \<open>the body of \<^verbatim>\<open>for artifact in step.get("uses", [])\<close>\<close>
  "uses_issues available produced i artifact =
     andThen (py_in_set artifact available)
       (\<lambda>is_available.
          if is_available then Inr []
          else
            andThen (py_in_set artifact produced)
              (\<lambda>is_produced.
                 Inr (if is_produced then []
                      else [issue ''E061'' ERROR
                              (''Step ['' @ str_nat i @ ''] uses unknown artifact: ''
                               @ py_str artifact)
                              (''$.algorithm.steps['' @ str_nat i @ ''].uses'')])))"

definition step_id_issues :: "nat \<Rightarrow> json \<Rightarrow> error + LintIssue list" where
  \<comment> \<open>\<^verbatim>\<open>if sid and not self.STEP_ID_PATTERN.match(sid)\<close>\<close>
  "step_id_issues i sid =
     (if truthy sid
      then andThen (re_match step_id_full sid)
             (\<lambda>ok.
                Inr (if ok then []
                     else [issue ''E063'' ERROR
                             (''Step ['' @ str_nat i @ ''] id must match S### format'')
                             (''$.algorithm.steps['' @ str_nat i @ ''].id'')]))
      else Inr [])"

definition step_type_issues :: "nat \<Rightarrow> json \<Rightarrow> error + LintIssue list" where
  \<comment> \<open>\<^verbatim>\<open>if stype and stype not in self.VALID_STEP_TYPES\<close>\<close>
  "step_type_issues i stype =
     (if truthy stype
      then andThen (py_in_set stype VALID_STEP_TYPES)
             (\<lambda>ok.
                Inr (if ok then []
                     else [issue ''E063'' ERROR
                             (''Step ['' @ str_nat i @ ''] invalid type: '' @ py_str stype)
                             (''$.algorithm.steps['' @ str_nat i @ ''].type'')]))
      else Inr [])"

definition step_missing_issues :: "nat \<Rightarrow> (string \<times> json) list \<Rightarrow> LintIssue list" where
  \<comment> \<open>the loop over the required fields of a step\<close>
  "step_missing_issues i kvs =
     missing_fields kvs [''id'', ''name'', ''type'', ''uses'', ''produces'', ''description'']
       (\<lambda>field.
          issue ''E063'' ERROR
            (''Step ['' @ str_nat i @ ''] missing '' @ sq @ field @ sq)
            (''$.algorithm.steps['' @ str_nat i @ ''].'' @ field))"

definition step_issues ::
  "key list \<Rightarrow> nat \<Rightarrow> json \<Rightarrow> key list \<Rightarrow> error + (LintIssue list \<times> key list)" where
  \<comment> \<open>the body of the loop over the steps; the state is \<^verbatim>\<open>produced\<close>\<close>
  "step_issues available i step produced =
     (case step of
        JObj kvs \<Rightarrow>
          andThen (step_id_issues i (dict_lookup kvs ''id'' (JStr [])))
            (\<lambda>id_issues. andThen (step_type_issues i (dict_lookup kvs ''type'' (JStr [])))
            (\<lambda>type_issues. andThen (py_iter (dict_lookup kvs ''uses'' (JList [])))
            (\<lambda>uses. andThen (for_each (uses_issues available produced i) uses)
            (\<lambda>flow_issues. andThen (py_iter (dict_lookup kvs ''produces'' (JList [])))
            (\<lambda>produces. andThen (set_of_values produces produced)
            (\<lambda>produced'.
               Inr (step_missing_issues i kvs @ id_issues @ type_issues @ flow_issues,
                    produced')))))))
      | _ \<Rightarrow> Inr ([], produced))"

definition io_artifact_members :: "json \<Rightarrow> string \<Rightarrow> error + (key \<times> json) list" where
  \<comment> \<open>\<^verbatim>\<open>{a.get("artifact_id") for a in data.get("io_contract", {}).get(direction, [])}\<close>\<close>
  "io_artifact_members data direction =
     andThen (py_get data ''io_contract'' (JObj []))
       (\<lambda>io. andThen (py_get io direction (JList [])) (members_of_field ''artifact_id''))"

definition io_artifact_ids :: "json \<Rightarrow> string \<Rightarrow> error + key list" where
  \<comment> \<open>the same set where only membership in it is tested\<close>
  "io_artifact_ids data direction =
     andThen (io_artifact_members data direction) (\<lambda>members. Inr (map fst members))"

definition not_produced_issues :: "(key \<times> json) list \<Rightarrow> key list \<Rightarrow> LintIssue list" where
  \<comment> \<open>\<^verbatim>\<open>for out in outputs: if out not in produced: ...\<close>\<close>
  "not_produced_issues outputs produced =
     map (\<lambda>(k, out).
            issue ''E062'' ERROR (''Output '' @ py_str out @ '' not produced by any step'')
              ''$.io_contract.outputs'')
       (filter (\<lambda>(k, out). k \<notin> set produced) outputs)"

definition not_registered_issues :: "(key \<times> json) list \<Rightarrow> key list \<Rightarrow> LintIssue list" where
  \<comment> \<open>\<^verbatim>\<open>for out in outputs: if out not in registry_ids: ...\<close>\<close>
  "not_registered_issues outputs registry_ids =
     map (\<lambda>(k, out).
            issue ''E070'' ERROR (''Output '' @ py_str out @ '' not in artifact_registry'')
              ''$.algorithm.artifact_registry'')
       (filter (\<lambda>(k, out). k \<notin> set registry_ids) outputs)"

text \<open>
  Python does not fix the order in which a \<^verbatim>\<open>for\<close> loop visits a set; the two loops over
  \<^verbatim>\<open>outputs\<close> are modelled in insertion order, and what is proved of their findings
  counts them and does not depend on the order.
\<close>

definition check_algorithm :: "json \<Rightarrow> error + LintIssue list" where
  \<comment> \<open>\<^verbatim>\<open>_check_algorithm\<close>\<close>
  "check_algorithm data =
     andThen (py_get data ''algorithm'' (JObj []))
       (\<lambda>algorithm.
          case algorithm of
            JObj kvs \<Rightarrow>
              (let steps = dict_lookup kvs ''steps'' (JList []);
                   registry = dict_lookup kvs ''artifact_registry'' (JList [])
               in
               if \<not> truthy steps
               then Inr [issue ''E060'' ERROR ''algorithm.steps must be non-empty''
                           ''$.algorithm.steps'']
               else
                 andThen (io_artifact_ids data ''inputs'')
                   (\<lambda>inputs. andThen (py_get data ''parameters'' (JObj []))
                   (\<lambda>parameters. andThen (py_keys parameters)
                   (\<lambda>params. andThen (py_iter steps)
                   (\<lambda>step_list.
                      andThen
                        (for_state (step_issues (set_union inputs (map KStr params))) 0 step_list [])
                   (\<lambda>(issues, produced). andThen (io_artifact_members data ''outputs'')
                   (\<lambda>outputs. andThen (set_of_field ''artifact_id'' registry)
                   (\<lambda>registry_ids.
                      Inr (issues
                           @ not_produced_issues outputs produced
                           @ not_registered_issues outputs registry_ids)))))))))
          | _ \<Rightarrow>
              Inr [issue ''E060'' ERROR ''algorithm must be an object'' ''$.algorithm''])"

subsection \<open>The I/O contract\<close>

definition io_artifact_issues :: "string \<Rightarrow> nat \<Rightarrow> json \<Rightarrow> error + LintIssue list" where
  \<comment> \<open>the body of \<^verbatim>\<open>for i, art in enumerate(artifacts)\<close>\<close>
  "io_artifact_issues direction i art =
     andThen
       (for_each
          (\<lambda>field.
             andThen (py_contains field art)
               (\<lambda>present.
                  Inr (if present then []
                       else [issue ''E015'' ERROR
                               (''io_contract.'' @ direction @ ''['' @ str_nat i @ ''] missing '' @ sq
                                @ field @ sq)
                               (''$.io_contract.'' @ direction @ ''['' @ str_nat i @ ''].'' @ field)])))
          [''artifact_id'', ''type'', ''scope''])
       (\<lambda>field_issues.
          if direction = ''outputs''
          then
            andThen (py_get art ''scope'' JNull)
              (\<lambda>scope.
                 if \<not> py_eq_str scope ''public''
                 then andThen (py_get art ''artifact_id'' JNull)
                        (\<lambda>artifact_id.
                           Inr (field_issues
                                @ [issue ''E071'' ERROR
                                     (''Output '' @ py_str artifact_id
                                      @ '' must have scope 'public'' @ sq)
                                     (''$.io_contract.outputs['' @ str_nat i @ ''].scope'')]))
                 else Inr field_issues)
          else Inr field_issues)"

definition io_direction_issues :: "(string \<times> json) list \<Rightarrow> string \<Rightarrow> error + LintIssue list" where
  \<comment> \<open>the body of \<^verbatim>\<open>for direction in ["inputs", "outputs"]\<close>\<close>
  "io_direction_issues io direction =
     (case dict_lookup io direction (JList []) of
        JList arts \<Rightarrow>
          if length arts = 0
          then Inr [issue ''E015'' ERROR
                      (''io_contract.'' @ direction @ '' must be non-empty array'')
                      (''$.io_contract.'' @ direction)]
          else for_enumerate (io_artifact_issues direction) 0 arts
      | _ \<Rightarrow>
          Inr [issue ''E015'' ERROR
                 (''io_contract.'' @ direction @ '' must be non-empty array'')
                 (''$.io_contract.'' @ direction)])"

definition check_io_contract :: "json \<Rightarrow> error + LintIssue list" where
  \<comment> \<open>\<^verbatim>\<open>_check_io_contract\<close>\<close>
  "check_io_contract data =
     andThen (py_get data ''io_contract'' (JObj []))
       (\<lambda>io.
          case io of
            JObj kvs \<Rightarrow> for_each (io_direction_issues kvs) [''inputs'', ''outputs'']
          | _ \<Rightarrow> Inr [issue ''E015'' ERROR ''io_contract must be an object'' ''$.io_contract''])"

subsection \<open>Test cases, policies and relations\<close>

definition test_case_issues ::
  "nat \<Rightarrow> json \<Rightarrow> key list \<Rightarrow> error + (LintIssue list \<times> key list)" where
  \<comment> \<open>the body of the loop of \<^verbatim>\<open>_check_test_cases\<close>; the state is \<^verbatim>\<open>types_found\<close>\<close>
  "test_case_issues i tc types_found =
     (case tc of
        JObj kvs \<Rightarrow>
          (let ttype = dict_lookup kvs ''type'' (JStr []) in
           andThen (py_in_set ttype VALID_TEST_TYPES)
             (\<lambda>type_ok. andThen (hash_key ttype)
             (\<lambda>k.
                Inr (missing_fields kvs [''id'', ''type'', ''name'', ''input'', ''expected'']
                       (\<lambda>field.
                          issue ''E080'' ERROR
                            (''Test case ['' @ str_nat i @ ''] missing '' @ sq @ field @ sq)
                            (''$.test_cases['' @ str_nat i @ ''].'' @ field))
                     @ (if \<not> type_ok
                        then [issue ''E080'' ERROR
                                (''Test case ['' @ str_nat i @ ''] invalid type: '' @ py_str ttype)
                                (''$.test_cases['' @ str_nat i @ ''].type'')]
                        else []),
                     set_add k types_found))))
      | _ \<Rightarrow> Inr ([], types_found))"

definition check_test_cases :: "json \<Rightarrow> error + LintIssue list" where
  \<comment> \<open>\<^verbatim>\<open>_check_test_cases\<close>\<close>
  "check_test_cases data =
     andThen (py_get data ''test_cases'' (JList []))
       (\<lambda>tests.
          case tests of
            JList tcs \<Rightarrow>
              if length tcs < 3
              then Inr [issue ''E080'' ERROR ''test_cases must have at least 3 cases''
                          ''$.test_cases'']
              else
                andThen (for_state test_case_issues 0 tcs [])
                  (\<lambda>(issues, types_found).
                     Inr (issues
                          @ (if KStr ''positive'' \<notin> set types_found
                             then [issue ''E080'' ERROR
                                     ''test_cases must include at least one 'positive' case''
                                     ''$.test_cases'']
                             else [])
                          @ (if KStr ''negative'' \<notin> set types_found
                             then [issue ''E080'' ERROR
                                     ''test_cases must include at least one 'negative' case''
                                     ''$.test_cases'']
                             else [])
                          @ (if KStr ''warning'' \<notin> set types_found
                             then [issue ''W081'' WARNING
                                     ''test_cases should include a 'warning' case''
                                     ''$.test_cases'']
                             else [])))
          | _ \<Rightarrow>
              Inr [issue ''E080'' ERROR ''test_cases must have at least 3 cases''
                     ''$.test_cases''])"

definition check_policies :: "json \<Rightarrow> error + LintIssue list" where
  \<comment> \<open>\<^verbatim>\<open>_check_policies\<close>\<close>
  "check_policies data =
     andThen (py_get data ''policies'' (JObj []))
       (\<lambda>policies.
          case policies of
            JObj kvs \<Rightarrow>
              Inr (missing_fields kvs
                     [''unit_policy'', ''constraints_dsl'', ''glossary_policy'', ''i18n_policy'']
                     (\<lambda>field.
                        issue ''E016'' ERROR (''policies missing '' @ sq @ field @ sq)
                          (''$.policies.'' @ field))
                   @ (if \<not> py_eq_str (dict_lookup kvs ''unit_policy'' JNull) ''strict''
                      then [issue ''E016'' ERROR (''policies.unit_policy must be 'strict'' @ sq)
                              ''$.policies.unit_policy'']
                      else []))
          | _ \<Rightarrow> Inr [issue ''E016'' ERROR ''policies must be an object'' ''$.policies''])"

definition relation_issues :: "(string \<times> json) list \<Rightarrow> string \<Rightarrow> LintIssue list" where
  \<comment> \<open>the body of the loop of \<^verbatim>\<open>_check_relations\<close>\<close>
  "relation_issues relations field =
     (if \<not> dict_has relations field
      then [issue ''E017'' ERROR (''relations missing '' @ sq @ field @ sq)
              (''$.relations.'' @ field)]
      else if \<not> is_list (dict_lookup relations field JNull)
      then [issue ''E017'' ERROR (''relations.'' @ field @ '' must be an array'')
              (''$.relations.'' @ field)]
      else [])"

definition check_relations :: "json \<Rightarrow> error + LintIssue list" where
  \<comment> \<open>\<^verbatim>\<open>_check_relations\<close>\<close>
  "check_relations data =
     andThen (py_get data ''relations'' (JObj []))
       (\<lambda>relations.
          case relations of
            JObj kvs \<Rightarrow>
              Inr (concat (map (relation_issues kvs)
                             [''depends_on'', ''influences'', ''conflicts_with'']))
          | _ \<Rightarrow> Inr [issue ''E017'' ERROR ''relations must be an object'' ''$.relations''])"

subsection \<open>The validator and its glossary\<close>

text \<open>
  What a path holds when it is read: no file, a file that \<^verbatim>\<open>json.load\<close> rejects, or a
  document. Parsing itself is the library's and is not modelled.
\<close>

datatype source = Missing | Unparsable | Document json

record ContractLintValidator =
  schema :: json
  glossary :: "json option"

definition load_json :: "(string \<Rightarrow> source) \<Rightarrow> string \<Rightarrow> error + json" where
  \<comment> \<open>\<^verbatim>\<open>_load_json\<close>: every exception of opening and parsing becomes a
      \<^verbatim>\<open>ContractLintError\<close>\<close>
  "load_json fs p = (case fs p of Document d \<Rightarrow> Inr d | _ \<Rightarrow> Inl ContractLintError)"

definition init ::
  "(string \<Rightarrow> source) \<Rightarrow> string \<Rightarrow> string option \<Rightarrow> error + ContractLintValidator" where
  \<comment> \<open>\<^verbatim>\<open>__init__\<close>: the glossary is loaded when a path is given and exists\<close>
  "init fs schema_path glossary_path =
     andThen (load_json fs schema_path)
       (\<lambda>sch.
          case glossary_path of
            None \<Rightarrow> Inr \<lparr>schema = sch, glossary = None\<rparr>
          | Some gp \<Rightarrow>
              if fs gp = Missing then Inr \<lparr>schema = sch, glossary = None\<rparr>
              else andThen (load_json fs gp) (\<lambda>g. Inr \<lparr>schema = sch, glossary = Some g\<rparr>))"

definition glossary_truthy :: "ContractLintValidator \<Rightarrow> bool" where
  \<comment> \<open>the truth value of \<^verbatim>\<open>self.glossary\<close>\<close>
  "glossary_truthy self = (case glossary self of None \<Rightarrow> False | Some g \<Rightarrow> truthy g)"

definition check_glossary_coverage :: "ContractLintValidator \<Rightarrow> json \<Rightarrow> error + LintIssue list" where
  \<comment> \<open>\<^verbatim>\<open>_check_glossary_coverage\<close>; past the test of \<^verbatim>\<open>not self.glossary\<close> the
      glossary is not \<^verbatim>\<open>None\<close>\<close>
  "check_glossary_coverage self data =
     andThen (py_get data ''policies'' (JObj []))
       (\<lambda>policies. andThen (py_get policies ''glossary_policy'' (JStr ''off''))
       (\<lambda>policy.
          if py_eq_str policy ''off'' \<or> \<not> glossary_truthy self then Inr []
          else
            case glossary self of
              None \<Rightarrow> Inr []
            | Some g \<Rightarrow>
                andThen (py_get g ''terms'' (JObj []))
                  (\<lambda>terms. andThen (py_keys terms)
                  (\<lambda>glossary_terms. andThen (py_get data ''module_abbr'' (JStr []))
                  (\<lambda>abbr.
                     if truthy abbr
                     then
                       andThen (py_in_set abbr (map KStr glossary_terms))
                         (\<lambda>known.
                            Inr (if known then []
                                 else [issue
                                         (if py_eq_str policy ''strict'' then ''E100'' else ''W101'')
                                         (if py_eq_str policy ''strict'' then ERROR else WARNING)
                                         (''module_abbr '' @ sq @ py_str abbr @ sq @ '' not in glossary'')
                                         ''$.module_abbr'']))
                     else Inr [])))))"

subsection \<open>Validating a contract\<close>

definition glossary_issues :: "ContractLintValidator \<Rightarrow> json \<Rightarrow> error + LintIssue list" where
  \<comment> \<open>\<^verbatim>\<open>if self.glossary: issues.extend(self._check_glossary_coverage(data))\<close>\<close>
  "glossary_issues self data =
     (if glossary_truthy self then check_glossary_coverage self data else Inr [])"

definition run_checks :: "ContractLintValidator \<Rightarrow> json \<Rightarrow> error + LintIssue list" where
  \<comment> \<open>the checks of \<^verbatim>\<open>validate_contract\<close>, in its order\<close>
  "run_checks self data =
     andThen (check_required_fields data)
       (\<lambda>i1. andThen (check_schema_block data)
       (\<lambda>i2. andThen (check_module_identity data)
       (\<lambda>i3. andThen (check_parameters data)
       (\<lambda>i4. andThen (check_constraints data)
       (\<lambda>i5. andThen (check_validation_rules data)
       (\<lambda>i6. andThen (check_error_codes data)
       (\<lambda>i7. andThen (check_algorithm data)
       (\<lambda>i8. andThen (check_io_contract data)
       (\<lambda>i9. andThen (check_test_cases data)
       (\<lambda>i10. andThen (check_policies data)
       (\<lambda>i11. andThen (check_relations data)
       (\<lambda>i12. andThen (glossary_issues self data)
       (\<lambda>i13.
          Inr (i1 @ i2 @ i3 @ i4 @ i5 @ i6 @ i7 @ i8 @ i9 @ i10 @ i11 @ i12 @ i13))))))))))))))"

definition validate_contract ::
  "ContractLintValidator \<Rightarrow> (string \<Rightarrow> source) \<Rightarrow> string \<Rightarrow> error + LintResult" where
  \<comment> \<open>\<^verbatim>\<open>validate_contract\<close>\<close>
  "validate_contract self fs p =
     (if fs p = Missing then Inl ContractLintError
      else andThen (load_json fs p)
             (\<lambda>data. andThen (run_checks self data) (\<lambda>issues. Inr (build_result p issues))))"

subsection \<open>Example documents\<close>

definition example_contract :: json where
  \<comment> \<open>a well-formed contract whose one parameter is in no parameter group\<close>
  "example_contract = JObj [
    (''_schema'', JObj [
       (''name'', JStr ''A-PRACTICAL.contract''), (''version'', JStr ''1''),
       (''stage'', JStr ''A.contract_only''), (''maturity_stage'', JStr ''pilot''),
       (''static_frame_only'', JBool True), (''underpainting_intent'', JStr ''structure_only''),
       (''created_at'', JStr ''2024-01-01T00:00:00+02:00''),
       (''updated_at'', JStr ''2024-01-01T00:00:00+02:00'')]),
    (''module_id'', JStr ''A-IV-12.3''), (''module_abbr'', JStr ''AB''),
    (''module_type'', JStr ''PROCESS''),
    (''module_name'', JObj [(''uk'', JStr ''x''), (''en'', JStr ''y'')]),
    (''version'', JStr ''1.0.0''), (''description'', JStr ''d''),
    (''io_contract'', JObj [
       (''inputs'', JList [JObj [(''artifact_id'', JStr ''in1''), (''type'', JStr ''t''),
                                 (''scope'', JStr ''public'')]]),
       (''outputs'', JList [JObj [(''artifact_id'', JStr ''out1''), (''type'', JStr ''t''),
                                  (''scope'', JStr ''public'')]])]),
    (''parameters'', JObj [
       (''p1'', JObj [(''type'', JStr ''int''), (''unit'', JStr ''u''), (''description'', JStr ''d'')])]),
    (''parameter_groups'', JObj [(''g'', JList [])]),
    (''constraints'', JList [JObj [(''expr'', JStr ''p1 > 0''), (''error_code'', JStr ''E001'')]]),
    (''validation'', JObj [(''rules'', JList [])]),
    (''error_codes'', JList [
       JObj [(''code'', JStr ''E001''), (''level'', JStr ''error''), (''title'', JStr ''t''),
             (''message'', JStr ''m'')]]),
    (''algorithm'', JObj [
       (''steps'', JList [
          JObj [(''id'', JStr ''S001''), (''name'', JStr ''n''), (''type'', JStr ''load''),
                (''uses'', JList [JStr ''in1'', JStr ''p1'']),
                (''produces'', JList [JStr ''out1'']), (''description'', JStr ''d'')]]),
       (''artifact_registry'', JList [JObj [(''artifact_id'', JStr ''out1'')]])]),
    (''relations'', JObj [(''depends_on'', JList []), (''influences'', JList []),
                          (''conflicts_with'', JList [])]),
    (''test_cases'', JList [
       JObj [(''id'', JStr ''1''), (''type'', JStr ''positive''), (''name'', JStr ''n''),
             (''input'', JNull), (''expected'', JNull)],
       JObj [(''id'', JStr ''2''), (''type'', JStr ''negative''), (''name'', JStr ''n''),
             (''input'', JNull), (''expected'', JNull)],
       JObj [(''id'', JStr ''3''), (''type'', JStr ''warning''), (''name'', JStr ''n''),
             (''input'', JNull), (''expected'', JNull)]]),
    (''policies'', JObj [(''unit_policy'', JStr ''strict''), (''constraints_dsl'', JStr ''x''),
                         (''glossary_policy'', JStr ''strict''), (''i18n_policy'', JStr ''x'')])]"

definition plain_validator :: ContractLintValidator where
  \<comment> \<open>a validator constructed without a glossary\<close>
  "plain_validator = \<lparr>schema = JObj [], glossary = None\<rparr>"

definition an_error :: LintIssue where
  "an_error =
     issue ''E010'' ERROR ''Missing required field: version'' ''$.version''"

definition a_warning :: LintIssue where
  "a_warning =
     issue ''W020'' WARNING
       ''Parameter p1 not in any parameter_group''
       ''$.parameters.p1''"

subsection \<open>The notions the properties are stated with\<close>

text \<open>
  Data flow. The steps the loop of \<^verbatim>\<open>_check_algorithm\<close> visits, what a step uses and
  produces (as set members), the declared inputs and outputs, the parameter names and the
  registered artifacts, as the check reads them from the document; \<open>available_before data i\<close>
  is what the claim calls available to step \<open>i\<close>: inputs, parameters and the products of
  earlier steps. \<open>unknown_artifact\<close>, \<open>not_produced\<close> and \<open>not_registered\<close> are the
  findings \<open>E061\<close>, \<open>E062\<close> and \<open>E070\<close> of the check; \<open>is_unknown_at i\<close> holds of
  the findings \<open>E061\<close> of step \<open>i\<close>. \<open>has_steps\<close> is the condition under which the
  check goes on to the steps and the outputs (the algorithm block is an object and its
  \<open>steps\<close> are not empty), and \<open>gate_finding\<close> is the finding \<open>E060\<close> it returns
  with otherwise.
\<close>

definition produces_keys :: "json \<Rightarrow> key list" where
  "produces_keys step =
     (case step of
        JObj kvs \<Rightarrow>
          (case py_iter (dict_lookup kvs ''produces'' (JList [])) of
             Inr ps \<Rightarrow> concat (map (\<lambda>v. case hash_key v of Inr k \<Rightarrow> [k] | Inl e \<Rightarrow> []) ps)
           | Inl e \<Rightarrow> [])
      | _ \<Rightarrow> [])"

definition produced_by :: "json list \<Rightarrow> key list" where
  "produced_by steps = concat (map produces_keys steps)"

definition uses_of :: "json \<Rightarrow> json list" where
  "uses_of step =
     (case step of
        JObj kvs \<Rightarrow>
          (case py_iter (dict_lookup kvs ''uses'' (JList [])) of Inr us \<Rightarrow> us | Inl e \<Rightarrow> [])
      | _ \<Rightarrow> [])"

definition steps_of :: "json \<Rightarrow> json list" where
  "steps_of data =
     (case py_get data ''algorithm'' (JObj []) of
        Inr (JObj alg) \<Rightarrow>
          (case py_iter (dict_lookup alg ''steps'' (JList [])) of Inr xs \<Rightarrow> xs | Inl e \<Rightarrow> [])
      | _ \<Rightarrow> [])"

definition declared_inputs :: "json \<Rightarrow> key list" where
  "declared_inputs data = (case io_artifact_ids data ''inputs'' of Inr ks \<Rightarrow> ks | Inl e \<Rightarrow> [])"

definition declared_outputs :: "json \<Rightarrow> (key \<times> json) list" where
  "declared_outputs data =
     (case io_artifact_members data ''outputs'' of Inr members \<Rightarrow> members | Inl e \<Rightarrow> [])"

definition parameter_names :: "json \<Rightarrow> key list" where
  "parameter_names data =
     (case py_get data ''parameters'' (JObj []) of
        Inr p \<Rightarrow> (case py_keys p of Inr ns \<Rightarrow> map KStr ns | Inl e \<Rightarrow> [])
      | Inl e \<Rightarrow> [])"

definition registry_ids :: "json \<Rightarrow> key list" where
  "registry_ids data =
     (case py_get data ''algorithm'' (JObj []) of
        Inr (JObj alg) \<Rightarrow>
          (case set_of_field ''artifact_id'' (dict_lookup alg ''artifact_registry'' (JList [])) of
             Inr ks \<Rightarrow> ks | Inl e \<Rightarrow> [])
      | _ \<Rightarrow> [])"

definition is_known :: "key list \<Rightarrow> json \<Rightarrow> bool" where
  "is_known ks a = (case hash_key a of Inr k \<Rightarrow> k \<in> set ks | Inl e \<Rightarrow> False)"

definition available_before :: "json \<Rightarrow> nat \<Rightarrow> key list" where
  "available_before data i =
     declared_inputs data @ parameter_names data @ produced_by (take i (steps_of data))"

definition unknown_artifact :: "nat \<Rightarrow> json \<Rightarrow> LintIssue" where
  "unknown_artifact i a =
     issue ''E061'' ERROR
       (''Step ['' @ str_nat i @ ''] uses unknown artifact: '' @ py_str a)
       (''$.algorithm.steps['' @ str_nat i @ ''].uses'')"

definition is_unknown_at :: "nat \<Rightarrow> LintIssue \<Rightarrow> bool" where
  "is_unknown_at i f =
     (code f = ''E061'' \<and> path f = ''$.algorithm.steps['' @ str_nat i @ ''].uses'')"

definition unavailable :: "json \<Rightarrow> nat \<Rightarrow> json list" where
  \<comment> \<open>the entries of the \<open>uses\<close> of step \<open>i\<close> that are not available to it, in order\<close>
  "unavailable data i =
     filter (\<lambda>u. \<not> is_known (available_before data i) u) (uses_of (steps_of data ! i))"

definition not_produced :: "json \<Rightarrow> LintIssue" where
  "not_produced out =
     issue ''E062'' ERROR (''Output '' @ py_str out @ '' not produced by any step'')
       ''$.io_contract.outputs''"

definition not_registered :: "json \<Rightarrow> LintIssue" where
  "not_registered out =
     issue ''E070'' ERROR (''Output '' @ py_str out @ '' not in artifact_registry'')
       ''$.algorithm.artifact_registry''"

definition has_steps :: "json \<Rightarrow> bool" where
  "has_steps data =
     (case py_get data ''algorithm'' (JObj []) of
        Inr (JObj alg) \<Rightarrow> truthy (dict_lookup alg ''steps'' (JList []))
      | _ \<Rightarrow> False)"

definition gate_finding :: "json \<Rightarrow> LintIssue" where
  "gate_finding data =
     (case py_get data ''algorithm'' (JObj []) of
        Inr (JObj alg) \<Rightarrow>
          issue ''E060'' ERROR ''algorithm.steps must be non-empty'' ''$.algorithm.steps''
      | _ \<Rightarrow> issue ''E060'' ERROR ''algorithm must be an object'' ''$.algorithm'')"

text \<open>
  The error-code registry. The entries the loop of \<^verbatim>\<open>_check_error_codes\<close> visits, the
  code it reads from an entry (\<^verbatim>\<open>ec.get("code", "")\<close>, none for an entry that is not an
  object), the finding \<open>E051\<close> for entry \<open>i\<close>, and whether the code of entry \<open>i\<close> is
  the code of an earlier entry.
\<close>

definition registry_entries :: "json \<Rightarrow> json list" where
  "registry_entries data =
     (case py_get data ''error_codes'' (JList []) of Inr (JList ecs) \<Rightarrow> ecs | _ \<Rightarrow> [])"

definition entry_code :: "json \<Rightarrow> json option" where
  "entry_code ec =
     (case ec of JObj kvs \<Rightarrow> Some (dict_lookup kvs ''code'' (JStr [])) | _ \<Rightarrow> None)"

definition duplicate_code :: "nat \<Rightarrow> json \<Rightarrow> LintIssue" where
  "duplicate_code i c =
     issue ''E051'' ERROR (''Duplicate error code: '' @ py_str c)
       (''$.error_codes['' @ str_nat i @ ''].code'')"

definition seen_earlier :: "json list \<Rightarrow> nat \<Rightarrow> json \<Rightarrow> bool" where
  "seen_earlier ecs i c = (Some c \<in> set (map entry_code (take i ecs)))"

definition duplicates_at :: "json list \<Rightarrow> nat \<Rightarrow> LintIssue list" where
  "duplicates_at ecs i =
     (case entry_code (ecs ! i) of
        Some c \<Rightarrow> if seen_earlier ecs i c then [duplicate_code i c] else []
      | None \<Rightarrow> [])"

definition is_duplicate_at :: "nat \<Rightarrow> LintIssue \<Rightarrow> bool" where
  "is_duplicate_at i f =
     (code f = ''E051'' \<and> path f = ''$.error_codes['' @ str_nat i @ ''].code'')"

text \<open>
  Glossary coverage. The glossary policy and the short module code of a document and the
  terms of the validator's glossary, as \<^verbatim>\<open>_check_glossary_coverage\<close> reads them, and
  its finding.
\<close>

definition glossary_policy :: "json \<Rightarrow> json option" where
  "glossary_policy data =
     (case py_get data ''policies'' (JObj []) of
        Inr policies \<Rightarrow>
          (case py_get policies ''glossary_policy'' (JStr ''off'') of
             Inr policy \<Rightarrow> Some policy | Inl e \<Rightarrow> None)
      | Inl e \<Rightarrow> None)"

definition module_abbr_of :: "json \<Rightarrow> json option" where
  "module_abbr_of data =
     (case py_get data ''module_abbr'' (JStr []) of Inr abbr \<Rightarrow> Some abbr | Inl e \<Rightarrow> None)"

definition glossary_terms :: "ContractLintValidator \<Rightarrow> string list option" where
  "glossary_terms self =
     (case glossary self of
        Some g \<Rightarrow>
          (case py_get g ''terms'' (JObj []) of
             Inr terms \<Rightarrow> (case py_keys terms of Inr ks \<Rightarrow> Some ks | Inl e \<Rightarrow> None)
           | Inl e \<Rightarrow> None)
      | None \<Rightarrow> None)"

definition not_in_glossary :: "json \<Rightarrow> json \<Rightarrow> LintIssue" where
  "not_in_glossary policy abbr =
     issue (if py_eq_str policy ''strict'' then ''E100'' else ''W101'')
       (if py_eq_str policy ''strict'' then ERROR else WARNING)
       (''module_abbr '' @ sq @ py_str abbr @ sq @ '' not in glossary'')
       ''$.module_abbr''"

text \<open>
  Structural findings: \<open>E010\<close> for a missing required field, \<open>E013\<close> for a
  \<open>module_id\<close> of the wrong format and \<open>E012\<close> for a timestamp of the wrong format.
\<close>

definition missing_required :: "string \<Rightarrow> LintIssue" where
  "missing_required field =
     issue ''E010'' ERROR (''Missing required field: '' @ field) (''$.'' @ field)"

definition invalid_module_id :: "json \<Rightarrow> LintIssue" where
  "invalid_module_id v =
     issue ''E013'' ERROR (''Invalid module_id format: '' @ py_str v) ''$.module_id''"

definition malformed_timestamp :: "string \<Rightarrow> LintIssue" where
  "malformed_timestamp ts_field =
     issue ''E012'' ERROR
       (''_schema.'' @ ts_field @ '' must be ISO8601 with +02:00'')
       (''$._schema.'' @ ts_field)"

text \<open>
  Predicates on the outcome of a check: every finding it returns satisfies \<open>P\<close> (for a
  check and for a loop body that also returns its state), and the outcome is not a
  \<^verbatim>\<open>ContractLintError\<close>.
\<close>

definition all_issues :: "('b \<Rightarrow> bool) \<Rightarrow> error + 'b list \<Rightarrow> bool" where
  "all_issues P r = (case r of Inl e \<Rightarrow> True | Inr out \<Rightarrow> list_all P out)"

definition all_state :: "('b \<Rightarrow> bool) \<Rightarrow> error + ('b list \<times> 's) \<Rightarrow> bool" where
  "all_state P r = (case r of Inl e \<Rightarrow> True | Inr (out, s) \<Rightarrow> list_all P out)"

definition not_lint_error :: "error + 'a \<Rightarrow> bool" where
  "not_lint_error r = (r \<noteq> Inl ContractLintError)"

subsection \<open>Variations of the example contract\<close>

text \<open>
  \<open>set_field k v d\<close> is the document \<open>d\<close> with the top-level field \<open>k\<close> replaced by
  \<open>v\<close>, \<open>del_field k d\<close> the document without it. Each contract below comes with the
  result validation returns for it, unless validation ends with an exception on it
  (\<open>null_uses_contract\<close>, \<open>null_code_contract\<close>, \<open>unguarded_registry_contract\<close>,
  \<open>numeric_id_contract\<close>).
\<close>

fun set_field :: "string \<Rightarrow> json \<Rightarrow> json \<Rightarrow> json" where
  "set_field k v (JObj kvs) = JObj (map (\<lambda>(k', v'). (k', if k' = k then v else v')) kvs)"
| "set_field k v d = d"

fun del_field :: "string \<Rightarrow> json \<Rightarrow> json" where
  "del_field k (JObj kvs) = JObj (filter (\<lambda>kv. fst kv \<noteq> k) kvs)"
| "del_field k d = d"

definition ghost_twice_contract :: json where
  "ghost_twice_contract =
     set_field ''algorithm''
       (JObj [
          (''steps'', JList [
             JObj [(''id'', JStr ''S001''), (''name'', JStr ''n''), (''type'', JStr ''load''),
                   (''uses'', JList [JStr ''in1'', JStr ''ghost'', JStr ''ghost'']),
                   (''produces'', JList [JStr ''out1'']), (''description'', JStr ''d'')]]),
          (''artifact_registry'', JList [JObj [(''artifact_id'', JStr ''out1'')]])])
       example_contract"

definition ghost_twice_result :: LintResult where
  "ghost_twice_result =
     \<lparr>file_path = ''c.json'', passed = False, score = 30,
      errors = [unknown_artifact 0 (JStr ''ghost''), unknown_artifact 0 (JStr ''ghost'')],
      warnings = [a_warning]\<rparr>"

definition forward_contract :: json where
  "forward_contract =
     set_field ''algorithm''
       (JObj [
          (''steps'', JList [
             JObj [(''id'', JStr ''S001''), (''name'', JStr ''n''), (''type'', JStr ''load''),
                   (''uses'', JList [JStr ''own'']),
                   (''produces'', JList [JStr ''own'']), (''description'', JStr ''d'')],
             JObj [(''id'', JStr ''S002''), (''name'', JStr ''n''), (''type'', JStr ''transform''),
                   (''uses'', JList [JStr ''own'', JStr ''later'']),
                   (''produces'', JList [JStr ''out1'']), (''description'', JStr ''d'')],
             JObj [(''id'', JStr ''S003''), (''name'', JStr ''n''), (''type'', JStr ''export''),
                   (''uses'', JList [JStr ''out1'']),
                   (''produces'', JList [JStr ''later'']), (''description'', JStr ''d'')]]),
          (''artifact_registry'', JList [JObj [(''artifact_id'', JStr ''out1'')]])])
       example_contract"

definition mixed_uses_contract :: json where
  "mixed_uses_contract =
     set_field ''algorithm''
       (JObj [
          (''steps'', JList [
             JObj [(''id'', JStr ''S001''), (''name'', JStr ''n''), (''type'', JStr ''load''),
                   (''uses'', JList [JNum 1, JStr ''1'', JStr ''in1'']),
                   (''produces'', JList [JStr ''out1'']), (''description'', JStr ''d'')]]),
          (''artifact_registry'', JList [JObj [(''artifact_id'', JStr ''out1'')]])])
       example_contract"

definition mixed_uses_result :: LintResult where
  "mixed_uses_result =
     \<lparr>file_path = ''c.json'', passed = False, score = 30,
      errors = [unknown_artifact 0 (JNum 1), unknown_artifact 0 (JStr ''1'')],
      warnings = [a_warning]\<rparr>"

definition null_uses_contract :: json where
  "null_uses_contract =
     set_field ''algorithm''
       (JObj [
          (''steps'', JList [
             JObj [(''id'', JStr ''S001''), (''name'', JStr ''n''), (''type'', JStr ''load''),
                   (''uses'', JList [JStr ''later'']),
                   (''produces'', JList [JStr ''out1'']), (''description'', JStr ''d'')],
             JObj [(''id'', JStr ''S002''), (''name'', JStr ''n''), (''type'', JStr ''export''),
                   (''uses'', JNull),
                   (''produces'', JList [JStr ''later'']), (''description'', JStr ''d'')]]),
          (''artifact_registry'', JList [JObj [(''artifact_id'', JStr ''out1'')]])])
       example_contract"

definition forward_result :: LintResult where
  "forward_result =
     \<lparr>file_path = ''c.json'', passed = False, score = 30,
      errors = [unknown_artifact 0 (JStr ''own''), unknown_artifact 1 (JStr ''later'')],
      warnings = [a_warning]\<rparr>"

definition no_steps_contract :: json where
  "no_steps_contract =
     set_field ''io_contract''
       (JObj [
          (''inputs'', JList [JObj [(''artifact_id'', JStr ''in1''), (''type'', JStr ''t''),
                                    (''scope'', JStr ''public'')]]),
          (''outputs'', JList [JObj [(''artifact_id'', JStr ''out1''), (''type'', JStr ''t''),
                                     (''scope'', JStr ''public'')],
                               JObj [(''artifact_id'', JStr ''out2''), (''type'', JStr ''t''),
                                     (''scope'', JStr ''public'')]])])
       (set_field ''algorithm''
          (JObj [(''steps'', JList []), (''artifact_registry'', JList [])])
          example_contract)"

definition no_algorithm_contract :: json where
  "no_algorithm_contract = set_field ''algorithm'' JNull no_steps_contract"

definition no_algorithm_result :: LintResult where
  "no_algorithm_result =
     \<lparr>file_path = ''c.json'', passed = False, score = 40,
      errors = [issue ''E060'' ERROR ''algorithm must be an object'' ''$.algorithm''],
      warnings = [a_warning]\<rparr>"

definition no_steps_result :: LintResult where
  "no_steps_result =
     \<lparr>file_path = ''c.json'', passed = False, score = 40,
      errors = [issue ''E060'' ERROR ''algorithm.steps must be non-empty''
                  ''$.algorithm.steps''],
      warnings = [a_warning]\<rparr>"

definition outputs_contract :: json where
  "outputs_contract =
     set_field ''io_contract''
       (JObj [
          (''inputs'', JList [JObj [(''artifact_id'', JStr ''in1''), (''type'', JStr ''t''),
                                    (''scope'', JStr ''public'')]]),
          (''outputs'', JList [JObj [(''artifact_id'', JStr ''out1''), (''type'', JStr ''t''),
                                     (''scope'', JStr ''public'')],
                               JObj [(''artifact_id'', JStr ''out2''), (''type'', JStr ''t''),
                                     (''scope'', JStr ''public'')],
                               JObj [(''artifact_id'', JStr ''out3''), (''type'', JStr ''t''),
                                     (''scope'', JStr ''public'')]])])
       (set_field ''algorithm''
          (JObj [
             (''steps'', JList [
                JObj [(''id'', JStr ''S001''), (''name'', JStr ''n''), (''type'', JStr ''load''),
                      (''uses'', JList [JStr ''in1'']),
                      (''produces'', JList [JStr ''out1'', JStr ''out3'']),
                      (''description'', JStr ''d'')]]),
             (''artifact_registry'', JList [JObj [(''artifact_id'', JStr ''out1'')]])])
          example_contract)"

definition outputs_result :: LintResult where
  "outputs_result =
     \<lparr>file_path = ''c.json'', passed = False, score = 20,
      errors = [not_produced (JStr ''out2''), not_registered (JStr ''out2''),
                not_registered (JStr ''out3'')],
      warnings = [a_warning]\<rparr>"

definition duplicate_codes_contract :: json where
  "duplicate_codes_contract =
     set_field ''error_codes''
       (JList [
          JObj [(''code'', JStr ''E001''), (''level'', JStr ''error''), (''title'', JStr ''t''),
                (''message'', JStr ''m'')],
          JObj [(''code'', JStr ''W001''), (''level'', JStr ''warning''), (''title'', JStr ''t''),
                (''message'', JStr ''m'')],
          JObj [(''code'', JStr ''E001''), (''level'', JStr ''error''), (''title'', JStr ''t''),
                (''message'', JStr ''m'')],
          JObj [(''code'', JStr ''E001''), (''level'', JStr ''error''), (''title'', JStr ''t''),
                (''message'', JStr ''m'')]])
       example_contract"

definition null_code_contract :: json where
  "null_code_contract =
     set_field ''error_codes''
       (JList [
          JObj [(''code'', JStr ''E001''), (''level'', JStr ''error''), (''title'', JStr ''t''),
                (''message'', JStr ''m'')],
          JObj [(''code'', JStr ''E001''), (''level'', JStr ''error''), (''title'', JStr ''t''),
                (''message'', JStr ''m'')],
          JObj [(''code'', JNull), (''level'', JStr ''error''), (''title'', JStr ''t''),
                (''message'', JStr ''m'')]])
       example_contract"

definition duplicate_codes_result :: LintResult where
  "duplicate_codes_result =
     \<lparr>file_path = ''c.json'', passed = False, score = 30,
      errors = [duplicate_code 2 (JStr ''E001''), duplicate_code 3 (JStr ''E001'')],
      warnings = [a_warning]\<rparr>"

definition glossary_validator :: ContractLintValidator where
  "glossary_validator =
     \<lparr>schema = JObj [], glossary = Some (JObj [(''terms'', JObj [(''XY'', JObj [])])])\<rparr>"

definition empty_abbr_contract :: json where
  "empty_abbr_contract = set_field ''module_abbr'' (JStr []) example_contract"

definition empty_abbr_result :: LintResult where
  "empty_abbr_result =
     \<lparr>file_path = ''c.json'', passed = False, score = 40,
      errors = [issue ''E013'' ERROR ''Invalid module_abbr format: ''
                  ''$.module_abbr''],
      warnings = [a_warning]\<rparr>"

definition unknown_abbr_result :: LintResult where
  "unknown_abbr_result =
     \<lparr>file_path = ''c.json'', passed = False, score = 40,
      errors = [not_in_glossary (JStr ''strict'') (JStr ''AB'')],
      warnings = [a_warning]\<rparr>"

definition lenient_contract :: json where
  "lenient_contract =
     set_field ''policies''
       (JObj [(''unit_policy'', JStr ''strict''), (''constraints_dsl'', JStr ''x''),
              (''glossary_policy'', JStr ''warn''), (''i18n_policy'', JStr ''x'')])
       example_contract"

definition lenient_result :: LintResult where
  "lenient_result =
     \<lparr>file_path = ''c.json'', passed = True, score = 90, errors = [],
      warnings = [a_warning, not_in_glossary (JStr ''warn'') (JStr ''AB'')]\<rparr>"

definition lenient_empty_abbr_contract :: json where
  "lenient_empty_abbr_contract = set_field ''module_abbr'' (JStr []) lenient_contract"

definition lenient_empty_abbr_result :: LintResult where
  "lenient_empty_abbr_result =
     \<lparr>file_path = ''c.json'', passed = False, score = 40,
      errors = [issue ''E013'' ERROR ''Invalid module_abbr format: '' ''$.module_abbr''],
      warnings = [a_warning]\<rparr>"

definition malformed_contract :: json where
  "malformed_contract =
     set_field ''_schema''
       (JObj [
          (''name'', JStr ''A-PRACTICAL.contract''), (''version'', JStr ''1''),
          (''stage'', JStr ''A.contract_only''), (''maturity_stage'', JStr ''pilot''),
          (''static_frame_only'', JBool True), (''underpainting_intent'', JStr ''structure_only''),
          (''created_at'', JStr []),
          (''updated_at'', JStr ''yesterday'')])
       (del_field ''module_id'' example_contract)"

definition malformed_result :: LintResult where
  "malformed_result =
     \<lparr>file_path = ''c.json'', passed = False, score = 20,
      errors = [missing_required ''module_id'', malformed_timestamp ''updated_at'',
                invalid_module_id (JStr [])],
      warnings = [a_warning]\<rparr>"

definition malformed_items :: "(string \<times> json) list" where
  "malformed_items = (case malformed_contract of JObj kvs \<Rightarrow> kvs | _ \<Rightarrow> [])"

definition malformed_schema :: "(string \<times> json) list" where
  "malformed_schema =
     (case dict_lookup malformed_items ''_schema'' (JObj []) of JObj kvs \<Rightarrow> kvs | _ \<Rightarrow> [])"

definition misnamed_contract :: json where
  "misnamed_contract =
     set_field ''module_type'' (JStr ''OTHER'')
       (set_field ''module_name'' (JObj [(''uk'', JStr ''x'')]) example_contract)"

definition misnamed_items :: "(string \<times> json) list" where
  "misnamed_items = (case misnamed_contract of JObj kvs \<Rightarrow> kvs | _ \<Rightarrow> [])"

definition misnamed_result :: LintResult where
  "misnamed_result =
     \<lparr>file_path = ''c.json'', passed = False, score = 30,
      errors = [issue ''E013'' ERROR ''Invalid module_type: OTHER'' ''$.module_type'',
                issue ''E014'' ERROR ''module_name must have 'uk' and 'en' keys''
                  ''$.module_name''],
      warnings = [a_warning]\<rparr>"

definition unguarded_registry_contract :: json where
  "unguarded_registry_contract =
     set_field ''error_codes'' (JList [JStr ''E001'']) example_contract"

definition numeric_id_contract :: json where
  "numeric_id_contract = set_field ''module_id'' (JNum 7) example_contract"

section \<open>Properties\<close>

subsection \<open>Decimal indices\<close>

lemma digit_char_inj:
  assumes "d < 10" and "e < 10" and "digit_char d = digit_char e"
  shows "d = e"
proof -
  from assms(3) have "(of_char (digit_char d) :: nat) = of_char (digit_char e)" by simp
  then show ?thesis using assms(1,2) by (simp add: digit_char_def)
qed

lemma str_nat_not_Nil [simp]: "str_nat n \<noteq> []"
  by (subst str_nat.simps) simp

lemma Nil_not_str_nat [simp]: "[] \<noteq> str_nat n"
  by (metis str_nat_not_Nil)

lemma str_nat_inj: "str_nat m = str_nat n \<Longrightarrow> m = n"
proof (induction m arbitrary: n rule: str_nat.induct)
  case (1 m)
  show ?case
  proof (cases "m < 10")
    case True
    then have m: "str_nat m = [digit_char m]" by (subst str_nat.simps) simp
    show ?thesis
    proof (cases "n < 10")
      case True
      then have "str_nat n = [digit_char n]" by (subst str_nat.simps) simp
      with m "1.prems" \<open>m < 10\<close> \<open>n < 10\<close> show ?thesis by (auto dest: digit_char_inj)
    next
      case False
      then have "str_nat n = str_nat (n div 10) @ [digit_char (n mod 10)]"
        by (subst str_nat.simps) simp
      with m "1.prems" show ?thesis by simp
    qed
  next
    case False
    then have m: "str_nat m = str_nat (m div 10) @ [digit_char (m mod 10)]"
      by (subst str_nat.simps) simp
    show ?thesis
    proof (cases "n < 10")
      case True
      then have "str_nat n = [digit_char n]" by (subst str_nat.simps) simp
      with m "1.prems" show ?thesis by simp
    next
      case n: False
      then have "str_nat n = str_nat (n div 10) @ [digit_char (n mod 10)]"
        by (subst str_nat.simps) simp
      with m "1.prems" have s: "str_nat (m div 10) = str_nat (n div 10)"
        and d: "digit_char (m mod 10) = digit_char (n mod 10)" by simp_all
      have a: "m div 10 = n div 10"
        using "1.IH" [OF False s] .
      have b: "m mod 10 = n mod 10"
        by (rule digit_char_inj [OF _ _ d]) simp_all
      from a b show ?thesis by (metis div_mult_mod_eq)
    qed
  qed
qed

lemma str_nat_eq_iff [simp]: "str_nat m = str_nat n \<longleftrightarrow> m = n"
  by (auto dest: str_nat_inj)

subsection \<open>Findings of the checks\<close>

lemma andThen_Inr_iff:
  "andThen m f = Inr y \<longleftrightarrow> (\<exists>v. m = Inr v \<and> f v = Inr y)"
  by (cases m) simp_all

lemma unknown_artifact_eq [simp]:
  "unknown_artifact i a = unknown_artifact j b \<longleftrightarrow> i = j \<and> py_str a = py_str b"
  by (auto simp: unknown_artifact_def issue_def)

lemma is_unknown_at_unknown_artifact [simp]:
  "is_unknown_at j (unknown_artifact i a) \<longleftrightarrow> i = j"
  by (auto simp: is_unknown_at_def unknown_artifact_def issue_def)

lemma code_unknown_artifact [simp]: "code (unknown_artifact i a) = ''E061''"
  by (simp add: unknown_artifact_def issue_def)

lemma set_set_add [simp]: "set (set_add k s) = insert k (set s)"
  by (auto simp: set_add_def)

lemma set_of_values_set:
  "set_of_values vs s = Inr s' \<Longrightarrow>
     set s' = set s \<union> set (concat (map (\<lambda>v. case hash_key v of Inr k \<Rightarrow> [k] | Inl e \<Rightarrow> []) vs))"
  by (induction vs arbitrary: s) (auto split: sum.splits)

lemma uses_loop:
  "for_each (uses_issues avail prd i) us = Inr out \<Longrightarrow>
     out = map (unknown_artifact i) (filter (\<lambda>u. \<not> is_known (avail @ prd) u) us)"
proof (induction us arbitrary: out)
  case Nil
  then show ?case by simp
next
  case (Cons u us)
  then show ?case
    by (auto simp: uses_issues_def py_in_set_def is_known_def unknown_artifact_def
             split: sum.splits if_splits)
qed

lemma filter_code_missing [simp]:
  "(\<And>f. code (mk f) \<noteq> c) \<Longrightarrow> filter (\<lambda>f. code f = c) (missing_fields kvs names mk) = []"
  by (simp add: missing_fields_def filter_empty_conv)

lemma step_id_issues_code:
  "step_id_issues i sid = Inr out \<Longrightarrow> f \<in> set out \<Longrightarrow> code f = ''E063''"
  by (auto simp: step_id_issues_def andThen_Inr_iff issue_def split: if_splits)

lemma step_type_issues_code:
  "step_type_issues i stype = Inr out \<Longrightarrow> f \<in> set out \<Longrightarrow> code f = ''E063''"
  by (auto simp: step_type_issues_def andThen_Inr_iff issue_def split: if_splits)

lemma step_missing_issues_code:
  "f \<in> set (step_missing_issues i kvs) \<Longrightarrow> code f = ''E063''"
  by (auto simp: step_missing_issues_def missing_fields_def issue_def)

lemma filter_code_none:
  "(\<And>f. f \<in> set xs \<Longrightarrow> code f = d) \<Longrightarrow> c \<noteq> d \<Longrightarrow> filter (\<lambda>f. code f = c) xs = []"
  by (auto simp: filter_empty_conv)

lemma step_issues_dict:
  assumes "step_issues avail i (JObj kvs) prd = Inr (out, prd')"
  obtains idi tyi us fl ps where
    "step_id_issues i (dict_lookup kvs ''id'' (JStr [])) = Inr idi"
    "step_type_issues i (dict_lookup kvs ''type'' (JStr [])) = Inr tyi"
    "py_iter (dict_lookup kvs ''uses'' (JList [])) = Inr us"
    "for_each (uses_issues avail prd i) us = Inr fl"
    "py_iter (dict_lookup kvs ''produces'' (JList [])) = Inr ps"
    "set_of_values ps prd = Inr prd'"
    "out = step_missing_issues i kvs @ idi @ tyi @ fl"
  using assms by (auto simp: step_issues_def andThen_Inr_iff)

lemma step_produced:
  assumes "step_issues avail i step prd = Inr (out, prd')"
  shows "set prd' = set prd \<union> set (produces_keys step)"
proof (cases step)
  case (JObj kvs)
  from assms [unfolded JObj] show ?thesis
  proof (rule step_issues_dict)
    fix ps assume "py_iter (dict_lookup kvs ''produces'' (JList [])) = Inr ps"
      "set_of_values ps prd = Inr prd'"
    then show ?thesis
      using set_of_values_set [of ps prd prd'] by (simp add: JObj produces_keys_def)
  qed
qed (use assms in \<open>auto simp: step_issues_def produces_keys_def\<close>)

lemma step_flow:
  assumes "step_issues avail i step prd = Inr (out, prd')"
  shows "filter (\<lambda>f. code f = ''E061'') out =
           map (unknown_artifact i) (filter (\<lambda>u. \<not> is_known (avail @ prd) u) (uses_of step))"
proof (cases step)
  case (JObj kvs)
  from assms [unfolded JObj] show ?thesis
  proof (rule step_issues_dict)
    fix idi tyi us fl
    assume idi: "step_id_issues i (dict_lookup kvs ''id'' (JStr [])) = Inr idi"
      and tyi: "step_type_issues i (dict_lookup kvs ''type'' (JStr [])) = Inr tyi"
      and us: "py_iter (dict_lookup kvs ''uses'' (JList [])) = Inr us"
      and fl: "for_each (uses_issues avail prd i) us = Inr fl"
      and out: "out = step_missing_issues i kvs @ idi @ tyi @ fl"
    have 1: "filter (\<lambda>f. code f = ''E061'') (step_missing_issues i kvs) = []"
      by (rule filter_code_none [where d = "''E063''"]) (auto dest: step_missing_issues_code)
    have 2: "filter (\<lambda>f. code f = ''E061'') idi = []"
      by (rule filter_code_none [where d = "''E063''"]) (auto dest: step_id_issues_code [OF idi])
    have 3: "filter (\<lambda>f. code f = ''E061'') tyi = []"
      by (rule filter_code_none [where d = "''E063''"]) (auto dest: step_type_issues_code [OF tyi])
    have 4: "filter (\<lambda>f. code f = ''E061'') fl = fl"
      using uses_loop [OF fl] by (simp add: filter_id_conv)
    show ?thesis
      unfolding out using 1 2 3 4 uses_loop [OF fl] us
      by (simp add: JObj uses_of_def)
  qed
qed (use assms in \<open>auto simp: step_issues_def uses_of_def\<close>)

lemma filter_is_unknown_at:
  "filter (is_unknown_at j) (filter (\<lambda>f. code f = ''E061'') xs) = filter (is_unknown_at j) xs"
  by (induction xs) (auto simp: is_unknown_at_def)

lemma filter_is_unknown_at_map:
  "filter (is_unknown_at j) (map (unknown_artifact i) ys)
     = (if i = j then map (unknown_artifact i) ys else [])"
  by (induction ys) auto

lemma step_flow_at:
  assumes "step_issues avail i step prd = Inr (out, prd')"
  shows "filter (is_unknown_at j) out =
           (if i = j
            then map (unknown_artifact i)
                   (filter (\<lambda>u. \<not> is_known (avail @ prd) u) (uses_of step))
            else [])"
proof -
  have "filter (is_unknown_at j) out
          = filter (is_unknown_at j) (filter (\<lambda>f. code f = ''E061'') out)"
    by (simp only: filter_is_unknown_at)
  also have "\<dots> = filter (is_unknown_at j)
                      (map (unknown_artifact i)
                         (filter (\<lambda>u. \<not> is_known (avail @ prd) u) (uses_of step)))"
    by (simp only: step_flow [OF assms])
  finally show ?thesis by (simp only: filter_is_unknown_at_map)
qed

lemma is_known_append: "is_known (xs @ ys) a \<longleftrightarrow> is_known xs a \<or> is_known ys a"
  by (auto simp: is_known_def split: sum.splits)

lemma is_known_cong: "set xs = set ys \<Longrightarrow> is_known xs a = is_known ys a"
  by (simp add: is_known_def split: sum.splits)

lemma steps_loop_produced:
  "for_state (step_issues avail) n steps prd = Inr (out, prd') \<Longrightarrow>
     set prd' = set prd \<union> set (produced_by steps)"
proof (induction steps arbitrary: n prd out)
  case Nil
  then show ?case by (simp add: produced_by_def)
next
  case (Cons s steps)
  from Cons.prems(1) obtain o1 p1 rest where
    s: "step_issues avail n s prd = Inr (o1, p1)"
    and r: "for_state (step_issues avail) (Suc n) steps p1 = Inr (rest, prd')"
    by (auto split: sum.splits prod.splits)
  show ?case
    using step_produced [OF s] Cons.IH [OF r] by (auto simp: produced_by_def)
qed

lemma steps_loop_low:
  "for_state (step_issues avail) n steps prd = Inr (out, prd') \<Longrightarrow> m < n \<Longrightarrow>
     filter (is_unknown_at m) out = []"
proof (induction steps arbitrary: n prd out)
  case Nil
  then show ?case by simp
next
  case (Cons s steps)
  from Cons.prems(1) obtain o1 p1 rest where
    s: "step_issues avail n s prd = Inr (o1, p1)"
    and r: "for_state (step_issues avail) (Suc n) steps p1 = Inr (rest, prd')"
    and out: "out = o1 @ rest"
    by (auto split: sum.splits prod.splits)
  show ?case
    using step_flow_at [OF s, of m] Cons.IH [OF r] Cons.prems(2)
    by (simp add: out)
qed

lemma steps_loop_flow:
  "for_state (step_issues avail) n steps prd = Inr (out, prd') \<Longrightarrow> i < length steps \<Longrightarrow>
     filter (is_unknown_at (n + i)) out =
       map (unknown_artifact (n + i))
         (filter (\<lambda>u. \<not> is_known (avail @ prd @ produced_by (take i steps)) u)
            (uses_of (steps ! i)))"
proof (induction steps arbitrary: n prd out i)
  case Nil
  then show ?case by simp
next
  case (Cons s steps)
  from Cons.prems(1) obtain o1 p1 rest where
    s: "step_issues avail n s prd = Inr (o1, p1)"
    and r: "for_state (step_issues avail) (Suc n) steps p1 = Inr (rest, prd')"
    and out: "out = o1 @ rest"
    by (auto split: sum.splits prod.splits)
  show ?case
  proof (cases i)
    case 0
    show ?thesis
      using step_flow_at [OF s, of n] steps_loop_low [OF r, of n]
      by (simp add: 0 out produced_by_def)
  next
    case (Suc i')
    with Cons.prems(2) have i': "i' < length steps" by simp
    have k: "is_known (avail @ p1 @ produced_by (take i' steps)) u
             = is_known (avail @ prd @ produced_by (take i (s # steps))) u" for u
      by (rule is_known_cong) (use step_produced [OF s] in \<open>auto simp: Suc produced_by_def\<close>)
    show ?thesis
      using step_flow_at [OF s, of "n + i"] Cons.IH [OF r i']
      by (simp add: Suc out k)
  qed
qed

lemma set_set_union [simp]: "set (set_union s t) = set s \<union> set t"
proof -
  have "set (fold set_add t s) = set s \<union> set t" for s
    by (induction t arbitrary: s) auto
  then show ?thesis by (simp add: set_union_def)
qed

lemma falsy_iter: "\<not> truthy x \<Longrightarrow> py_iter x = Inr xs \<Longrightarrow> xs = []"
  by (cases x) (auto simp: dict_keys_def)

lemma has_steps_cases:
  assumes "has_steps data"
  obtains alg where "py_get data ''algorithm'' (JObj []) = Inr (JObj alg)"
    "truthy (dict_lookup alg ''steps'' (JList []))"
  using assms by (auto simp: has_steps_def split: sum.splits json.splits)

lemma steps_of_has_steps:
  assumes "steps_of data \<noteq> []"
  shows "has_steps data"
proof -
  from assms obtain alg xs where a: "py_get data ''algorithm'' (JObj []) = Inr (JObj alg)"
    and xs: "py_iter (dict_lookup alg ''steps'' (JList [])) = Inr xs" "xs \<noteq> []"
    by (auto simp: steps_of_def split: sum.splits json.splits)
  from xs have "truthy (dict_lookup alg ''steps'' (JList []))"
    using falsy_iter by blast
  with a show ?thesis by (simp add: has_steps_def)
qed

lemma check_algorithm_gate:
  assumes "check_algorithm data = Inr issues" and "\<not> has_steps data"
  shows "issues = [gate_finding data]"
proof -
  from assms(1) obtain algorithm where a: "py_get data ''algorithm'' (JObj []) = Inr algorithm"
    by (auto simp: check_algorithm_def andThen_Inr_iff)
  show ?thesis
    using assms a
    by (cases algorithm) (auto simp: check_algorithm_def has_steps_def gate_finding_def Let_def)
qed

lemma check_algorithm_run:
  assumes "check_algorithm data = Inr issues" and "has_steps data"
  obtains loop_out prd where
    "for_state (step_issues (set_union (declared_inputs data) (parameter_names data))) 0
       (steps_of data) [] = Inr (loop_out, prd)"
    "issues = loop_out @ not_produced_issues (declared_outputs data) prd
                @ not_registered_issues (declared_outputs data) (registry_ids data)"
proof -
  from assms(2) obtain alg where a: "py_get data ''algorithm'' (JObj []) = Inr (JObj alg)"
    and t: "truthy (dict_lookup alg ''steps'' (JList []))"
    by (rule has_steps_cases)
  from assms(1) a t obtain inputs parameters params xs loop_out prd outputs regs where
    1: "io_artifact_ids data ''inputs'' = Inr inputs"
    and 2: "py_get data ''parameters'' (JObj []) = Inr parameters"
    and 3: "py_keys parameters = Inr params"
    and xs: "py_iter (dict_lookup alg ''steps'' (JList [])) = Inr xs"
    and 4: "for_state (step_issues (set_union inputs (map KStr params))) 0 xs [] = Inr (loop_out, prd)"
    and 5: "io_artifact_members data ''outputs'' = Inr outputs"
    and 6: "set_of_field ''artifact_id'' (dict_lookup alg ''artifact_registry'' (JList [])) = Inr regs"
    and 7: "issues = loop_out @ not_produced_issues outputs prd @ not_registered_issues outputs regs"
    by (auto simp: check_algorithm_def andThen_Inr_iff Let_def)
  have so: "steps_of data = xs"
    using a xs by (simp add: steps_of_def)
  show thesis
  proof (rule that)
    show "for_state (step_issues (set_union (declared_inputs data) (parameter_names data))) 0
            (steps_of data) [] = Inr (loop_out, prd)"
      using 1 2 3 4 so by (simp add: declared_inputs_def parameter_names_def)
    show "issues = loop_out @ not_produced_issues (declared_outputs data) prd
                     @ not_registered_issues (declared_outputs data) (registry_ids data)"
      using 5 6 7 a by (simp add: declared_outputs_def registry_ids_def)
  qed
qed

lemma filter_not_produced_unknown [simp]:
  "filter (is_unknown_at i) (not_produced_issues outs prd) = []"
  by (auto simp: not_produced_issues_def filter_empty_conv is_unknown_at_def issue_def)

lemma filter_not_registered_unknown [simp]:
  "filter (is_unknown_at i) (not_registered_issues outs regs) = []"
  by (auto simp: not_registered_issues_def filter_empty_conv is_unknown_at_def issue_def)

lemma check_algorithm_flow:
  assumes "check_algorithm data = Inr issues"
    and "i < length (steps_of data)"
  shows "filter (is_unknown_at i) issues = map (unknown_artifact i) (unavailable data i)"
proof -
  from assms(2) have "steps_of data \<noteq> []" by auto
  then have hs: "has_steps data" by (rule steps_of_has_steps)
  from assms(1) hs show ?thesis
  proof (rule check_algorithm_run)
    fix loop_out prd
    assume l: "for_state (step_issues (set_union (declared_inputs data) (parameter_names data))) 0
                 (steps_of data) [] = Inr (loop_out, prd)"
      and i: "issues = loop_out @ not_produced_issues (declared_outputs data) prd
                @ not_registered_issues (declared_outputs data) (registry_ids data)"
    have k: "is_known (set_union (declared_inputs data) (parameter_names data)
                       @ produced_by (take i (steps_of data))) u
             = is_known (available_before data i) u" for u
      by (rule is_known_cong) (auto simp: available_before_def)
    show ?thesis
      using steps_loop_flow [OF l assms(2)]
      by (simp add: i k unavailable_def)
  qed
qed

lemma all_issues_Inr [simp]: "all_issues P (Inr out) = list_all P out"
  by (simp add: all_issues_def)

lemma all_issues_Inl [simp]: "all_issues P (Inl e)"
  by (simp add: all_issues_def)

lemma all_state_Inr [simp]: "all_state P (Inr (out, s)) = list_all P out"
  by (simp add: all_state_def)

lemma all_state_Inl [simp]: "all_state P (Inl e)"
  by (simp add: all_state_def)

lemma all_issues_andThen:
  "(\<And>v. all_issues P (f v)) \<Longrightarrow> all_issues P (andThen m f)"
  by (cases m) simp_all

lemma all_state_andThen:
  "(\<And>v. all_state P (f v)) \<Longrightarrow> all_state P (andThen m f)"
  by (cases m) simp_all

lemma all_issues_after_state:
  "all_state P m \<Longrightarrow> (\<And>out s. list_all P out \<Longrightarrow> all_issues P (f (out, s))) \<Longrightarrow>
     all_issues P (andThen m f)"
  by (cases m) auto

lemma all_issues_after:
  "all_issues P m \<Longrightarrow> (\<And>out. list_all P out \<Longrightarrow> all_issues P (f out)) \<Longrightarrow>
     all_issues P (andThen m f)"
  by (cases m) auto

lemma all_state_after:
  "all_issues P m \<Longrightarrow> (\<And>out. list_all P out \<Longrightarrow> all_state P (f out)) \<Longrightarrow>
     all_state P (andThen m f)"
  by (cases m) auto

lemma all_issues_for_each:
  "(\<And>x. all_issues P (body x)) \<Longrightarrow> all_issues P (for_each body xs)"
proof (induction xs)
  case Nil
  then show ?case by simp
next
  case (Cons x xs)
  then show ?case
    using Cons.prems [of x]
    by (cases "body x"; cases "for_each body xs") (simp_all add: all_issues_def)
qed

lemma all_issues_for_enumerate:
  "(\<And>j x. all_issues P (body j x)) \<Longrightarrow> all_issues P (for_enumerate body i xs)"
proof (induction xs arbitrary: i)
  case Nil
  then show ?case by simp
next
  case (Cons x xs)
  show ?case
    using Cons.prems [of i x] Cons.IH [of "Suc i", OF Cons.prems]
    by (cases "body i x"; cases "for_enumerate body (Suc i) xs") (simp_all add: all_issues_def)
qed

lemma all_state_for_state:
  "(\<And>j x t. all_state P (body j x t)) \<Longrightarrow> all_state P (for_state body i xs s)"
proof (induction xs arbitrary: i s)
  case Nil
  then show ?case by simp
next
  case (Cons x xs)
  show ?case
  proof (cases "body i x s")
    case (Inr r)
    obtain o1 s1 where r: "r = (o1, s1)" by (cases r)
    show ?thesis
      using Cons.prems [of i x s] Cons.IH [of "Suc i" s1, OF Cons.prems]
      by (cases "for_state body (Suc i) xs s1") (auto simp: Inr r all_state_def)
  qed simp
qed

lemma list_all_missing_fields:
  "(\<And>f. P (mk f)) \<Longrightarrow> list_all P (missing_fields kvs names mk)"
  by (simp add: missing_fields_def list_all_iff)

lemma all_issues_case_json:
  "all_issues P a \<Longrightarrow> (\<And>b. x = JBool b \<Longrightarrow> all_issues P (fb b))
   \<Longrightarrow> (\<And>n. x = JNum n \<Longrightarrow> all_issues P (fn n))
   \<Longrightarrow> (\<And>s. x = JStr s \<Longrightarrow> all_issues P (fs s))
   \<Longrightarrow> (\<And>l. x = JList l \<Longrightarrow> all_issues P (fl l))
   \<Longrightarrow> (\<And>kvs. x = JObj kvs \<Longrightarrow> all_issues P (fo kvs))
   \<Longrightarrow> all_issues P (case_json a fb fn fs fl fo x)"
  by (cases x) simp_all

lemma all_state_case_json:
  "all_state P a \<Longrightarrow> (\<And>b. x = JBool b \<Longrightarrow> all_state P (fb b))
   \<Longrightarrow> (\<And>n. x = JNum n \<Longrightarrow> all_state P (fn n))
   \<Longrightarrow> (\<And>s. x = JStr s \<Longrightarrow> all_state P (fs s))
   \<Longrightarrow> (\<And>l. x = JList l \<Longrightarrow> all_state P (fl l))
   \<Longrightarrow> (\<And>kvs. x = JObj kvs \<Longrightarrow> all_state P (fo kvs))
   \<Longrightarrow> all_state P (case_json a fb fn fs fl fo x)"
  by (cases x) simp_all

lemma all_issues_if:
  "(c \<Longrightarrow> all_issues P a) \<Longrightarrow> (\<not> c \<Longrightarrow> all_issues P b) \<Longrightarrow> all_issues P (if c then a else b)"
  by simp

lemma all_state_if:
  "(c \<Longrightarrow> all_state P a) \<Longrightarrow> (\<not> c \<Longrightarrow> all_state P b) \<Longrightarrow> all_state P (if c then a else b)"
  by simp

lemma all_issues_case_prod:
  "(\<And>a b. x = (a, b) \<Longrightarrow> all_issues P (g a b)) \<Longrightarrow> all_issues P (case_prod g x)"
  by (cases x) simp

lemma all_issues_case_option:
  "all_issues P a \<Longrightarrow> (\<And>v. all_issues P (f v)) \<Longrightarrow> all_issues P (case_option a f x)"
  by (cases x) simp_all

lemmas all_issues_intros =
  all_issues_after all_issues_after_state all_issues_andThen
  all_state_after all_state_andThen
  all_issues_for_each all_issues_for_enumerate all_state_for_state
  all_issues_case_json all_state_case_json all_issues_if all_state_if
  all_issues_case_prod all_issues_case_option

lemma list_all_map_always:
  "(\<And>x. P (mk x)) \<Longrightarrow> list_all P (map mk xs)"
  by (simp add: list_all_iff)

lemma list_all_concat_map:
  "(\<And>x. list_all P (g x)) \<Longrightarrow> list_all P (concat (map g xs))"
  by (induction xs) simp_all

lemmas issue_list_simps =
  issue_def list_all_missing_fields list_all_map_always list_all_concat_map

lemma check_required_fields_codes:
  "all_issues (\<lambda>f. code f \<in> {''E010''}) (check_required_fields data)"
  unfolding check_required_fields_def
  by (intro all_issues_intros; simp add: issue_list_simps)

lemma check_schema_block_codes:
  "all_issues (\<lambda>f. code f \<in> {''E011'', ''E012''}) (check_schema_block data)"
  unfolding check_schema_block_def schema_field_issues_def timestamp_issues_def Let_def
  by (intro all_issues_intros; simp add: issue_list_simps)

lemma check_module_identity_codes:
  "all_issues (\<lambda>f. code f \<in> {''E013'', ''E014''}) (check_module_identity data)"
  unfolding check_module_identity_def
  by (intro all_issues_intros; simp add: issue_list_simps)

lemma check_parameters_codes:
  "all_issues (\<lambda>f. code f \<in> {''E020'', ''E021'', ''W020''}) (check_parameters data)"
  unfolding check_parameters_def parameter_issues_def Let_def
  by (intro all_issues_intros; simp add: issue_list_simps)

lemma check_constraints_codes:
  "all_issues (\<lambda>f. code f \<in> {''E030'', ''E031''}) (check_constraints data)"
  unfolding check_constraints_def constraint_issues_def Let_def
  by (intro all_issues_intros; simp add: issue_list_simps)

lemma check_validation_rules_codes:
  "all_issues (\<lambda>f. code f \<in> {''E040'', ''E041''}) (check_validation_rules data)"
  unfolding check_validation_rules_def rule_issues_def Let_def
  by (intro all_issues_intros; simp add: issue_list_simps)

lemma check_error_codes_codes:
  "all_issues (\<lambda>f. code f \<in> {''E050'', ''E051''}) (check_error_codes data)"
  unfolding check_error_codes_def error_code_issues_def code_format_issues_def
    code_missing_issues_def level_issues_def Let_def
  by (intro all_issues_intros; simp add: issue_list_simps)

lemma check_io_contract_codes:
  "all_issues (\<lambda>f. code f \<in> {''E015'', ''E071''}) (check_io_contract data)"
  unfolding check_io_contract_def io_direction_issues_def io_artifact_issues_def Let_def
  by (intro all_issues_intros; simp add: issue_list_simps)

lemma check_test_cases_codes:
  "all_issues (\<lambda>f. code f \<in> {''E080'', ''W081''}) (check_test_cases data)"
  unfolding check_test_cases_def test_case_issues_def Let_def
  by (intro all_issues_intros; simp add: issue_list_simps)

lemma check_policies_codes:
  "all_issues (\<lambda>f. code f \<in> {''E016''}) (check_policies data)"
  unfolding check_policies_def
  by (intro all_issues_intros; simp add: issue_list_simps)

lemma check_relations_codes:
  "all_issues (\<lambda>f. code f \<in> {''E017''}) (check_relations data)"
  unfolding check_relations_def relation_issues_def
  by (intro all_issues_intros; simp add: issue_list_simps)

lemma glossary_issues_codes:
  "all_issues (\<lambda>f. code f \<in> {''E100'', ''W101''}) (glossary_issues self data)"
  unfolding glossary_issues_def check_glossary_coverage_def
  by (intro all_issues_intros; simp add: issue_list_simps)

lemma check_algorithm_codes:
  "all_issues (\<lambda>f. code f \<in> {''E060'', ''E061'', ''E062'', ''E063'', ''E070''})
     (check_algorithm data)"
  unfolding check_algorithm_def step_issues_def step_id_issues_def step_type_issues_def
    step_missing_issues_def uses_issues_def not_produced_issues_def not_registered_issues_def
    Let_def
  by (intro all_issues_intros; simp add: issue_list_simps case_prod_beta)

lemma filter_other:
  "all_issues (\<lambda>f. code f \<in> S) (Inr xs) \<Longrightarrow> (\<And>f. Q f \<Longrightarrow> code f = c) \<Longrightarrow> c \<notin> S \<Longrightarrow>
     filter Q xs = []"
  by (auto simp: filter_empty_conv list_all_iff)

lemma run_checks_parts:
  assumes "run_checks self data = Inr issues"
  obtains i1 i2 i3 i4 i5 i6 i7 i8 i9 i10 i11 i12 i13 where
    "check_required_fields data = Inr i1" "check_schema_block data = Inr i2"
    "check_module_identity data = Inr i3" "check_parameters data = Inr i4"
    "check_constraints data = Inr i5" "check_validation_rules data = Inr i6"
    "check_error_codes data = Inr i7" "check_algorithm data = Inr i8"
    "check_io_contract data = Inr i9" "check_test_cases data = Inr i10"
    "check_policies data = Inr i11" "check_relations data = Inr i12"
    "glossary_issues self data = Inr i13"
    "issues = i1 @ i2 @ i3 @ i4 @ i5 @ i6 @ i7 @ i8 @ i9 @ i10 @ i11 @ i12 @ i13"
  using assms unfolding run_checks_def andThen_Inr_iff by blast

lemma filter_run_checks:
  assumes "run_checks self data = Inr issues" and q: "\<And>f. Q f \<Longrightarrow> code f = c"
  shows "c \<in> {''E060'', ''E061'', ''E062'', ''E063'', ''E070''} \<Longrightarrow>
           \<exists>out. check_algorithm data = Inr out \<and> filter Q issues = filter Q out"
    and "c \<in> {''E050'', ''E051''} \<Longrightarrow>
           \<exists>out. check_error_codes data = Inr out \<and> filter Q issues = filter Q out"
    and "c \<in> {''E010''} \<Longrightarrow>
           \<exists>out. check_required_fields data = Inr out \<and> filter Q issues = filter Q out"
    and "c \<in> {''E011'', ''E012''} \<Longrightarrow>
           \<exists>out. check_schema_block data = Inr out \<and> filter Q issues = filter Q out"
    and "c \<in> {''E013'', ''E014''} \<Longrightarrow>
           \<exists>out. check_module_identity data = Inr out \<and> filter Q issues = filter Q out"
    and "c \<in> {''E100'', ''W101''} \<Longrightarrow>
           \<exists>out. glossary_issues self data = Inr out \<and> filter Q issues = filter Q out"
proof -
  from assms(1) obtain i1 i2 i3 i4 i5 i6 i7 i8 i9 i10 i11 i12 i13 where
    p: "check_required_fields data = Inr i1" "check_schema_block data = Inr i2"
    "check_module_identity data = Inr i3" "check_parameters data = Inr i4"
    "check_constraints data = Inr i5" "check_validation_rules data = Inr i6"
    "check_error_codes data = Inr i7" "check_algorithm data = Inr i8"
    "check_io_contract data = Inr i9" "check_test_cases data = Inr i10"
    "check_policies data = Inr i11" "check_relations data = Inr i12"
    "glossary_issues self data = Inr i13"
    and i: "issues = i1 @ i2 @ i3 @ i4 @ i5 @ i6 @ i7 @ i8 @ i9 @ i10 @ i11 @ i12 @ i13"
    by (rule run_checks_parts)
  note f1 = filter_other [OF check_required_fields_codes [of data, unfolded p] q]
  note f2 = filter_other [OF check_schema_block_codes [of data, unfolded p] q]
  note f3 = filter_other [OF check_module_identity_codes [of data, unfolded p] q]
  note f4 = filter_other [OF check_parameters_codes [of data, unfolded p] q]
  note f5 = filter_other [OF check_constraints_codes [of data, unfolded p] q]
  note f6 = filter_other [OF check_validation_rules_codes [of data, unfolded p] q]
  note f7 = filter_other [OF check_error_codes_codes [of data, unfolded p] q]
  note f8 = filter_other [OF check_algorithm_codes [of data, unfolded p] q]
  note f9 = filter_other [OF check_io_contract_codes [of data, unfolded p] q]
  note f10 = filter_other [OF check_test_cases_codes [of data, unfolded p] q]
  note f11 = filter_other [OF check_policies_codes [of data, unfolded p] q]
  note f12 = filter_other [OF check_relations_codes [of data, unfolded p] q]
  note f13 = filter_other [OF glossary_issues_codes [of self data, unfolded p] q]
  {
    assume c: "c \<in> {''E060'', ''E061'', ''E062'', ''E063'', ''E070''}"
    have "filter Q i1 = []" "filter Q i2 = []" "filter Q i3 = []" "filter Q i4 = []"
      "filter Q i5 = []" "filter Q i6 = []" "filter Q i7 = []" "filter Q i9 = []"
      "filter Q i10 = []" "filter Q i11 = []" "filter Q i12 = []" "filter Q i13 = []"
      using c by (fastforce intro: f1 f2 f3 f4 f5 f6 f7 f9 f10 f11 f12 f13)+
    then show "\<exists>out. check_algorithm data = Inr out \<and> filter Q issues = filter Q out"
      by (simp add: p i)
  }
  {
    assume c: "c \<in> {''E050'', ''E051''}"
    have "filter Q i1 = []" "filter Q i2 = []" "filter Q i3 = []" "filter Q i4 = []"
      "filter Q i5 = []" "filter Q i6 = []" "filter Q i8 = []" "filter Q i9 = []"
      "filter Q i10 = []" "filter Q i11 = []" "filter Q i12 = []" "filter Q i13 = []"
      using c by (fastforce intro: f1 f2 f3 f4 f5 f6 f8 f9 f10 f11 f12 f13)+
    then show "\<exists>out. check_error_codes data = Inr out \<and> filter Q issues = filter Q out"
      by (simp add: p i)
  }
  {
    assume c: "c \<in> {''E010''}"
    have "filter Q i2 = []" "filter Q i3 = []" "filter Q i4 = []"
      "filter Q i5 = []" "filter Q i6 = []" "filter Q i7 = []" "filter Q i8 = []"
      "filter Q i9 = []" "filter Q i10 = []" "filter Q i11 = []" "filter Q i12 = []"
      "filter Q i13 = []"
      using c by (fastforce intro: f2 f3 f4 f5 f6 f7 f8 f9 f10 f11 f12 f13)+
    then show "\<exists>out. check_required_fields data = Inr out \<and> filter Q issues = filter Q out"
      by (simp add: p i)
  }
  {
    assume c: "c \<in> {''E011'', ''E012''}"
    have "filter Q i1 = []" "filter Q i3 = []" "filter Q i4 = []"
      "filter Q i5 = []" "filter Q i6 = []" "filter Q i7 = []" "filter Q i8 = []"
      "filter Q i9 = []" "filter Q i10 = []" "filter Q i11 = []" "filter Q i12 = []"
      "filter Q i13 = []"
      using c by (fastforce intro: f1 f3 f4 f5 f6 f7 f8 f9 f10 f11 f12 f13)+
    then show "\<exists>out. check_schema_block data = Inr out \<and> filter Q issues = filter Q out"
      by (simp add: p i)
  }
  {
    assume c: "c \<in> {''E013'', ''E014''}"
    have "filter Q i1 = []" "filter Q i2 = []" "filter Q i4 = []"
      "filter Q i5 = []" "filter Q i6 = []" "filter Q i7 = []" "filter Q i8 = []"
      "filter Q i9 = []" "filter Q i10 = []" "filter Q i11 = []" "filter Q i12 = []"
      "filter Q i13 = []"
      using c by (fastforce intro: f1 f2 f4 f5 f6 f7 f8 f9 f10 f11 f12 f13)+
    then show "\<exists>out. check_module_identity data = Inr out \<and> filter Q issues = filter Q out"
      by (simp add: p i)
  }
  {
    assume c: "c \<in> {''E100'', ''W101''}"
    have "filter Q i1 = []" "filter Q i2 = []" "filter Q i3 = []" "filter Q i4 = []"
      "filter Q i5 = []" "filter Q i6 = []" "filter Q i7 = []" "filter Q i8 = []"
      "filter Q i9 = []" "filter Q i10 = []" "filter Q i11 = []" "filter Q i12 = []"
      using c by (fastforce intro: f1 f2 f3 f4 f5 f6 f7 f8 f9 f10 f11 f12)+
    then show "\<exists>out. glossary_issues self data = Inr out \<and> filter Q issues = filter Q out"
      by (simp add: p i)
  }
qed

subsection \<open>The score and the pass flag\<close>

lemma score_build_result:
  "score (build_result p issues) =
     (if error_count issues \<noteq> 0 then max 0 (50 - int (error_count issues) * 10)
      else max 70 (100 - int (warning_count issues) * 5))"
  by (simp add: build_result_def calculate_score_def error_count_def warning_count_def Let_def)

lemma passed_build_result: "passed (build_result p issues) \<longleftrightarrow> error_count issues = 0"
  by (simp add: build_result_def error_count_def Let_def)

text \<open>
  Claim C4. For every list of findings the score is \<open>max 0 (50 - 10 * errors)\<close> when there
  is an error-severity finding and \<open>max 70 (100 - 5 * warnings)\<close> when there is none; it
  lies in \<open>[0, 100]\<close>; it does not increase when the error count grows (whatever the
  warnings do), nor when neither count shrinks, which for error-free lists is monotonicity
  in the warning count.
\<close>

theorem score_formula:
  "score (build_result p issues) =
     (if 1 \<le> error_count issues then max 0 (50 - 10 * int (error_count issues))
      else max 70 (100 - 5 * int (warning_count issues)))
   \<and> 0 \<le> score (build_result p issues) \<and> score (build_result p issues) \<le> 100
   \<and> (error_count xs \<le> error_count ys \<and> warning_count xs \<le> warning_count ys
        \<longrightarrow> score (build_result q ys) \<le> score (build_result p xs))
   \<and> (error_count xs < error_count ys
        \<longrightarrow> score (build_result q ys) \<le> score (build_result p xs))"
  unfolding score_build_result by (auto simp: max_def)

theorem score_formula_witness:
  "score (build_result ''c.json'' [an_error, a_warning]) = 40
   \<and> error_count [a_warning] \<le> error_count [an_error, a_warning]
   \<and> warning_count [a_warning] \<le> warning_count [an_error, a_warning]
   \<and> error_count [a_warning] < error_count [an_error, a_warning]
   \<and> score (build_result ''c.json'' [an_error, a_warning])
       \<le> score (build_result ''c.json'' [a_warning])
   \<and> score (build_result ''c.json'' [a_warning]) = 95"
  using score_formula [of "''c.json''" "[an_error, a_warning]" "[a_warning]"
                          "[an_error, a_warning]" "''c.json''"]
        score_formula [of "''c.json''" "[a_warning]" "[a_warning]"
                          "[an_error, a_warning]" "''c.json''"]
  by (simp add: error_count_def warning_count_def an_error_def a_warning_def issue_def)

text \<open>
  Claim C10. The score of a list of findings is never between 41 and 69: with an
  error-severity finding it is at most 40, without one it is at least 70, so the score
  tells whether the document passed.
\<close>

theorem score_gap:
  "(1 \<le> error_count issues \<longrightarrow> score (build_result p issues) \<le> 40)
   \<and> (error_count issues = 0 \<longrightarrow> 70 \<le> score (build_result p issues))
   \<and> \<not> (41 \<le> score (build_result p issues) \<and> score (build_result p issues) \<le> 69)
   \<and> (passed (build_result p issues) \<longleftrightarrow> 70 \<le> score (build_result p issues))"
  unfolding passed_build_result score_build_result by (auto simp: max_def)

theorem score_gap_witness:
  "1 \<le> error_count [an_error, a_warning]
   \<and> score (build_result ''c.json'' [an_error, a_warning]) \<le> 40
   \<and> error_count [a_warning] = 0
   \<and> 70 \<le> score (build_result ''c.json'' [a_warning])"
  using score_gap [of "[an_error, a_warning]" "''c.json''"]
        score_gap [of "[a_warning]" "''c.json''"]
  by (simp add: error_count_def an_error_def a_warning_def issue_def)

lemma validate_example_contract:
  "validate_contract plain_validator (\<lambda>p. Document example_contract) ''c.json'' =
     Inr \<lparr>file_path = ''c.json'', passed = True, score = 95, errors = [],
          warnings = [a_warning]\<rparr>"
  by code_simp

text \<open>
  Claim C5. When \<open>validate_contract\<close> returns a result, the document was loaded, the
  result's errors and warnings are the error-severity and the warning-severity findings of
  the checks, and \<open>passed\<close> holds exactly when there is no error-severity finding; the
  warnings play no part in it.
\<close>

theorem passed_iff_no_errors:
  assumes "validate_contract self fs p = Inr r"
  shows "\<exists>data issues.
           fs p = Document data \<and> run_checks self data = Inr issues
           \<and> errors r = filter (\<lambda>i. severity i = ERROR) issues
           \<and> warnings r = filter (\<lambda>i. severity i = WARNING) issues
           \<and> (passed r \<longleftrightarrow> error_count issues = 0)
           \<and> (passed r \<longleftrightarrow> length (errors r) = 0)"
proof -
  from assms obtain data where d: "fs p = Document data"
    by (cases "fs p") (simp_all add: validate_contract_def load_json_def)
  with assms obtain issues where i: "run_checks self data = Inr issues"
    by (cases "run_checks self data") (simp_all add: validate_contract_def load_json_def)
  from assms d i have r: "r = build_result p issues"
    by (simp add: validate_contract_def load_json_def)
  show ?thesis
    using d i unfolding r by (simp add: build_result_def error_count_def Let_def)
qed

theorem passed_iff_no_errors_witness:
  "validate_contract plain_validator (\<lambda>p. Document example_contract) ''c.json'' =
     Inr \<lparr>file_path = ''c.json'', passed = True, score = 95, errors = [],
          warnings = [a_warning]\<rparr>
   \<and> (\<exists>issues. run_checks plain_validator example_contract = Inr issues
                \<and> error_count issues = 0
                \<and> filter (\<lambda>i. severity i = WARNING) issues = [a_warning])"
  using passed_iff_no_errors [OF validate_example_contract] validate_example_contract
  by auto

subsection \<open>Data flow of the algorithm\<close>

lemma validate_contract_Inr:
  assumes "validate_contract self fs p = Inr r" and "fs p = Document data"
  obtains issues where "run_checks self data = Inr issues" "r = build_result p issues"
  using assms by (auto simp: validate_contract_def load_json_def andThen_Inr_iff)

lemma errors_build_result [simp]:
  "errors (build_result p issues) = filter (\<lambda>i. severity i = ERROR) issues"
  by (simp add: build_result_def Let_def)

lemma warnings_build_result [simp]:
  "warnings (build_result p issues) = filter (\<lambda>i. severity i = WARNING) issues"
  by (simp add: build_result_def Let_def)

lemma filter_filter_swap: "filter P (filter Q xs) = filter Q (filter P xs)"
  by (induction xs) auto

lemma filter_all_errors:
  "all_issues (\<lambda>f. severity f = ERROR) (Inr out) \<Longrightarrow>
     filter (\<lambda>f. severity f = ERROR) (filter Q out) = filter Q out"
  by (induction out) auto

lemma check_algorithm_errors:
  "all_issues (\<lambda>f. severity f = ERROR) (check_algorithm data)"
  unfolding check_algorithm_def step_issues_def step_id_issues_def step_type_issues_def
    step_missing_issues_def uses_issues_def not_produced_issues_def not_registered_issues_def
    Let_def
  by (intro all_issues_intros; simp add: issue_list_simps case_prod_beta)

lemma filter_errors_algorithm:
  assumes "validate_contract self fs p = Inr r" and "fs p = Document data"
    and "\<And>f. Q f \<Longrightarrow> code f = c"
    and "c \<in> {''E060'', ''E061'', ''E062'', ''E063'', ''E070''}"
  obtains out where "check_algorithm data = Inr out" "filter Q (errors r) = filter Q out"
proof -
  from assms(1,2) obtain issues where
    i: "run_checks self data = Inr issues" and r: "r = build_result p issues"
    by (rule validate_contract_Inr)
  from filter_run_checks(1) [OF i assms(3,4)]
  obtain out where o: "check_algorithm data = Inr out" "filter Q issues = filter Q out"
    by auto
  have a: "all_issues (\<lambda>f. severity f = ERROR) (Inr out)"
    using check_algorithm_errors [of data] by (simp only: o(1))
  have "filter Q (errors r) = filter (\<lambda>f. severity f = ERROR) (filter Q issues)"
    unfolding r errors_build_result by (rule filter_filter_swap)
  also have "\<dots> = filter Q out"
    by (simp only: o(2) filter_all_errors [OF a])
  finally show thesis using o(1) that by blast
qed

lemma flow_findings:
  assumes "validate_contract self fs p = Inr r" and "fs p = Document data"
    and "i < length (steps_of data)"
  shows "filter (is_unknown_at i) (errors r) = map (unknown_artifact i) (unavailable data i)"
proof -
  obtain out where o: "check_algorithm data = Inr out"
    "filter (is_unknown_at i) (errors r) = filter (is_unknown_at i) out"
    using filter_errors_algorithm [OF assms(1,2), of "is_unknown_at i" "''E061''"]
    by (auto simp: is_unknown_at_def)
  show ?thesis
    by (simp only: o(2) check_algorithm_flow [OF o(1) assms(3)])
qed

lemma produced_by_Nil [simp]: "produced_by [] = []"
  by (simp add: produced_by_def)

lemma count_list_filter: "count_list (filter P xs) a = (if P a then count_list xs a else 0)"
  by (induction xs) auto

lemma count_unknown_artifact:
  "count_list (map (unknown_artifact i) ys) (unknown_artifact i a)
     = length (filter (\<lambda>u. py_str u = py_str a) ys)"
  by (induction ys) auto

lemma unavailable_member:
  assumes "a \<in> set (uses_of (steps_of data ! i))" and "hash_key a = Inr k"
    and "k \<notin> set (declared_inputs data)" and "k \<notin> set (parameter_names data)"
    and "k \<notin> set (produced_by (take i (steps_of data)))"
  shows "a \<in> set (unavailable data i)"
  using assms by (simp add: unavailable_def is_known_def available_before_def)

text \<open>
  Claim C1, as amended. When validation returns a result and a step's \<open>uses\<close> names an
  artifact that is not a declared contract input, not a parameter name and not produced by
  an earlier step, the result's errors hold the data-flow finding \<open>E061\<close> naming that
  step and that artifact once for every entry of the step's \<open>uses\<close> that is not available
  to the step and that the message prints like the artifact: at least once, and exactly
  once when no other entry of the \<open>uses\<close> prints like it.
\<close>

theorem unknown_artifact_per_occurrence:
  assumes "validate_contract self fs p = Inr r" and "fs p = Document data"
    and "i < length (steps_of data)"
    and "a \<in> set (uses_of (steps_of data ! i))"
    and "hash_key a = Inr k"
    and "k \<notin> set (declared_inputs data)"
    and "k \<notin> set (parameter_names data)"
    and "k \<notin> set (produced_by (take i (steps_of data)))"
  shows "count_list (errors r) (unknown_artifact i a)
           = length (filter (\<lambda>u. py_str u = py_str a) (unavailable data i))
         \<and> 1 \<le> count_list (errors r) (unknown_artifact i a)
         \<and> (filter (\<lambda>u. py_str u = py_str a) (uses_of (steps_of data ! i)) = [a]
              \<longrightarrow> count_list (errors r) (unknown_artifact i a) = 1)"
proof -
  let ?same = "\<lambda>u. py_str u = py_str a"
  have "count_list (errors r) (unknown_artifact i a)
          = count_list (filter (is_unknown_at i) (errors r)) (unknown_artifact i a)"
    by (simp add: count_list_filter)
  also have "\<dots> = count_list (map (unknown_artifact i) (unavailable data i)) (unknown_artifact i a)"
    by (simp only: flow_findings [OF assms(1-3)])
  finally have c: "count_list (errors r) (unknown_artifact i a)
                     = length (filter ?same (unavailable data i))"
    by (simp only: count_unknown_artifact)
  have m: "a \<in> set (unavailable data i)"
    by (rule unavailable_member [OF assms(4-8)])
  then have "filter ?same (unavailable data i) \<noteq> []"
    by (auto simp: filter_empty_conv)
  then have one: "1 \<le> length (filter ?same (unavailable data i))"
    by (cases "filter ?same (unavailable data i)") simp_all
  have single: "length (filter ?same (unavailable data i)) = 1"
    if h: "filter ?same (uses_of (steps_of data ! i)) = [a]"
  proof -
    have "filter ?same (unavailable data i)
            = filter (\<lambda>u. \<not> is_known (available_before data i) u)
                (filter ?same (uses_of (steps_of data ! i)))"
      unfolding unavailable_def by (rule filter_filter_swap)
    also have "\<dots> = [a]"
      using m by (simp add: h unavailable_def)
    finally show ?thesis by simp
  qed
  from c one single show ?thesis by simp
qed

lemma validate_ghost_twice:
  "validate_contract plain_validator (\<lambda>p. Document ghost_twice_contract) ''c.json''
     = Inr ghost_twice_result"
  by code_simp

lemma ghost_twice_facts:
  "0 < length (steps_of ghost_twice_contract)"
  "uses_of (steps_of ghost_twice_contract ! 0) = [JStr ''in1'', JStr ''ghost'', JStr ''ghost'']"
  "declared_inputs ghost_twice_contract = [KStr ''in1'']"
  "parameter_names ghost_twice_contract = [KStr ''p1'']"
  "produced_by (take 0 (steps_of ghost_twice_contract)) = []"
  "unavailable ghost_twice_contract 0 = [JStr ''ghost'', JStr ''ghost'']"
  by code_simp+

lemma validate_mixed_uses:
  "validate_contract plain_validator (\<lambda>p. Document mixed_uses_contract) ''c.json''
     = Inr mixed_uses_result"
  by code_simp

lemma mixed_uses_facts:
  "0 < length (steps_of mixed_uses_contract)"
  "uses_of (steps_of mixed_uses_contract ! 0) = [JNum 1, JStr ''1'', JStr ''in1'']"
  "declared_inputs mixed_uses_contract = [KStr ''in1'']"
  "parameter_names mixed_uses_contract = [KStr ''p1'']"
  "produced_by (take 0 (steps_of mixed_uses_contract)) = []"
  "unavailable mixed_uses_contract 0 = [JNum 1, JStr ''1'']"
  "str_int 1 = ''1''"
  by code_simp+

lemma validate_forward:
  "validate_contract plain_validator (\<lambda>p. Document forward_contract) ''c.json''
     = Inr forward_result"
  by code_simp

lemma forward_facts:
  "0 < length (steps_of forward_contract)"
  "Suc 0 < length (steps_of forward_contract)"
  "uses_of (steps_of forward_contract ! 0) = [JStr ''own'']"
  "uses_of (steps_of forward_contract ! Suc 0) = [JStr ''own'', JStr ''later'']"
  "declared_inputs forward_contract = [KStr ''in1'']"
  "parameter_names forward_contract = [KStr ''p1'']"
  "produced_by (take 0 (steps_of forward_contract)) = []"
  "produced_by (take (Suc 0) (steps_of forward_contract)) = [KStr ''own'']"
  "produced_by (steps_of forward_contract) = [KStr ''own'', KStr ''out1'', KStr ''later'']"
  "unavailable forward_contract 0 = [JStr ''own'']"
  "unavailable forward_contract (Suc 0) = [JStr ''later'']"
  by code_simp+

theorem unknown_artifact_per_occurrence_witness:
  "validate_contract plain_validator (\<lambda>p. Document ghost_twice_contract) ''c.json''
     = Inr ghost_twice_result
   \<and> uses_of (steps_of ghost_twice_contract ! 0) = [JStr ''in1'', JStr ''ghost'', JStr ''ghost'']
   \<and> declared_inputs ghost_twice_contract = [KStr ''in1'']
   \<and> parameter_names ghost_twice_contract = [KStr ''p1'']
   \<and> count_list (errors ghost_twice_result) (unknown_artifact 0 (JStr ''ghost'')) = 2
   \<and> validate_contract plain_validator (\<lambda>p. Document mixed_uses_contract) ''c.json''
     = Inr mixed_uses_result
   \<and> uses_of (steps_of mixed_uses_contract ! 0) = [JNum 1, JStr ''1'', JStr ''in1'']
   \<and> unknown_artifact 0 (JNum 1) = unknown_artifact 0 (JStr ''1'')
   \<and> count_list (errors mixed_uses_result) (unknown_artifact 0 (JStr ''1'')) = 2
   \<and> validate_contract plain_validator (\<lambda>p. Document forward_contract) ''c.json''
     = Inr forward_result
   \<and> uses_of (steps_of forward_contract ! 0) = [JStr ''own'']
   \<and> count_list (errors forward_result) (unknown_artifact 0 (JStr ''own'')) = 1"
  using unknown_artifact_per_occurrence
          [OF validate_ghost_twice refl ghost_twice_facts(1), of "JStr ''ghost''" "KStr ''ghost''"]
        unknown_artifact_per_occurrence
          [OF validate_mixed_uses refl mixed_uses_facts(1), of "JStr ''1''" "KStr ''1''"]
        unknown_artifact_per_occurrence
          [OF validate_forward refl forward_facts(1), of "JStr ''own''" "KStr ''own''"]
        validate_ghost_twice validate_mixed_uses validate_forward
  by (simp add: ghost_twice_facts mixed_uses_facts forward_facts)

text \<open>
  The claim as stated (exactly one finding) fails where a step lists the missing artifact
  twice: the only step of the first contract uses \<open>ghost\<close> twice and the result holds
  two findings for step 0 and \<open>ghost\<close>. It also fails where two different missing
  artifacts are printed alike: the only step of the second contract uses the number
  \<open>1\<close> and the string \<open>1\<close>, and the result holds two equal findings.
\<close>

theorem exactly_one_unknown_artifact_counterexample:
  "validate_contract plain_validator (\<lambda>p. Document ghost_twice_contract) ''c.json''
     = Inr ghost_twice_result
   \<and> errors ghost_twice_result
       = [unknown_artifact 0 (JStr ''ghost''), unknown_artifact 0 (JStr ''ghost'')]
   \<and> uses_of (steps_of ghost_twice_contract ! 0) = [JStr ''in1'', JStr ''ghost'', JStr ''ghost'']
   \<and> declared_inputs ghost_twice_contract = [KStr ''in1'']
   \<and> parameter_names ghost_twice_contract = [KStr ''p1'']
   \<and> validate_contract plain_validator (\<lambda>p. Document mixed_uses_contract) ''c.json''
     = Inr mixed_uses_result
   \<and> errors mixed_uses_result = [unknown_artifact 0 (JNum 1), unknown_artifact 0 (JStr ''1'')]
   \<and> unknown_artifact 0 (JNum 1) = unknown_artifact 0 (JStr ''1'')
   \<and> message (unknown_artifact 0 (JNum 1)) = ''Step [0] uses unknown artifact: 1''
   \<and> uses_of (steps_of mixed_uses_contract ! 0) = [JNum 1, JStr ''1'', JStr ''in1'']
   \<and> declared_inputs mixed_uses_contract = [KStr ''in1'']
   \<and> parameter_names mixed_uses_contract = [KStr ''p1'']"
  by (simp add: ghost_twice_result_def mixed_uses_result_def validate_ghost_twice
        validate_mixed_uses)
     code_simp

text \<open>
  Claim C2, as amended. When validation returns a result, the findings \<open>E061\<close> of a step
  are those of the entries of its \<open>uses\<close> that are neither a declared input, nor a
  parameter name, nor produced by an earlier step, one for each such entry and in their
  order. What the step itself or a later step produces is not available to it, so every
  forward reference is a data-flow error, whether or not a producer follows; and an
  artifact has no finding at a step when every entry of the \<open>uses\<close> that prints like it
  is available there.
\<close>

theorem forward_reference_rejected:
  assumes "validate_contract self fs p = Inr r" and "fs p = Document data"
    and "i < length (steps_of data)"
  shows "filter (is_unknown_at i) (errors r) = map (unknown_artifact i) (unavailable data i)
       \<and> (a \<in> set (uses_of (steps_of data ! i)) \<and> hash_key a = Inr k
            \<and> k \<notin> set (declared_inputs data) \<and> k \<notin> set (parameter_names data)
            \<and> k \<notin> set (produced_by (take i (steps_of data)))
            \<longrightarrow> unknown_artifact i a \<in> set (errors r))
       \<and> ((\<forall>u \<in> set (uses_of (steps_of data ! i)).
               py_str u = py_str a \<longrightarrow> is_known (available_before data i) u)
            \<longrightarrow> unknown_artifact i a \<notin> set (errors r))"
proof (intro conjI impI)
  show f: "filter (is_unknown_at i) (errors r) = map (unknown_artifact i) (unavailable data i)"
    by (rule flow_findings [OF assms])
  have s: "unknown_artifact i a \<in> set (errors r)
             \<longleftrightarrow> unknown_artifact i a \<in> set (map (unknown_artifact i) (unavailable data i))"
  proof -
    have "unknown_artifact i a \<in> set (errors r)
            \<longleftrightarrow> unknown_artifact i a \<in> set (filter (is_unknown_at i) (errors r))"
      by simp
    then show ?thesis by (simp only: f)
  qed
  {
    assume "a \<in> set (uses_of (steps_of data ! i)) \<and> hash_key a = Inr k
            \<and> k \<notin> set (declared_inputs data) \<and> k \<notin> set (parameter_names data)
            \<and> k \<notin> set (produced_by (take i (steps_of data)))"
    then have "a \<in> set (unavailable data i)"
      by (intro unavailable_member [where k = k]) simp_all
    then show "unknown_artifact i a \<in> set (errors r)"
      unfolding s by simp
  }
  {
    assume "\<forall>u \<in> set (uses_of (steps_of data ! i)).
              py_str u = py_str a \<longrightarrow> is_known (available_before data i) u"
    then show "unknown_artifact i a \<notin> set (errors r)"
      unfolding s by (auto simp: unavailable_def)
  }
qed

lemma forward_available:
  "is_known (available_before forward_contract (Suc 0)) (JStr ''own'')"
  by code_simp

theorem forward_reference_rejected_witness:
  "validate_contract plain_validator (\<lambda>p. Document forward_contract) ''c.json''
     = Inr forward_result
   \<and> uses_of (steps_of forward_contract ! 0) = [JStr ''own'']
   \<and> uses_of (steps_of forward_contract ! 1) = [JStr ''own'', JStr ''later'']
   \<and> KStr ''own'' \<in> set (produced_by (steps_of forward_contract))
   \<and> KStr ''later'' \<in> set (produced_by (steps_of forward_contract))
   \<and> filter (is_unknown_at 0) (errors forward_result) = [unknown_artifact 0 (JStr ''own'')]
   \<and> filter (is_unknown_at 1) (errors forward_result) = [unknown_artifact 1 (JStr ''later'')]
   \<and> unknown_artifact 0 (JStr ''own'') \<in> set (errors forward_result)
   \<and> unknown_artifact 1 (JStr ''later'') \<in> set (errors forward_result)
   \<and> unknown_artifact 1 (JStr ''own'') \<notin> set (errors forward_result)"
  using forward_reference_rejected
          [OF validate_forward refl forward_facts(1), of "JStr ''own''" "KStr ''own''"]
        forward_reference_rejected
          [OF validate_forward refl forward_facts(2), of "JStr ''later''" "KStr ''later''"]
        forward_reference_rejected
          [OF validate_forward refl forward_facts(2), of "JStr ''own''" "KStr ''own''"]
        validate_forward forward_available
  by (simp add: forward_facts)

text \<open>
  The claim as stated, for every document, fails where validation ends with an exception:
  the first step of this contract uses \<open>later\<close>, which only the second step produces, and
  the \<open>uses\<close> of the second step is \<^verbatim>\<open>null\<close>; the loop over it raises
  \<^verbatim>\<open>TypeError\<close> and no finding is reported for the forward reference.
\<close>

theorem forward_reference_lost_counterexample:
  "validate_contract plain_validator (\<lambda>p. Document null_uses_contract) ''c.json''
     = Inl TypeError
   \<and> uses_of (steps_of null_uses_contract ! 0) = [JStr ''later'']
   \<and> declared_inputs null_uses_contract = [KStr ''in1'']
   \<and> parameter_names null_uses_contract = [KStr ''p1'']
   \<and> produced_by (take 0 (steps_of null_uses_contract)) = []
   \<and> produced_by (steps_of null_uses_contract) = [KStr ''out1'', KStr ''later'']"
  by code_simp

subsection \<open>Declared outputs\<close>

lemma steps_loop_codes:
  "all_state (\<lambda>f. code f \<in> {''E061'', ''E063''}) (for_state (step_issues avail) n steps prd)"
  unfolding step_issues_def step_id_issues_def step_type_issues_def step_missing_issues_def
    uses_issues_def
  by (intro all_issues_intros; simp add: issue_list_simps)

lemma not_produced_neq_not_registered [simp]: "not_produced v \<noteq> not_registered v'"
  by (simp add: not_produced_def not_registered_def issue_def)

lemma not_produced_issues_eq:
  "set prd = set prd' \<Longrightarrow>
     not_produced_issues outs prd
       = map (\<lambda>(k, out). not_produced out) (filter (\<lambda>(k, out). k \<notin> set prd') outs)"
  by (simp add: not_produced_issues_def not_produced_def)

lemma not_registered_issues_eq:
  "not_registered_issues outs regs
     = map (\<lambda>(k, out). not_registered out) (filter (\<lambda>(k, out). k \<notin> set regs) outs)"
  by (simp add: not_registered_issues_def not_registered_def)

lemma filter_code_all:
  "(\<And>f. f \<in> set xs \<Longrightarrow> code f = c) \<Longrightarrow> filter (\<lambda>f. code f = c) xs = xs"
  by (simp add: filter_id_conv)

lemma code_not_produced_issues:
  "f \<in> set (not_produced_issues outs prd) \<Longrightarrow> code f = ''E062''"
  by (auto simp: not_produced_issues_def issue_def)

lemma code_not_registered_issues:
  "f \<in> set (not_registered_issues outs regs) \<Longrightarrow> code f = ''E070''"
  by (auto simp: not_registered_issues_def issue_def)

lemma check_algorithm_outputs:
  assumes "check_algorithm data = Inr out" and "has_steps data"
  shows "filter (\<lambda>f. code f = ''E062'') out
           = map (\<lambda>(k, out). not_produced out)
               (filter (\<lambda>(k, out). k \<notin> set (produced_by (steps_of data)))
                  (declared_outputs data))"
    and "filter (\<lambda>f. code f = ''E070'') out
           = map (\<lambda>(k, out). not_registered out)
               (filter (\<lambda>(k, out). k \<notin> set (registry_ids data)) (declared_outputs data))"
proof -
  from assms obtain loop_out prd where
    l: "for_state (step_issues (set_union (declared_inputs data) (parameter_names data))) 0
          (steps_of data) [] = Inr (loop_out, prd)"
    and o: "out = loop_out @ not_produced_issues (declared_outputs data) prd
              @ not_registered_issues (declared_outputs data) (registry_ids data)"
    by (rule check_algorithm_run)
  have c: "\<forall>f \<in> set loop_out. code f \<in> {''E061'', ''E063''}"
    using steps_loop_codes [of "set_union (declared_inputs data) (parameter_names data)" 0
            "steps_of data" "[]"]
    by (simp add: l list_all_iff)
  have n: "filter (\<lambda>f. code f = ''E062'') loop_out = []"
    "filter (\<lambda>f. code f = ''E070'') loop_out = []"
    using c by (fastforce simp: filter_empty_conv)+
  have p: "set prd = set (produced_by (steps_of data))"
    using steps_loop_produced [OF l] by simp
  have 1: "filter (\<lambda>f. code f = ''E062'') (not_produced_issues (declared_outputs data) prd)
             = not_produced_issues (declared_outputs data) prd"
    by (rule filter_code_all) (rule code_not_produced_issues)
  have 2: "filter (\<lambda>f. code f = ''E062'')
             (not_registered_issues (declared_outputs data) (registry_ids data)) = []"
    by (rule filter_code_none [where d = "''E070''"]) (auto dest: code_not_registered_issues)
  have 3: "filter (\<lambda>f. code f = ''E070'') (not_produced_issues (declared_outputs data) prd)
             = []"
    by (rule filter_code_none [where d = "''E062''"]) (auto dest: code_not_produced_issues)
  have 4: "filter (\<lambda>f. code f = ''E070'')
             (not_registered_issues (declared_outputs data) (registry_ids data))
             = not_registered_issues (declared_outputs data) (registry_ids data)"
    by (rule filter_code_all) (rule code_not_registered_issues)
  show "filter (\<lambda>f. code f = ''E062'') out
           = map (\<lambda>(k, out). not_produced out)
               (filter (\<lambda>(k, out). k \<notin> set (produced_by (steps_of data)))
                  (declared_outputs data))"
    unfolding o by (simp only: filter_append n 1 2 append_Nil append_Nil2)
       (rule not_produced_issues_eq [OF p])
  show "filter (\<lambda>f. code f = ''E070'') out
           = map (\<lambda>(k, out). not_registered out)
               (filter (\<lambda>(k, out). k \<notin> set (registry_ids data)) (declared_outputs data))"
    unfolding o by (simp only: filter_append n 3 4 append_Nil append_Nil2)
       (rule not_registered_issues_eq)
qed

lemma not_produced_eq [simp]: "not_produced v = not_produced v' \<longleftrightarrow> py_str v = py_str v'"
  by (simp add: not_produced_def issue_def)

lemma not_registered_eq [simp]:
  "not_registered v = not_registered v' \<longleftrightarrow> py_str v = py_str v'"
  by (simp add: not_registered_def issue_def)

lemma code_gate_finding [simp]: "code (gate_finding data) = ''E060''"
  by (simp add: gate_finding_def issue_def split: sum.splits json.splits)

text \<open>
  Claim C6, as amended. When validation returns a result for a document whose algorithm
  block is an object with steps, the findings \<open>E062\<close> of the result are, up to their
  order, those of the declared contract outputs that no step produces, one for each, and the
  findings \<open>E070\<close> are those of the declared contract outputs absent from the artifact
  registry, whether or not a step produces them; so each such output has its finding among
  the errors, and the two findings of an output are different. When the algorithm block is
  not an object or its steps are empty, the result holds the one finding \<open>E060\<close> of the
  check and no finding \<open>E062\<close> or \<open>E070\<close>.
\<close>

theorem outputs_produced_and_registered:
  assumes "validate_contract self fs p = Inr r" and "fs p = Document data"
  shows "(has_steps data \<longrightarrow>
            count_list (filter (\<lambda>f. code f = ''E062'') (errors r)) f
              = count_list
                  (map (\<lambda>(k, out). not_produced out)
                     (filter (\<lambda>(k, out). k \<notin> set (produced_by (steps_of data)))
                        (declared_outputs data))) f
          \<and> count_list (filter (\<lambda>f. code f = ''E070'') (errors r)) f
              = count_list
                  (map (\<lambda>(k, out). not_registered out)
                     (filter (\<lambda>(k, out). k \<notin> set (registry_ids data))
                        (declared_outputs data))) f
          \<and> ((k, out) \<in> set (declared_outputs data)
                \<and> k \<notin> set (produced_by (steps_of data))
              \<longrightarrow> not_produced out \<in> set (errors r))
          \<and> ((k, out) \<in> set (declared_outputs data) \<and> k \<notin> set (registry_ids data)
              \<longrightarrow> not_registered out \<in> set (errors r)))
       \<and> (\<not> has_steps data \<longrightarrow>
            filter (\<lambda>f. code f = ''E060'') (errors r) = [gate_finding data]
          \<and> filter (\<lambda>f. code f = ''E062'') (errors r) = []
          \<and> filter (\<lambda>f. code f = ''E070'') (errors r) = [])
       \<and> not_produced out \<noteq> not_registered out'"
proof -
  obtain res where res: "check_algorithm data = Inr res"
    and e060: "filter (\<lambda>f. code f = ''E060'') (errors r) = filter (\<lambda>f. code f = ''E060'') res"
    using filter_errors_algorithm [OF assms, of "\<lambda>f. code f = ''E060''" "''E060''"] by auto
  have e062: "filter (\<lambda>f. code f = ''E062'') (errors r) = filter (\<lambda>f. code f = ''E062'') res"
    using filter_errors_algorithm [OF assms, of "\<lambda>f. code f = ''E062''" "''E062''"] res
    by auto
  have e070: "filter (\<lambda>f. code f = ''E070'') (errors r) = filter (\<lambda>f. code f = ''E070'') res"
    using filter_errors_algorithm [OF assms, of "\<lambda>f. code f = ''E070''" "''E070''"] res
    by auto
  have with_steps:
    "filter (\<lambda>f. code f = ''E062'') (errors r)
       = map (\<lambda>(k, out). not_produced out)
           (filter (\<lambda>(k, out). k \<notin> set (produced_by (steps_of data))) (declared_outputs data))"
    "filter (\<lambda>f. code f = ''E070'') (errors r)
       = map (\<lambda>(k, out). not_registered out)
           (filter (\<lambda>(k, out). k \<notin> set (registry_ids data)) (declared_outputs data))"
    if "has_steps data"
    using check_algorithm_outputs [OF res that] by (simp_all only: e062 e070)
  have counts:
    "count_list (filter (\<lambda>f. code f = ''E062'') (errors r)) f
       = count_list
           (map (\<lambda>(k, out). not_produced out)
              (filter (\<lambda>(k, out). k \<notin> set (produced_by (steps_of data)))
                 (declared_outputs data))) f"
    "count_list (filter (\<lambda>f. code f = ''E070'') (errors r)) f
       = count_list
           (map (\<lambda>(k, out). not_registered out)
              (filter (\<lambda>(k, out). k \<notin> set (registry_ids data)) (declared_outputs data))) f"
    if "has_steps data"
    by (simp_all only: with_steps [OF that])
  have produced: "not_produced out \<in> set (errors r)"
    if hs: "has_steps data" and m: "(k, out) \<in> set (declared_outputs data)"
      and n: "k \<notin> set (produced_by (steps_of data))"
  proof -
    from m n have "not_produced out \<in> set (map (\<lambda>(k, out). not_produced out)
        (filter (\<lambda>(k, out). k \<notin> set (produced_by (steps_of data))) (declared_outputs data)))"
      by force
    then have "not_produced out \<in> set (filter (\<lambda>f. code f = ''E062'') (errors r))"
      by (simp only: with_steps(1) [OF hs])
    then show ?thesis by simp
  qed
  have registered: "not_registered out \<in> set (errors r)"
    if hs: "has_steps data" and m: "(k, out) \<in> set (declared_outputs data)"
      and n: "k \<notin> set (registry_ids data)"
  proof -
    from m n have "not_registered out \<in> set (map (\<lambda>(k, out). not_registered out)
        (filter (\<lambda>(k, out). k \<notin> set (registry_ids data)) (declared_outputs data)))"
      by force
    then have "not_registered out \<in> set (filter (\<lambda>f. code f = ''E070'') (errors r))"
      by (simp only: with_steps(2) [OF hs])
    then show ?thesis by simp
  qed
  have gate: "filter (\<lambda>f. code f = ''E060'') (errors r) = [gate_finding data]"
    "filter (\<lambda>f. code f = ''E062'') (errors r) = []"
    "filter (\<lambda>f. code f = ''E070'') (errors r) = []"
    if "\<not> has_steps data"
    unfolding e060 e062 e070 check_algorithm_gate [OF res that] by simp_all
  from counts produced registered gate show ?thesis
    by (simp only: not_produced_neq_not_registered not_False_eq_True simp_thms) blast
qed

lemma validate_outputs_contract:
  "validate_contract plain_validator (\<lambda>p. Document outputs_contract) ''c.json''
     = Inr outputs_result"
  by code_simp

lemma outputs_contract_facts:
  "has_steps outputs_contract"
  "declared_outputs outputs_contract
     = [(KStr ''out1'', JStr ''out1''), (KStr ''out2'', JStr ''out2''),
        (KStr ''out3'', JStr ''out3'')]"
  "produced_by (steps_of outputs_contract) = [KStr ''out1'', KStr ''out3'']"
  "registry_ids outputs_contract = [KStr ''out1'']"
  by code_simp+

lemma validate_no_algorithm:
  "validate_contract plain_validator (\<lambda>p. Document no_algorithm_contract) ''c.json''
     = Inr no_algorithm_result"
  by code_simp

lemma validate_no_steps:
  "validate_contract plain_validator (\<lambda>p. Document no_steps_contract) ''c.json''
     = Inr no_steps_result"
  by code_simp

lemma gate_facts:
  "\<not> has_steps no_algorithm_contract"
  "gate_finding no_algorithm_contract
     = issue ''E060'' ERROR ''algorithm must be an object'' ''$.algorithm''"
  "declared_outputs no_algorithm_contract
     = [(KStr ''out1'', JStr ''out1''), (KStr ''out2'', JStr ''out2'')]"
  "\<not> has_steps no_steps_contract"
  "gate_finding no_steps_contract
     = issue ''E060'' ERROR ''algorithm.steps must be non-empty'' ''$.algorithm.steps''"
  by code_simp+

theorem outputs_produced_and_registered_witness:
  "validate_contract plain_validator (\<lambda>p. Document outputs_contract) ''c.json''
     = Inr outputs_result
   \<and> has_steps outputs_contract
   \<and> declared_outputs outputs_contract
       = [(KStr ''out1'', JStr ''out1''), (KStr ''out2'', JStr ''out2''),
          (KStr ''out3'', JStr ''out3'')]
   \<and> produced_by (steps_of outputs_contract) = [KStr ''out1'', KStr ''out3'']
   \<and> registry_ids outputs_contract = [KStr ''out1'']
   \<and> count_list (filter (\<lambda>f. code f = ''E062'') (errors outputs_result))
         (not_produced (JStr ''out2'')) = 1
   \<and> count_list (filter (\<lambda>f. code f = ''E062'') (errors outputs_result))
         (not_produced (JStr ''out3'')) = 0
   \<and> count_list (filter (\<lambda>f. code f = ''E070'') (errors outputs_result))
         (not_registered (JStr ''out3'')) = 1
   \<and> count_list (filter (\<lambda>f. code f = ''E070'') (errors outputs_result))
         (not_registered (JStr ''out1'')) = 0
   \<and> not_produced (JStr ''out2'') \<in> set (errors outputs_result)
   \<and> not_registered (JStr ''out2'') \<in> set (errors outputs_result)
   \<and> not_registered (JStr ''out3'') \<in> set (errors outputs_result)
   \<and> validate_contract plain_validator (\<lambda>p. Document no_algorithm_contract) ''c.json''
       = Inr no_algorithm_result
   \<and> \<not> has_steps no_algorithm_contract
   \<and> declared_outputs no_algorithm_contract
       = [(KStr ''out1'', JStr ''out1''), (KStr ''out2'', JStr ''out2'')]
   \<and> filter (\<lambda>f. code f = ''E060'') (errors no_algorithm_result)
       = [issue ''E060'' ERROR ''algorithm must be an object'' ''$.algorithm'']
   \<and> filter (\<lambda>f. code f = ''E062'') (errors no_algorithm_result) = []
   \<and> filter (\<lambda>f. code f = ''E070'') (errors no_algorithm_result) = []
   \<and> validate_contract plain_validator (\<lambda>p. Document no_steps_contract) ''c.json''
       = Inr no_steps_result
   \<and> \<not> has_steps no_steps_contract
   \<and> filter (\<lambda>f. code f = ''E060'') (errors no_steps_result)
       = [issue ''E060'' ERROR ''algorithm.steps must be non-empty'' ''$.algorithm.steps'']
   \<and> filter (\<lambda>f. code f = ''E062'') (errors no_steps_result) = []
   \<and> filter (\<lambda>f. code f = ''E070'') (errors no_steps_result) = []"
  using outputs_produced_and_registered
          [OF validate_outputs_contract refl,
           of "not_produced (JStr ''out2'')" "KStr ''out2''" "JStr ''out2''"]
        outputs_produced_and_registered
          [OF validate_outputs_contract refl,
           of "not_produced (JStr ''out3'')" "KStr ''out2''" "JStr ''out2''"]
        outputs_produced_and_registered
          [OF validate_outputs_contract refl,
           of "not_registered (JStr ''out3'')" "KStr ''out3''" "JStr ''out3''"]
        outputs_produced_and_registered
          [OF validate_outputs_contract refl,
           of "not_registered (JStr ''out1'')" "KStr ''out3''" "JStr ''out3''"]
        outputs_produced_and_registered [OF validate_no_algorithm refl]
        outputs_produced_and_registered [OF validate_no_steps refl]
        validate_outputs_contract validate_no_algorithm validate_no_steps
  by (simp add: outputs_contract_facts gate_facts)

text \<open>
  The claim as stated fails where the list of steps is empty: the check returns with the
  one finding \<open>E060\<close> before it looks at the outputs. This contract declares two outputs
  that no step produces and that are not registered, and its result holds no finding for
  either of them.
\<close>

theorem unproduced_output_counterexample:
  "validate_contract plain_validator (\<lambda>p. Document no_steps_contract) ''c.json''
     = Inr no_steps_result
   \<and> errors no_steps_result
       = [issue ''E060'' ERROR ''algorithm.steps must be non-empty'' ''$.algorithm.steps'']
   \<and> declared_outputs no_steps_contract
       = [(KStr ''out1'', JStr ''out1''), (KStr ''out2'', JStr ''out2'')]
   \<and> produced_by (steps_of no_steps_contract) = []
   \<and> registry_ids no_steps_contract = []"
  by (simp add: no_steps_result_def) code_simp

subsection \<open>Duplicate codes of the registry\<close>

lemma duplicate_code_eq [simp]:
  "duplicate_code i c = duplicate_code j d \<longleftrightarrow> i = j \<and> py_str c = py_str d"
  by (auto simp: duplicate_code_def issue_def)

lemma is_duplicate_at_duplicate_code [simp]:
  "is_duplicate_at j (duplicate_code i c) \<longleftrightarrow> i = j"
  by (auto simp: is_duplicate_at_def duplicate_code_def issue_def)

lemma code_format_issues_codes:
  "all_issues (\<lambda>f. code f = ''E050'') (code_format_issues i c)"
  unfolding code_format_issues_def
  by (intro all_issues_intros; simp add: issue_list_simps)

lemma py_startswith_str: "py_startswith c p = Inr b \<Longrightarrow> \<exists>s. c = JStr s"
  by (cases c) simp_all

lemma error_code_issues_dict:
  assumes "error_code_issues i (JObj kvs) seen = Inr (out, seen')"
  obtains s where "dict_lookup kvs ''code'' (JStr []) = JStr s"
    and "seen' = set_add (KStr s) seen"
    and "filter (is_duplicate_at j) out =
           (if i = j \<and> KStr s \<in> set seen then [duplicate_code i (JStr s)] else [])"
proof -
  let ?code = "dict_lookup kvs ''code'' (JStr [])"
  let ?level = "dict_lookup kvs ''level'' (JStr [])"
  from assms obtain fmt se sw dup k where
    f: "code_format_issues i ?code = Inr fmt"
    and se: "py_startswith ?code ''E'' = Inr se"
    and sw: "py_startswith ?code ''W'' = Inr sw"
    and dup: "py_in_set ?code seen = Inr dup"
    and k: "hash_key ?code = Inr k"
    and out: "out = code_missing_issues i kvs @ fmt @ level_issues i ?code ?level se sw
                @ (if dup then [issue ''E051'' ERROR (''Duplicate error code: '' @ py_str ?code)
                                  (''$.error_codes['' @ str_nat i @ ''].code'')]
                   else [])"
    and seen': "seen' = set_add k seen"
    by (auto simp: error_code_issues_def andThen_Inr_iff Let_def)
  from se obtain s where s: "?code = JStr s" by (auto dest: py_startswith_str)
  from k s have ks: "k = KStr s" by simp
  from dup s have d: "dup \<longleftrightarrow> KStr s \<in> set seen" by (auto simp: py_in_set_def)
  have 1: "filter (is_duplicate_at j) (code_missing_issues i kvs) = []"
    by (auto simp: filter_empty_conv code_missing_issues_def missing_fields_def
          is_duplicate_at_def issue_def)
  have 2: "filter (is_duplicate_at j) fmt = []"
    using code_format_issues_codes [of i ?code]
    by (auto simp: f filter_empty_conv list_all_iff is_duplicate_at_def)
  have 3: "filter (is_duplicate_at j) (level_issues i ?code ?level se sw) = []"
    by (auto simp: filter_empty_conv level_issues_def is_duplicate_at_def issue_def)
  have 4: "issue ''E051'' ERROR (''Duplicate error code: '' @ py_str ?code)
             (''$.error_codes['' @ str_nat i @ ''].code'') = duplicate_code i (JStr s)"
    by (simp add: duplicate_code_def s)
  show thesis
  proof (rule that [OF s])
    show "seen' = set_add (KStr s) seen" using seen' ks by simp
    show "filter (is_duplicate_at j) out =
           (if i = j \<and> KStr s \<in> set seen then [duplicate_code i (JStr s)] else [])"
      unfolding out 4 using 1 2 3 d by simp
  qed
qed

lemma hash_key_KStr: "hash_key c = Inr (KStr s) \<longleftrightarrow> c = JStr s"
  by (cases c) auto

lemma error_code_issues_step:
  assumes "error_code_issues i ec seen = Inr (out, seen')"
  shows "filter (is_duplicate_at j) out =
           (case entry_code ec of
              Some c \<Rightarrow> if i = j \<and> is_known seen c then [duplicate_code i c] else []
            | None \<Rightarrow> [])"
    and "\<And>c. is_known seen' c \<longleftrightarrow> is_known seen c \<or> entry_code ec = Some c"
proof -
  show "filter (is_duplicate_at j) out =
           (case entry_code ec of
              Some c \<Rightarrow> if i = j \<and> is_known seen c then [duplicate_code i c] else []
            | None \<Rightarrow> [])"
  proof (cases ec)
    case (JObj kvs)
    from assms [unfolded JObj] show ?thesis
      by (rule error_code_issues_dict [where j = j])
         (simp add: JObj entry_code_def is_known_def)
  qed (use assms in \<open>auto simp: error_code_issues_def entry_code_def\<close>)
  show "is_known seen' c \<longleftrightarrow> is_known seen c \<or> entry_code ec = Some c" for c
  proof (cases ec)
    case (JObj kvs)
    from assms [unfolded JObj] show ?thesis
    proof (rule error_code_issues_dict [where j = j])
      fix s assume "dict_lookup kvs ''code'' (JStr []) = JStr s" "seen' = set_add (KStr s) seen"
      then show ?thesis
        by (cases c) (auto simp: JObj entry_code_def is_known_def)
    qed
  qed (use assms in \<open>auto simp: error_code_issues_def entry_code_def\<close>)
qed

lemma error_codes_loop_low:
  "for_state error_code_issues n ecs seen = Inr (out, seen') \<Longrightarrow> m < n \<Longrightarrow>
     filter (is_duplicate_at m) out = []"
proof (induction ecs arbitrary: n seen out)
  case Nil
  then show ?case by simp
next
  case (Cons e ecs)
  from Cons.prems(1) obtain o1 s1 rest where
    s: "error_code_issues n e seen = Inr (o1, s1)"
    and r: "for_state error_code_issues (Suc n) ecs s1 = Inr (rest, seen')"
    and out: "out = o1 @ rest"
    by (auto split: sum.splits prod.splits)
  show ?case
    using error_code_issues_step(1) [OF s, of m] Cons.IH [OF r] Cons.prems(2)
    by (simp add: out split: option.splits)
qed

lemma error_codes_loop:
  "for_state error_code_issues n ecs seen = Inr (out, seen') \<Longrightarrow> i < length ecs \<Longrightarrow>
     filter (is_duplicate_at (n + i)) out =
       (case entry_code (ecs ! i) of
          Some c \<Rightarrow>
            if is_known seen c \<or> seen_earlier ecs i c then [duplicate_code (n + i) c] else []
        | None \<Rightarrow> [])"
proof (induction ecs arbitrary: n seen out i)
  case Nil
  then show ?case by simp
next
  case (Cons e ecs)
  from Cons.prems(1) obtain o1 s1 rest where
    s: "error_code_issues n e seen = Inr (o1, s1)"
    and r: "for_state error_code_issues (Suc n) ecs s1 = Inr (rest, seen')"
    and out: "out = o1 @ rest"
    by (auto split: sum.splits prod.splits)
  show ?case
  proof (cases i)
    case 0
    show ?thesis
      using error_code_issues_step(1) [OF s, of n] error_codes_loop_low [OF r, of n]
      by (simp add: 0 out seen_earlier_def split: option.splits)
  next
    case (Suc i')
    with Cons.prems(2) have i': "i' < length ecs" by simp
    have k: "is_known s1 c \<or> seen_earlier ecs i' c
             \<longleftrightarrow> is_known seen c \<or> seen_earlier (e # ecs) i c" for c
      using error_code_issues_step(2) [OF s, of c] by (auto simp: Suc seen_earlier_def)
    show ?thesis
      using error_code_issues_step(1) [OF s, of "n + i"] Cons.IH [OF r i']
      by (simp add: Suc out k split: option.splits)
  qed
qed

lemma check_error_codes_duplicates:
  assumes "check_error_codes data = Inr out" and "i < length (registry_entries data)"
  shows "filter (is_duplicate_at i) out = duplicates_at (registry_entries data) i"
proof -
  from assms(1) obtain v where v: "py_get data ''error_codes'' (JList []) = Inr v"
    by (auto simp: check_error_codes_def andThen_Inr_iff)
  with assms(2) obtain ecs where ecs: "v = JList ecs" "registry_entries data = ecs"
    by (cases v) (auto simp: registry_entries_def)
  from assms(2) ecs have ne: "ecs \<noteq> []" by auto
  from assms(1) v ecs ne obtain seen' where
    l: "for_state error_code_issues 0 ecs [] = Inr (out, seen')"
    by (auto simp: check_error_codes_def andThen_Inr_iff)
  show ?thesis
    using error_codes_loop [OF l, of i] assms(2) ecs
    by (simp add: duplicates_at_def is_known_def split: option.splits sum.splits)
qed

lemma filter_errors_error_codes:
  assumes "validate_contract self fs p = Inr r" and "fs p = Document data"
    and "\<And>f. Q f \<Longrightarrow> code f = c" and "c \<in> {''E050'', ''E051''}"
  obtains out where "check_error_codes data = Inr out"
    "filter Q (errors r) = filter (\<lambda>f. severity f = ERROR) (filter Q out)"
proof -
  from assms(1,2) obtain issues where
    i: "run_checks self data = Inr issues" and r: "r = build_result p issues"
    by (rule validate_contract_Inr)
  from filter_run_checks(2) [OF i assms(3,4)]
  obtain out where o: "check_error_codes data = Inr out" "filter Q issues = filter Q out"
    by auto
  have "filter Q (errors r) = filter (\<lambda>f. severity f = ERROR) (filter Q issues)"
    unfolding r errors_build_result by (rule filter_filter_swap)
  with o that show ?thesis by simp
qed

text \<open>
  Claim C7, as amended. An entry of the error-code registry is read with its code,
  \<^verbatim>\<open>ec.get("code", "")\<close>. When validation returns a result, an entry whose code is the
  code of an earlier entry has exactly one duplicate finding \<open>E051\<close> at its own index, and
  an entry whose code no earlier entry has, the first occurrence of the code, has none.
\<close>

theorem duplicate_codes_flagged_once:
  assumes "validate_contract self fs p = Inr r" and "fs p = Document data"
    and "i < length (registry_entries data)"
    and "entry_code (registry_entries data ! i) = Some c"
  shows "(seen_earlier (registry_entries data) i c
            \<longrightarrow> filter (is_duplicate_at i) (errors r) = [duplicate_code i c])
       \<and> (\<not> seen_earlier (registry_entries data) i c
            \<longrightarrow> filter (is_duplicate_at i) (errors r) = [])"
proof -
  obtain out where o: "check_error_codes data = Inr out"
    "filter (is_duplicate_at i) (errors r)
       = filter (\<lambda>f. severity f = ERROR) (filter (is_duplicate_at i) out)"
    using filter_errors_error_codes [OF assms(1,2), of "is_duplicate_at i" "''E051''"]
    by (auto simp: is_duplicate_at_def)
  show ?thesis
    unfolding o(2) check_error_codes_duplicates [OF o(1) assms(3)]
    by (simp add: duplicates_at_def assms(4) duplicate_code_def issue_def)
qed

lemma validate_duplicate_codes:
  "validate_contract plain_validator (\<lambda>p. Document duplicate_codes_contract) ''c.json''
     = Inr duplicate_codes_result"
  by code_simp

lemma duplicate_codes_facts:
  "length (registry_entries duplicate_codes_contract) = 4"
  "map entry_code (registry_entries duplicate_codes_contract)
     = [Some (JStr ''E001''), Some (JStr ''W001''), Some (JStr ''E001''), Some (JStr ''E001'')]"
  by code_simp+

theorem duplicate_codes_flagged_once_witness:
  "validate_contract plain_validator (\<lambda>p. Document duplicate_codes_contract) ''c.json''
     = Inr duplicate_codes_result
   \<and> map entry_code (registry_entries duplicate_codes_contract)
       = [Some (JStr ''E001''), Some (JStr ''W001''), Some (JStr ''E001''), Some (JStr ''E001'')]
   \<and> filter (is_duplicate_at 0) (errors duplicate_codes_result) = []
   \<and> filter (is_duplicate_at 1) (errors duplicate_codes_result) = []
   \<and> filter (is_duplicate_at 2) (errors duplicate_codes_result)
       = [duplicate_code 2 (JStr ''E001'')]
   \<and> filter (is_duplicate_at 3) (errors duplicate_codes_result)
       = [duplicate_code 3 (JStr ''E001'')]"
proof -
  let ?ecs = "registry_entries duplicate_codes_contract"
  have l: "0 < length ?ecs" "1 < length ?ecs" "2 < length ?ecs" "3 < length ?ecs"
    by (simp_all add: duplicate_codes_facts(1))
  have m: "map entry_code ?ecs ! 0 = entry_code (?ecs ! 0)"
    "map entry_code ?ecs ! 1 = entry_code (?ecs ! 1)"
    "map entry_code ?ecs ! 2 = entry_code (?ecs ! 2)"
    "map entry_code ?ecs ! 3 = entry_code (?ecs ! 3)"
    using l by (simp_all only: nth_map)
  have e: "entry_code (?ecs ! 0) = Some (JStr ''E001'')"
    "entry_code (?ecs ! 1) = Some (JStr ''W001'')"
    "entry_code (?ecs ! 2) = Some (JStr ''E001'')"
    "entry_code (?ecs ! 3) = Some (JStr ''E001'')"
    using m unfolding duplicate_codes_facts(2) by simp_all
  have s: "\<not> seen_earlier ?ecs 0 (JStr ''E001'')" "\<not> seen_earlier ?ecs 1 (JStr ''W001'')"
    "seen_earlier ?ecs 2 (JStr ''E001'')" "seen_earlier ?ecs 3 (JStr ''E001'')"
    unfolding seen_earlier_def take_map [symmetric] duplicate_codes_facts(2)
    by (simp_all add: numeral_2_eq_2 numeral_3_eq_3)
  show ?thesis
    using duplicate_codes_flagged_once [OF validate_duplicate_codes refl l(1) e(1)]
          duplicate_codes_flagged_once [OF validate_duplicate_codes refl l(2) e(2)]
          duplicate_codes_flagged_once [OF validate_duplicate_codes refl l(3) e(3)]
          duplicate_codes_flagged_once [OF validate_duplicate_codes refl l(4) e(4)]
          s validate_duplicate_codes duplicate_codes_facts(2)
    by simp
qed

text \<open>
  The claim as stated, for every document, fails where validation ends with an exception:
  the second entry of this registry repeats the code of the first, and the code of the
  third entry is \<^verbatim>\<open>null\<close>, on which \<^verbatim>\<open>code.startswith\<close> raises
  \<^verbatim>\<open>AttributeError\<close>; no finding is reported for the duplicate.
\<close>

theorem duplicate_code_lost_counterexample:
  "validate_contract plain_validator (\<lambda>p. Document null_code_contract) ''c.json''
     = Inl AttributeError
   \<and> check_error_codes null_code_contract = Inl AttributeError
   \<and> map entry_code (registry_entries null_code_contract)
       = [Some (JStr ''E001''), Some (JStr ''E001''), Some JNull]
   \<and> seen_earlier (registry_entries null_code_contract) 1 (JStr ''E001'')"
  by code_simp

subsection \<open>Glossary coverage\<close>

lemma glossary_issues_cases:
  assumes "glossary_issues self data = Inr out"
  shows "out = []
       \<or> (\<exists>policy abbr terms.
             glossary_truthy self \<and> glossary_policy data = Some policy
             \<and> \<not> py_eq_str policy ''off'' \<and> module_abbr_of data = Some abbr \<and> truthy abbr
             \<and> glossary_terms self = Some terms \<and> \<not> is_known (map KStr terms) abbr
             \<and> out = [not_in_glossary policy abbr])"
proof (cases "glossary_truthy self")
  case False
  with assms show ?thesis by (simp add: glossary_issues_def)
next
  case True
  then obtain g where g: "glossary self = Some g"
    by (auto simp: glossary_truthy_def split: option.splits)
  from assms True g show ?thesis
    by (auto simp: glossary_issues_def check_glossary_coverage_def andThen_Inr_iff
          glossary_policy_def module_abbr_of_def glossary_terms_def not_in_glossary_def
          py_in_set_def is_known_def
          split: if_splits sum.splits)
qed

lemma glossary_issues_emits:
  assumes "glossary_issues self data = Inr out"
    and "glossary_truthy self" and "glossary_policy data = Some policy"
    and "\<not> py_eq_str policy ''off''" and "module_abbr_of data = Some abbr" and "truthy abbr"
    and "glossary_terms self = Some terms" and "\<not> is_known (map KStr terms) abbr"
  shows "out = [not_in_glossary policy abbr]"
proof -
  from assms(2) obtain g where g: "glossary self = Some g"
    by (auto simp: glossary_truthy_def split: option.splits)
  from assms g show ?thesis
    by (auto simp: glossary_issues_def check_glossary_coverage_def andThen_Inr_iff
          glossary_policy_def module_abbr_of_def glossary_terms_def not_in_glossary_def
          py_in_set_def is_known_def
          split: if_splits sum.splits)
qed

lemma mem_iff_filter: "x \<in> set xs \<longleftrightarrow> filter (\<lambda>g. g = x) xs \<noteq> []"
  by (auto simp: filter_empty_conv)

lemma glossary_findings_of_result:
  assumes "validate_contract self fs p = Inr r" and "fs p = Document data"
  obtains out where "glossary_issues self data = Inr out"
    "\<forall>f. code f \<in> {''E100'', ''W101''} \<longrightarrow>
        (f \<in> set (errors r) \<union> set (warnings r) \<longleftrightarrow> f \<in> set out)"
proof -
  from assms(1,2) obtain issues where
    i: "run_checks self data = Inr issues" and r: "r = build_result p issues"
    by (rule validate_contract_Inr)
  from i obtain out where o: "glossary_issues self data = Inr out" by (rule run_checks_parts)
  have m: "\<forall>f. code f \<in> {''E100'', ''W101''} \<longrightarrow>
             (f \<in> set (errors r) \<union> set (warnings r) \<longleftrightarrow> f \<in> set out)"
  proof (intro allI impI)
    fix f :: LintIssue
    assume c: "code f \<in> {''E100'', ''W101''}"
    from filter_run_checks(6) [OF i, of "\<lambda>g. g = f" "code f", OF _ c] o
    have "filter (\<lambda>g. g = f) issues = filter (\<lambda>g. g = f) out" by auto
    then have 1: "f \<in> set issues \<longleftrightarrow> f \<in> set out"
      by (simp only: mem_iff_filter)
    have 2: "f \<in> set (errors r) \<union> set (warnings r) \<longleftrightarrow> f \<in> set issues"
      unfolding r by (cases "severity f") simp_all
    from 1 2 show "f \<in> set (errors r) \<union> set (warnings r) \<longleftrightarrow> f \<in> set out"
      by (simp only:)
  qed
  show thesis by (rule that [OF o m])
qed

text \<open>
  Claim C9, as amended. When validation returns a result, a glossary finding (\<open>E100\<close> or
  \<open>W101\<close>) is in it only if a glossary was supplied to the validator and the document's
  glossary policy is not \<open>off\<close>; when the glossary is loaded and not empty, the policy is
  not \<open>off\<close> and the document's short module code is a non-empty string that is no term of
  the glossary, the result holds the finding for it: an error under the policy
  \<open>strict\<close>, a warning under any other policy; and when the short module code is empty
  or missing (read as the empty string), the result holds no glossary finding at all.
\<close>

theorem glossary_coverage_findings:
  assumes "validate_contract self fs p = Inr r" and "fs p = Document data"
  shows "(f \<in> set (errors r) \<union> set (warnings r) \<and> code f \<in> {''E100'', ''W101''}
            \<longrightarrow> glossary self \<noteq> None \<and> glossary_policy data \<noteq> Some (JStr ''off''))
       \<and> (glossary_truthy self \<and> glossary_policy data = Some policy \<and> policy \<noteq> JStr ''off''
            \<and> module_abbr_of data = Some (JStr abbr) \<and> abbr \<noteq> []
            \<and> glossary_terms self = Some terms \<and> abbr \<notin> set terms
            \<longrightarrow> (policy = JStr ''strict''
                   \<longrightarrow> not_in_glossary policy (JStr abbr) \<in> set (errors r)
                       \<and> code (not_in_glossary policy (JStr abbr)) = ''E100'')
                \<and> (policy \<noteq> JStr ''strict''
                   \<longrightarrow> not_in_glossary policy (JStr abbr) \<in> set (warnings r)
                       \<and> code (not_in_glossary policy (JStr abbr)) = ''W101''))
       \<and> (module_abbr_of data = Some v \<and> \<not> truthy v
            \<longrightarrow> filter (\<lambda>f. code f \<in> {''E100'', ''W101''}) (errors r @ warnings r) = [])"
proof -
  from assms obtain out where o: "glossary_issues self data = Inr out"
    and m': "\<forall>f. code f \<in> {''E100'', ''W101''} \<longrightarrow>
              (f \<in> set (errors r) \<union> set (warnings r) \<longleftrightarrow> f \<in> set out)"
    by (rule glossary_findings_of_result)
  from assms obtain issues where r: "r = build_result p issues"
    by (rule validate_contract_Inr)
  have only: "glossary self \<noteq> None \<and> glossary_policy data \<noteq> Some (JStr ''off'')"
    if h: "f \<in> set (errors r) \<union> set (warnings r) \<and> code f \<in> {''E100'', ''W101''}"
  proof -
    from h m' have "f \<in> set out" by blast
    then have ne: "out \<noteq> []" by auto
    from glossary_issues_cases [OF o] ne obtain policy' where
      t: "glossary_truthy self" and p: "glossary_policy data = Some policy'"
      and n: "\<not> py_eq_str policy' ''off''"
      by blast
    from t have "glossary self \<noteq> None"
      by (cases "glossary self") (simp_all add: glossary_truthy_def)
    moreover from p n have "glossary_policy data \<noteq> Some (JStr ''off'')"
      by (simp add: py_eq_str_def)
    ultimately show ?thesis by (rule conjI)
  qed
  have emits:
    "(policy = JStr ''strict''
        \<longrightarrow> not_in_glossary policy (JStr abbr) \<in> set (errors r)
            \<and> code (not_in_glossary policy (JStr abbr)) = ''E100'')
     \<and> (policy \<noteq> JStr ''strict''
        \<longrightarrow> not_in_glossary policy (JStr abbr) \<in> set (warnings r)
            \<and> code (not_in_glossary policy (JStr abbr)) = ''W101'')"
    if hyp: "glossary_truthy self \<and> glossary_policy data = Some policy \<and> policy \<noteq> JStr ''off''
            \<and> module_abbr_of data = Some (JStr abbr) \<and> abbr \<noteq> []
            \<and> glossary_terms self = Some terms \<and> abbr \<notin> set terms"
  proof -
    from hyp have h: "glossary_truthy self" "glossary_policy data = Some policy"
      "policy \<noteq> JStr ''off''" "module_abbr_of data = Some (JStr abbr)" "abbr \<noteq> []"
      "glossary_terms self = Some terms" "abbr \<notin> set terms"
      by simp_all
    let ?f = "not_in_glossary policy (JStr abbr)"
    have a: "\<not> py_eq_str policy ''off''" using h(3) by (simp add: py_eq_str_def)
    have b: "truthy (JStr abbr)" using h(5) by simp
    have c: "\<not> is_known (map KStr terms) (JStr abbr)"
      using h(7) by (simp add: is_known_def image_iff)
    have out: "out = [?f]"
      by (rule glossary_issues_emits [OF o h(1,2) a h(4) b h(6) c])
    have cf: "code ?f \<in> {''E100'', ''W101''}"
      by (simp add: not_in_glossary_def issue_def)
    from m' cf have "?f \<in> set (errors r) \<union> set (warnings r) \<longleftrightarrow> ?f \<in> set out"
      by (elim allE [where x = "?f"] impE) (assumption, assumption)
    with out have i: "?f \<in> set (errors r) \<union> set (warnings r)" by simp
    have s: "?f \<in> set (errors r) \<longleftrightarrow> ?f \<in> set issues \<and> severity ?f = ERROR"
      "?f \<in> set (warnings r) \<longleftrightarrow> ?f \<in> set issues \<and> severity ?f = WARNING"
      unfolding r by simp_all
    have st: "policy = JStr ''strict'' \<Longrightarrow> severity ?f = ERROR \<and> code ?f = ''E100''"
      by (simp add: not_in_glossary_def issue_def py_eq_str_def)
    have ns: "policy \<noteq> JStr ''strict'' \<Longrightarrow> severity ?f = WARNING \<and> code ?f = ''W101''"
      by (simp add: not_in_glossary_def issue_def py_eq_str_def)
    show ?thesis
    proof (intro conjI impI)
      assume p: "policy = JStr ''strict''"
      from st [OF p] i s show "?f \<in> set (errors r)" by auto
      from st [OF p] show "code ?f = ''E100''" by simp
    next
      assume p: "policy \<noteq> JStr ''strict''"
      from ns [OF p] i s show "?f \<in> set (warnings r)" by auto
      from ns [OF p] show "code ?f = ''W101''" by simp
    qed
  qed
  have skipped: "filter (\<lambda>f. code f \<in> {''E100'', ''W101''}) (errors r @ warnings r) = []"
    if h: "module_abbr_of data = Some v \<and> \<not> truthy v"
  proof -
    from glossary_issues_cases [OF o] h have out: "out = []" by auto
    have "code g \<notin> {''E100'', ''W101''}" if g: "g \<in> set (errors r @ warnings r)" for g
    proof
      assume c: "code g \<in> {''E100'', ''W101''}"
      from m' c have "g \<in> set (errors r) \<union> set (warnings r) \<longleftrightarrow> g \<in> set out"
        by (elim allE [where x = g] impE) (assumption, assumption)
      with g out show False by simp
    qed
    then show ?thesis by (simp only: filter_empty_conv) blast
  qed
  show ?thesis
    by (intro conjI) (rule impI, erule only, rule impI, erule emits, rule impI, erule skipped)
qed

lemma validate_unknown_abbr:
  "validate_contract glossary_validator (\<lambda>p. Document example_contract) ''c.json''
     = Inr unknown_abbr_result"
  by code_simp

lemma validate_lenient:
  "validate_contract glossary_validator (\<lambda>p. Document lenient_contract) ''c.json''
     = Inr lenient_result"
  by code_simp

lemma glossary_facts:
  "glossary_truthy glossary_validator"
  "glossary_terms glossary_validator = Some [''XY'']"
  "glossary_policy example_contract = Some (JStr ''strict'')"
  "module_abbr_of example_contract = Some (JStr ''AB'')"
  "glossary_policy lenient_contract = Some (JStr ''warn'')"
  "module_abbr_of lenient_contract = Some (JStr ''AB'')"
  by code_simp+

lemma validate_lenient_empty_abbr:
  "validate_contract glossary_validator (\<lambda>p. Document lenient_empty_abbr_contract) ''c.json''
     = Inr lenient_empty_abbr_result"
  by code_simp

lemma lenient_empty_abbr_facts:
  "glossary_policy lenient_empty_abbr_contract = Some (JStr ''warn'')"
  "module_abbr_of lenient_empty_abbr_contract = Some (JStr [])"
  by code_simp+

theorem glossary_coverage_findings_witness:
  "validate_contract glossary_validator (\<lambda>p. Document example_contract) ''c.json''
     = Inr unknown_abbr_result
   \<and> validate_contract glossary_validator (\<lambda>p. Document lenient_contract) ''c.json''
     = Inr lenient_result
   \<and> glossary_terms glossary_validator = Some [''XY'']
   \<and> glossary_policy example_contract = Some (JStr ''strict'')
   \<and> glossary_policy lenient_contract = Some (JStr ''warn'')
   \<and> not_in_glossary (JStr ''strict'') (JStr ''AB'') \<in> set (errors unknown_abbr_result)
   \<and> code (not_in_glossary (JStr ''strict'') (JStr ''AB'')) = ''E100''
   \<and> not_in_glossary (JStr ''warn'') (JStr ''AB'') \<in> set (warnings lenient_result)
   \<and> code (not_in_glossary (JStr ''warn'') (JStr ''AB'')) = ''W101''
   \<and> glossary glossary_validator \<noteq> None
   \<and> validate_contract glossary_validator (\<lambda>p. Document lenient_empty_abbr_contract)
        ''c.json''
     = Inr lenient_empty_abbr_result
   \<and> glossary_policy lenient_empty_abbr_contract = Some (JStr ''warn'')
   \<and> module_abbr_of lenient_empty_abbr_contract = Some (JStr [])
   \<and> filter (\<lambda>f. code f \<in> {''E100'', ''W101''})
        (errors lenient_empty_abbr_result @ warnings lenient_empty_abbr_result) = []"
  using glossary_coverage_findings
          [OF validate_unknown_abbr refl,
           of "not_in_glossary (JStr ''strict'') (JStr ''AB'')" "JStr ''strict''" "''AB''"
              "[''XY'']"]
        glossary_coverage_findings
          [OF validate_lenient refl,
           of "not_in_glossary (JStr ''warn'') (JStr ''AB'')" "JStr ''warn''" "''AB''"
              "[''XY'']"]
        glossary_coverage_findings
          [OF validate_lenient_empty_abbr refl, of _ _ _ _ "JStr []"]
        validate_unknown_abbr validate_lenient validate_lenient_empty_abbr glossary_facts
        lenient_empty_abbr_facts
  by simp

text \<open>
  The claim as stated fails for an empty short module code: the check looks a code up only
  when it is not empty. Under the policy \<open>strict\<close>, with a glossary whose only term is
  \<open>XY\<close>, the empty code is no term of the glossary and the result holds no glossary finding.
\<close>

theorem empty_abbr_counterexample:
  "validate_contract glossary_validator (\<lambda>p. Document empty_abbr_contract) ''c.json''
     = Inr empty_abbr_result
   \<and> errors empty_abbr_result
       = [issue ''E013'' ERROR ''Invalid module_abbr format: ''
            ''$.module_abbr'']
   \<and> warnings empty_abbr_result = [a_warning]
   \<and> glossary_truthy glossary_validator
   \<and> glossary_terms glossary_validator = Some [''XY'']
   \<and> glossary_policy empty_abbr_contract = Some (JStr ''strict'')
   \<and> module_abbr_of empty_abbr_contract = Some (JStr [])"
  by (simp add: empty_abbr_result_def) code_simp

subsection \<open>Structural findings\<close>

lemma filter_errors:
  assumes "validate_contract self fs p = Inr r" and "fs p = Document data"
    and q: "\<And>f. Q f \<Longrightarrow> code f = c"
  shows "c \<in> {''E010''} \<Longrightarrow>
           \<exists>out. check_required_fields data = Inr out
                 \<and> filter Q (errors r) = filter (\<lambda>f. severity f = ERROR) (filter Q out)"
    and "c \<in> {''E011'', ''E012''} \<Longrightarrow>
           \<exists>out. check_schema_block data = Inr out
                 \<and> filter Q (errors r) = filter (\<lambda>f. severity f = ERROR) (filter Q out)"
    and "c \<in> {''E013'', ''E014''} \<Longrightarrow>
           \<exists>out. check_module_identity data = Inr out
                 \<and> filter Q (errors r) = filter (\<lambda>f. severity f = ERROR) (filter Q out)"
proof -
  from assms(1,2) obtain issues where
    i: "run_checks self data = Inr issues" and r: "r = build_result p issues"
    by (rule validate_contract_Inr)
  have e: "filter Q (errors r) = filter (\<lambda>f. severity f = ERROR) (filter Q issues)"
    unfolding r errors_build_result by (rule filter_filter_swap)
  show "c \<in> {''E010''} \<Longrightarrow>
           \<exists>out. check_required_fields data = Inr out
                 \<and> filter Q (errors r) = filter (\<lambda>f. severity f = ERROR) (filter Q out)"
    using filter_run_checks(3) [OF i q] unfolding e by force
  show "c \<in> {''E011'', ''E012''} \<Longrightarrow>
           \<exists>out. check_schema_block data = Inr out
                 \<and> filter Q (errors r) = filter (\<lambda>f. severity f = ERROR) (filter Q out)"
    using filter_run_checks(4) [OF i q] unfolding e by force
  show "c \<in> {''E013'', ''E014''} \<Longrightarrow>
           \<exists>out. check_module_identity data = Inr out
                 \<and> filter Q (errors r) = filter (\<lambda>f. severity f = ERROR) (filter Q out)"
    using filter_run_checks(5) [OF i q] unfolding e by force
qed

lemma required_loop:
  "for_each
     (\<lambda>field.
        andThen (py_contains field (JObj d))
          (\<lambda>present. Inr (if present then [] else [mk field])))
     names = Inr (map mk (filter (\<lambda>f. \<not> dict_has d f) names))"
  by (induction names) simp_all

lemma check_required_fields_dict:
  "check_required_fields (JObj d)
     = Inr (map missing_required (filter (\<lambda>f. \<not> dict_has d f) REQUIRED_FIELDS))"
  unfolding check_required_fields_def missing_required_def by (rule required_loop)

lemma distinct_REQUIRED_FIELDS: "distinct REQUIRED_FIELDS"
  by (simp add: REQUIRED_FIELDS_def)

lemma filter_map_distinct:
  assumes "distinct xs" and "\<And>y. y \<in> set xs \<Longrightarrow> Q (mk y) \<longleftrightarrow> y = x"
  shows "filter Q (map mk (filter P xs)) = (if x \<in> set xs \<and> P x then [mk x] else [])"
  using assms
proof (induction xs)
  case Nil
  then show ?case by simp
next
  case (Cons a xs)
  have ih: "filter Q (map mk (filter P xs)) = (if x \<in> set xs \<and> P x then [mk x] else [])"
    using Cons by auto
  show ?case
  proof (cases "a = x")
    case True
    with Cons.prems(1) have "x \<notin> set xs" by simp
    with ih True Cons.prems(2) [of a] show ?thesis by auto
  next
    case False
    with ih Cons.prems(2) [of a] show ?thesis by auto
  qed
qed

lemma required_findings:
  assumes "field \<in> set REQUIRED_FIELDS"
  shows "filter (\<lambda>f. code f = ''E010'' \<and> path f = ''$.'' @ field)
           (map missing_required (filter (\<lambda>f. \<not> dict_has d f) REQUIRED_FIELDS))
         = (if dict_has d field then [] else [missing_required field])"
  using filter_map_distinct [OF distinct_REQUIRED_FIELDS,
          of "\<lambda>f. code f = ''E010'' \<and> path f = ''$.'' @ field" missing_required field
             "\<lambda>f. \<not> dict_has d f"] assms
  by (auto simp: missing_required_def issue_def)

lemma identity_findings:
  assumes "check_module_identity (JObj d) = Inr out"
  shows "filter (\<lambda>f. code f = ''E013'' \<and> path f = ''$.module_id'') out
           = (if re_match module_id_full (dict_lookup d ''module_id'' (JStr [])) = Inr True then []
              else [invalid_module_id (dict_lookup d ''module_id'' (JStr []))])"
    and "length (filter (\<lambda>f. code f = ''E013'' \<and> path f = ''$.module_abbr'') out)
           = (if re_match module_abbr_full (dict_lookup d ''module_abbr'' (JStr [])) = Inr True
              then 0 else 1)"
    and "length (filter (\<lambda>f. code f = ''E013'' \<and> path f = ''$.version'') out)
           = (if re_match semver_full (dict_lookup d ''version'' (JStr [])) = Inr True
              then 0 else 1)"
    and "length (filter (\<lambda>f. code f = ''E013'' \<and> path f = ''$.module_type'') out)
           = (if py_in_set (dict_lookup d ''module_type'' (JStr [])) VALID_MODULE_TYPES = Inr True
              then 0 else 1)"
    and "length (filter (\<lambda>f. code f = ''E014'' \<and> path f = ''$.module_name'') out)
           = (if has_uk_and_en (dict_lookup d ''module_name'' (JObj [])) then 0 else 1)"
  using assms
  by (auto simp: check_module_identity_def andThen_Inr_iff issue_def invalid_module_id_def)

lemma timestamp_findings:
  assumes "check_schema_block (JObj d) = Inr out"
    and "dict_lookup d ''_schema'' (JObj []) = JObj s"
    and "ts_field \<in> {''created_at'', ''updated_at''}"
  shows "length (filter (\<lambda>f. code f = ''E012'' \<and> path f = ''$._schema.'' @ ts_field) out)
           = (if truthy (dict_lookup s ts_field (JStr []))
                 \<and> re_match timestamp_full (dict_lookup s ts_field (JStr [])) = Inr False
              then 1 else 0)"
proof -
  from assms(1,2) obtain a t1 t2 so io where
    out: "out = schema_field_issues s so io @ t1 @ t2"
    and t1: "timestamp_issues s ''created_at'' = Inr t1"
    and t2: "timestamp_issues s ''updated_at'' = Inr t2"
    by (auto simp: check_schema_block_def andThen_Inr_iff split: sum.splits)
  have a: "\<forall>f \<in> set (schema_field_issues s so io). code f = ''E011''"
    by (auto simp: schema_field_issues_def missing_fields_def issue_def)
  have fa: "filter (\<lambda>f. code f = ''E012'' \<and> path f = q) (schema_field_issues s so io) = []"
    for q
    using a by (auto simp: filter_empty_conv)
  show ?thesis
    using t1 t2 assms(3) unfolding out
    by (auto simp: fa timestamp_issues_def Let_def andThen_Inr_iff issue_def split: if_splits)
qed

lemma check_module_identity_errors:
  "all_issues (\<lambda>f. severity f = ERROR) (check_module_identity data)"
  unfolding check_module_identity_def
  by (intro all_issues_intros; simp add: issue_list_simps)

lemma check_schema_block_errors:
  "all_issues (\<lambda>f. severity f = ERROR) (check_schema_block data)"
  unfolding check_schema_block_def schema_field_issues_def timestamp_issues_def Let_def
  by (intro all_issues_intros; simp add: issue_list_simps)

lemma map_missing_required_errors:
  "filter (\<lambda>f. severity f = ERROR) (filter Q (map missing_required xs))
     = filter Q (map missing_required xs)"
  by (induction xs) (auto simp: missing_required_def issue_def)

text \<open>
  Claim C8, as amended. When validation returns a result for a document: each required
  top-level field that is missing has exactly one finding \<open>E010\<close> with its dotted path, and
  a present one has none; \<open>module_id\<close>, \<open>module_abbr\<close> and \<open>version\<close> each have
  exactly one finding \<open>E013\<close> with their path when missing or not matching their format,
  and none otherwise; \<open>module_type\<close> has exactly one finding \<open>E013\<close> with its path
  when it is missing or not one of the module types, and none otherwise; \<open>module_name\<close>
  has exactly one finding \<open>E014\<close> with its path when it is missing or not an object with
  the keys \<open>uk\<close> and \<open>en\<close>, and none otherwise (so each of these five fields, when
  missing, has two error findings with its path); a timestamp of the metadata block has
  exactly one finding \<open>E012\<close> with its path when it is a non-empty string that does not
  match the format, and none when it is empty or absent.
\<close>

theorem structural_findings:
  assumes "validate_contract self fs p = Inr r" and "fs p = Document (JObj d)"
  shows "(field \<in> set REQUIRED_FIELDS \<longrightarrow>
            filter (\<lambda>f. code f = ''E010'' \<and> path f = ''$.'' @ field) (errors r)
              = (if dict_has d field then [] else [missing_required field]))
       \<and> filter (\<lambda>f. code f = ''E013'' \<and> path f = ''$.module_id'') (errors r)
           = (if re_match module_id_full (dict_lookup d ''module_id'' (JStr [])) = Inr True
              then [] else [invalid_module_id (dict_lookup d ''module_id'' (JStr []))])
       \<and> length (filter (\<lambda>f. code f = ''E013'' \<and> path f = ''$.module_abbr'') (errors r))
           = (if re_match module_abbr_full (dict_lookup d ''module_abbr'' (JStr [])) = Inr True
              then 0 else 1)
       \<and> length (filter (\<lambda>f. code f = ''E013'' \<and> path f = ''$.version'') (errors r))
           = (if re_match semver_full (dict_lookup d ''version'' (JStr [])) = Inr True
              then 0 else 1)
       \<and> length (filter (\<lambda>f. code f = ''E013'' \<and> path f = ''$.module_type'') (errors r))
           = (if py_in_set (dict_lookup d ''module_type'' (JStr [])) VALID_MODULE_TYPES = Inr True
              then 0 else 1)
       \<and> length (filter (\<lambda>f. code f = ''E014'' \<and> path f = ''$.module_name'') (errors r))
           = (if has_uk_and_en (dict_lookup d ''module_name'' (JObj [])) then 0 else 1)
       \<and> (dict_lookup d ''_schema'' (JObj []) = JObj s
            \<and> ts_field \<in> {''created_at'', ''updated_at''} \<longrightarrow>
            length (filter (\<lambda>f. code f = ''E012'' \<and> path f = ''$._schema.'' @ ts_field)
                      (errors r))
              = (if truthy (dict_lookup s ts_field (JStr []))
                    \<and> re_match timestamp_full (dict_lookup s ts_field (JStr [])) = Inr False
                 then 1 else 0))"
proof (intro conjI impI)
  note fe = filter_errors [OF assms]
  {
    assume f: "field \<in> set REQUIRED_FIELDS"
    let ?Q = "\<lambda>f. code f = ''E010'' \<and> path f = ''$.'' @ field"
    let ?xs = "map missing_required (filter (\<lambda>f. \<not> dict_has d f) REQUIRED_FIELDS)"
    have "\<exists>out. check_required_fields (JObj d) = Inr out
            \<and> filter ?Q (errors r) = filter (\<lambda>f. severity f = ERROR) (filter ?Q out)"
      by (rule fe(1) [where c = "''E010''"]) simp_all
    then have "filter ?Q (errors r) = filter (\<lambda>f. severity f = ERROR) (filter ?Q ?xs)"
      unfolding check_required_fields_dict by (elim exE conjE) (simp only: sum.inject)
    then have "filter ?Q (errors r) = filter ?Q ?xs"
      by (simp only: map_missing_required_errors)
    then show "filter (\<lambda>f. code f = ''E010'' \<and> path f = ''$.'' @ field) (errors r)
              = (if dict_has d field then [] else [missing_required field])"
      by (simp only: required_findings [OF f])
  }
  have idn: "\<exists>out. check_module_identity (JObj d) = Inr out
               \<and> filter (\<lambda>f. code f = c \<and> path f = q) (errors r)
                   = filter (\<lambda>f. code f = c \<and> path f = q) out"
    if c: "c \<in> {''E013'', ''E014''}" for c q
  proof -
    let ?Q = "\<lambda>f. code f = c \<and> path f = q"
    have "\<exists>out. check_module_identity (JObj d) = Inr out
            \<and> filter ?Q (errors r) = filter (\<lambda>f. severity f = ERROR) (filter ?Q out)"
      by (rule fe(3) [where c = c]) (simp, rule c)
    then obtain out where o: "check_module_identity (JObj d) = Inr out"
      "filter ?Q (errors r) = filter (\<lambda>f. severity f = ERROR) (filter ?Q out)"
      by blast
    have a: "all_issues (\<lambda>f. severity f = ERROR) (Inr out)"
      using check_module_identity_errors [of "JObj d"] by (simp only: o(1))
    have "filter ?Q (errors r) = filter ?Q out"
      by (simp only: o(2) filter_all_errors [OF a])
    with o(1) show ?thesis by blast
  qed
  from idn [of "''E013''" "''$.module_id''"]
  show "filter (\<lambda>f. code f = ''E013'' \<and> path f = ''$.module_id'') (errors r)
           = (if re_match module_id_full (dict_lookup d ''module_id'' (JStr [])) = Inr True
              then [] else [invalid_module_id (dict_lookup d ''module_id'' (JStr []))])"
    using identity_findings(1) by fastforce
  from idn [of "''E013''" "''$.module_abbr''"]
  show "length (filter (\<lambda>f. code f = ''E013'' \<and> path f = ''$.module_abbr'') (errors r))
           = (if re_match module_abbr_full (dict_lookup d ''module_abbr'' (JStr [])) = Inr True
              then 0 else 1)"
    using identity_findings(2) by fastforce
  from idn [of "''E013''" "''$.version''"]
  show "length (filter (\<lambda>f. code f = ''E013'' \<and> path f = ''$.version'') (errors r))
           = (if re_match semver_full (dict_lookup d ''version'' (JStr [])) = Inr True
              then 0 else 1)"
    using identity_findings(3) by fastforce
  from idn [of "''E013''" "''$.module_type''"]
  show "length (filter (\<lambda>f. code f = ''E013'' \<and> path f = ''$.module_type'') (errors r))
           = (if py_in_set (dict_lookup d ''module_type'' (JStr [])) VALID_MODULE_TYPES = Inr True
              then 0 else 1)"
    using identity_findings(4) by fastforce
  from idn [of "''E014''" "''$.module_name''"]
  show "length (filter (\<lambda>f. code f = ''E014'' \<and> path f = ''$.module_name'') (errors r))
           = (if has_uk_and_en (dict_lookup d ''module_name'' (JObj [])) then 0 else 1)"
    using identity_findings(5) by fastforce
  {
    assume h: "dict_lookup d ''_schema'' (JObj []) = JObj s
               \<and> ts_field \<in> {''created_at'', ''updated_at''}"
    let ?Q = "\<lambda>f. code f = ''E012'' \<and> path f = ''$._schema.'' @ ts_field"
    have "\<exists>out. check_schema_block (JObj d) = Inr out
            \<and> filter ?Q (errors r) = filter (\<lambda>f. severity f = ERROR) (filter ?Q out)"
      by (rule fe(2) [where c = "''E012''"]) simp_all
    then obtain out where o: "check_schema_block (JObj d) = Inr out"
      and o': "filter ?Q (errors r) = filter (\<lambda>f. severity f = ERROR) (filter ?Q out)"
      by blast
    have a: "all_issues (\<lambda>f. severity f = ERROR) (Inr out)"
      using check_schema_block_errors [of "JObj d"] by (simp only: o)
    have o2: "filter ?Q (errors r) = filter ?Q out"
      by (simp only: o' filter_all_errors [OF a])
    from h show "length (filter ?Q (errors r))
              = (if truthy (dict_lookup s ts_field (JStr []))
                    \<and> re_match timestamp_full (dict_lookup s ts_field (JStr [])) = Inr False
                 then 1 else 0)"
      unfolding o2 by (intro timestamp_findings [OF o]) simp_all
  }
qed

lemma validate_malformed:
  "validate_contract plain_validator (\<lambda>p. Document malformed_contract) ''c.json''
     = Inr malformed_result"
  by code_simp

lemma malformed_facts:
  "malformed_contract = JObj malformed_items"
  "dict_lookup malformed_items ''_schema'' (JObj []) = JObj malformed_schema"
  "''module_id'' \<in> set REQUIRED_FIELDS"
  "\<not> dict_has malformed_items ''module_id''"
  "dict_lookup malformed_items ''module_id'' (JStr []) = JStr []"
  "re_match module_id_full (JStr []) = Inr False"
  "dict_lookup malformed_schema ''created_at'' (JStr []) = JStr []"
  "dict_lookup malformed_schema ''updated_at'' (JStr []) = JStr ''yesterday''"
  "re_match timestamp_full (JStr ''yesterday'') = Inr False"
  by code_simp+

lemma validate_misnamed:
  "validate_contract plain_validator (\<lambda>p. Document (JObj misnamed_items)) ''c.json''
     = Inr misnamed_result"
  by code_simp

lemma misnamed_facts:
  "dict_lookup misnamed_items ''module_type'' (JStr []) = JStr ''OTHER''"
  "py_in_set (JStr ''OTHER'') VALID_MODULE_TYPES = Inr False"
  "dict_lookup misnamed_items ''module_name'' (JObj []) = JObj [(''uk'', JStr ''x'')]"
  "\<not> has_uk_and_en (JObj [(''uk'', JStr ''x'')])"
  "dict_lookup misnamed_items ''module_id'' (JStr []) = JStr ''A-IV-12.3''"
  "re_match module_id_full (JStr ''A-IV-12.3'') = Inr True"
  by code_simp+

lemma validate_malformed_items:
  "validate_contract plain_validator (\<lambda>p. Document (JObj malformed_items)) ''c.json''
     = Inr malformed_result"
  using validate_malformed by (simp only: malformed_facts(1))

theorem structural_findings_witness:
  "validate_contract plain_validator (\<lambda>p. Document (JObj malformed_items)) ''c.json''
     = Inr malformed_result
   \<and> ''module_id'' \<in> set REQUIRED_FIELDS \<and> \<not> dict_has malformed_items ''module_id''
   \<and> dict_lookup malformed_items ''_schema'' (JObj []) = JObj malformed_schema
   \<and> dict_lookup malformed_schema ''created_at'' (JStr []) = JStr []
   \<and> dict_lookup malformed_schema ''updated_at'' (JStr []) = JStr ''yesterday''
   \<and> filter (\<lambda>f. code f = ''E010'' \<and> path f = ''$.module_id'') (errors malformed_result)
       = [missing_required ''module_id'']
   \<and> filter (\<lambda>f. code f = ''E013'' \<and> path f = ''$.module_id'') (errors malformed_result)
       = [invalid_module_id (JStr [])]
   \<and> length (filter (\<lambda>f. code f = ''E012'' \<and> path f = ''$._schema.updated_at'')
                (errors malformed_result)) = 1
   \<and> length (filter (\<lambda>f. code f = ''E012'' \<and> path f = ''$._schema.created_at'')
                (errors malformed_result)) = 0
   \<and> validate_contract plain_validator (\<lambda>p. Document (JObj misnamed_items)) ''c.json''
       = Inr misnamed_result
   \<and> dict_lookup misnamed_items ''module_type'' (JStr []) = JStr ''OTHER''
   \<and> dict_lookup misnamed_items ''module_name'' (JObj []) = JObj [(''uk'', JStr ''x'')]
   \<and> length (filter (\<lambda>f. code f = ''E013'' \<and> path f = ''$.module_type'')
                (errors misnamed_result)) = 1
   \<and> length (filter (\<lambda>f. code f = ''E014'' \<and> path f = ''$.module_name'')
                (errors misnamed_result)) = 1
   \<and> filter (\<lambda>f. code f = ''E013'' \<and> path f = ''$.module_id'') (errors misnamed_result)
       = []"
  using structural_findings [OF validate_misnamed refl]
        validate_misnamed misnamed_facts
        structural_findings
          [OF validate_malformed_items refl,
           of "''module_id''" malformed_schema "''updated_at''"]
        structural_findings
          [OF validate_malformed_items refl,
           of "''module_id''" malformed_schema "''created_at''"]
        validate_malformed_items malformed_facts
  by simp

text \<open>
  The claim as stated fails in both directions. In this contract \<open>module_id\<close> is missing
  and has two error findings with the path \<open>$.module_id\<close>, one of the required-fields
  check and one of the identity check; and \<open>created_at\<close> is present and empty, which
  does not match the timestamp format, and has no finding at all.
\<close>

theorem one_finding_per_field_counterexample:
  "validate_contract plain_validator (\<lambda>p. Document malformed_contract) ''c.json''
     = Inr malformed_result
   \<and> errors malformed_result
       = [missing_required ''module_id'', malformed_timestamp ''updated_at'',
          invalid_module_id (JStr [])]
   \<and> path (missing_required ''module_id'') = ''$.module_id''
   \<and> path (invalid_module_id (JStr [])) = ''$.module_id''
   \<and> path (malformed_timestamp ''updated_at'') = ''$._schema.updated_at''
   \<and> malformed_contract = JObj malformed_items
   \<and> \<not> dict_has malformed_items ''module_id''
   \<and> dict_lookup malformed_items ''_schema'' (JObj []) = JObj malformed_schema
   \<and> dict_has malformed_schema ''created_at''
   \<and> dict_lookup malformed_schema ''created_at'' (JStr []) = JStr []
   \<and> re_match timestamp_full (JStr []) = Inr False"
  by (simp add: malformed_result_def) code_simp

subsection \<open>Exceptions of validation\<close>

lemma not_lint_error_Inr [simp]: "not_lint_error (Inr v)"
  by (simp add: not_lint_error_def)

lemma not_lint_error_Inl [simp]: "not_lint_error (Inl e) \<longleftrightarrow> e \<noteq> ContractLintError"
  by (simp add: not_lint_error_def)

lemma not_lint_error_andThen:
  "not_lint_error m \<Longrightarrow> (\<And>v. not_lint_error (f v)) \<Longrightarrow> not_lint_error (andThen m f)"
  by (cases m) simp_all

lemma not_lint_error_for_each:
  "(\<And>x. not_lint_error (body x)) \<Longrightarrow> not_lint_error (for_each body xs)"
proof (induction xs)
  case Nil
  then show ?case by simp
next
  case (Cons x xs)
  then show ?case
    using Cons.prems [of x]
    by (cases "body x"; cases "for_each body xs") simp_all
qed

lemma not_lint_error_for_enumerate:
  "(\<And>j x. not_lint_error (body j x)) \<Longrightarrow> not_lint_error (for_enumerate body i xs)"
proof (induction xs arbitrary: i)
  case Nil
  then show ?case by simp
next
  case (Cons x xs)
  show ?case
    using Cons.prems [of i x] Cons.IH [of "Suc i", OF Cons.prems]
    by (cases "body i x"; cases "for_enumerate body (Suc i) xs") simp_all
qed

lemma not_lint_error_for_state:
  "(\<And>j x t. not_lint_error (body j x t)) \<Longrightarrow> not_lint_error (for_state body i xs s)"
proof (induction xs arbitrary: i s)
  case Nil
  then show ?case by simp
next
  case (Cons x xs)
  show ?case
  proof (cases "body i x s")
    case (Inl e)
    with Cons.prems [of i x s] show ?thesis by simp
  next
    case (Inr r)
    obtain o1 s1 where r: "r = (o1, s1)" by (cases r)
    show ?thesis
      using Cons.IH [of "Suc i" s1, OF Cons.prems]
      by (cases "for_state body (Suc i) xs s1") (auto simp: Inr r)
  qed
qed

lemma not_lint_error_case_json:
  "not_lint_error a \<Longrightarrow> (\<And>b. not_lint_error (fb b))
   \<Longrightarrow> (\<And>n. not_lint_error (fn n))
   \<Longrightarrow> (\<And>s. not_lint_error (fs s))
   \<Longrightarrow> (\<And>l. not_lint_error (fl l))
   \<Longrightarrow> (\<And>kvs. not_lint_error (fo kvs))
   \<Longrightarrow> not_lint_error (case_json a fb fn fs fl fo x)"
  by (cases x) simp_all

lemma not_lint_error_if:
  "not_lint_error a \<Longrightarrow> not_lint_error b \<Longrightarrow> not_lint_error (if c then a else b)"
  by simp

lemma not_lint_error_case_prod:
  "(\<And>a b. not_lint_error (g a b)) \<Longrightarrow> not_lint_error (case_prod g x)"
  by (cases x) simp

lemma not_lint_error_case_option:
  "not_lint_error a \<Longrightarrow> (\<And>v. not_lint_error (f v)) \<Longrightarrow> not_lint_error (case_option a f x)"
  by (cases x) simp_all

lemma not_lint_error_py_get [simp]: "not_lint_error (py_get x k d)"
  by (cases x) simp_all

lemma not_lint_error_py_contains [simp]: "not_lint_error (py_contains k x)"
  by (cases x) simp_all

lemma not_lint_error_py_iter [simp]: "not_lint_error (py_iter x)"
  by (cases x) simp_all

lemma not_lint_error_py_keys [simp]: "not_lint_error (py_keys x)"
  by (cases x) simp_all

lemma not_lint_error_py_values [simp]: "not_lint_error (py_values x)"
  by (cases x) simp_all

lemma not_lint_error_py_startswith [simp]: "not_lint_error (py_startswith x p)"
  by (cases x) simp_all

lemma not_lint_error_re_match [simp]: "not_lint_error (re_match full x)"
  by (cases x) simp_all

lemma not_lint_error_hash_key [simp]: "not_lint_error (hash_key x)"
  by (cases x) simp_all

lemma not_lint_error_py_in_set [simp]: "not_lint_error (py_in_set x s)"
  by (cases x) (simp_all add: py_in_set_def)

lemma not_lint_error_set_of_values [simp]: "not_lint_error (set_of_values vs s)"
proof (induction vs arbitrary: s)
  case Nil
  then show ?case by simp
next
  case (Cons v vs)
  then show ?case by (cases v) simp_all
qed

lemma not_lint_error_collect_field [simp]: "not_lint_error (collect_field field xs s)"
proof (induction xs arbitrary: s)
  case Nil
  then show ?case by simp
next
  case (Cons x xs)
  show ?case
  proof (cases "py_get x field JNull")
    case (Inl e)
    with not_lint_error_py_get [of x field JNull] show ?thesis by simp
  next
    case (Inr v)
    then show ?thesis using Cons.IH by (cases v) simp_all
  qed
qed

lemma not_lint_error_grouped_params [simp]: "not_lint_error (grouped_params gs s)"
proof (induction gs arbitrary: s)
  case Nil
  then show ?case by simp
next
  case (Cons g gs)
  show ?case
  proof (cases g)
    case (JList xs)
    show ?thesis
      using not_lint_error_set_of_values [of xs s] Cons.IH
      by (cases "set_of_values xs s") (simp_all add: JList)
  qed (simp_all add: Cons.IH)
qed

lemmas not_lint_error_intros =
  not_lint_error_andThen not_lint_error_for_each not_lint_error_for_enumerate
  not_lint_error_for_state not_lint_error_case_json not_lint_error_if
  not_lint_error_case_prod not_lint_error_case_option

lemma run_checks_not_lint_error: "not_lint_error (run_checks self data)"
  unfolding run_checks_def check_required_fields_def check_schema_block_def
    timestamp_issues_def check_module_identity_def check_parameters_def parameter_issues_def
    check_constraints_def constraint_issues_def error_codes_defined_def set_of_field_def
    check_validation_rules_def rule_issues_def check_error_codes_def error_code_issues_def
    code_format_issues_def check_algorithm_def step_issues_def step_id_issues_def
    step_type_issues_def uses_issues_def io_artifact_ids_def io_artifact_members_def
    members_of_field_def check_io_contract_def
    io_direction_issues_def io_artifact_issues_def check_test_cases_def test_case_issues_def
    check_policies_def check_relations_def glossary_issues_def check_glossary_coverage_def
    Let_def
  by (intro not_lint_error_intros; simp)

lemma load_failure_iff_unreadable:
  "validate_contract self fs p = Inl ContractLintError \<longleftrightarrow> (\<forall>data. fs p \<noteq> Document data)"
proof (cases "fs p")
  case (Document data)
  have "validate_contract self fs p \<noteq> Inl ContractLintError"
    using run_checks_not_lint_error [of self data]
    by (cases "run_checks self data") (simp_all add: validate_contract_def load_json_def Document)
  with Document show ?thesis by simp
qed (simp_all add: validate_contract_def load_json_def)

text \<open>
  Claim C3 does not hold of the code. A load failure is raised exactly when the document
  cannot be read (\<open>load_failure_iff_unreadable\<close>), but a document that loads can still
  end validation with an exception: an entry of \<open>error_codes\<close> that is not an object
  passes \<^verbatim>\<open>_check_error_codes\<close>, which tests \<^verbatim>\<open>isinstance(ec, dict)\<close>, and raises
  \<^verbatim>\<open>AttributeError\<close> in the set comprehension of \<^verbatim>\<open>_check_constraints\<close>; a document
  that is a list raises it at \<^verbatim>\<open>data.get\<close>; a \<open>module_id\<close> that is a number raises
  \<^verbatim>\<open>TypeError\<close> in the regular expression match.
\<close>

theorem invalid_document_raises:
  "validate_contract plain_validator (\<lambda>p. Document unguarded_registry_contract) ''c.json''
     = Inl AttributeError
   \<and> check_error_codes unguarded_registry_contract = Inr []
   \<and> check_constraints unguarded_registry_contract = Inl AttributeError
   \<and> validate_contract plain_validator (\<lambda>p. Document (JList [])) ''c.json''
     = Inl AttributeError
   \<and> validate_contract plain_validator (\<lambda>p. Document numeric_id_contract) ''c.json''
     = Inl TypeError"
  by code_simp

end
